theory Spec2Isabelle
  imports Main "HOL-Library.Word" "HOL-Library.List_Lexorder" "HOL-Library.Char_ord"
    "HOL-Library.Mapping" "HOL-Library.AList_Mapping"
begin

chapter \<open>The CNI plugin manager of ocicni (pkg/ocicni/ocicni.go)\<close>

text \<open>
  The development embeds the Go package \<^verbatim>\<open>ocicni\<close> in HOL, function by function, and
  proves properties of the embedded functions.  Conventions:
  \<^item> a Go struct is a record, a slice is a list, a Go map is a partial function, or a
    \<open>mapping\<close> where the source asks for its length;
  \<^item> a method that mutates the plugin takes the plugin and returns the new one;
  \<^item> a Go \<^verbatim>\<open>error\<close> is a value of type \<open>error\<close>; a run-time panic, a fatal run-time
    error and a wait on a held mutex are values of type \<open>failure\<close>;
  \<^item> code that lives outside the package (libcni, the operating system, the plugin
    binaries) is a parameter: a record of functions, over a state \<open>'w\<close> of the outside
    world where the call has effects;
  \<^item> every call that leaves the package is appended to a trace, so that the order of
    the calls can be stated.
\<close>

section \<open>Functions of the Go standard library\<close>

text \<open>\<^verbatim>\<open>strings.HasSuffix(s, suffix)\<close>.\<close>

definition HasSuffix :: "string \<Rightarrow> string \<Rightarrow> bool" where
  "HasSuffix s suffix =
     (length suffix \<le> length s \<and> drop (length s - length suffix) s = suffix)"

text \<open>
  \<^verbatim>\<open>path.Base(path)\<close>: the last element of the path.  Trailing slashes are removed
  first; the empty path gives \<^verbatim>\<open>"."\<close>, a path of slashes only gives \<^verbatim>\<open>"/"\<close>.
\<close>

definition path_Base :: "string \<Rightarrow> string" where
  "path_Base path =
     (if path = [] then ''.''
      else
        let stripped = rev (dropWhile (\<lambda>c. c = CHR ''/'') (rev path));
            last_elem = rev (takeWhile (\<lambda>c. c \<noteq> CHR ''/'') (rev stripped))
        in if last_elem = [] then ''/'' else last_elem)"

text \<open>\<^verbatim>\<open>fmt.Sprintf("%d", n)\<close> for a slice index \<open>n\<close> (never negative).\<close>

fun Sprintf_d :: "nat \<Rightarrow> string" where
  "Sprintf_d n =
     (if n < 10 then [''0123456789'' ! n]
      else Sprintf_d (n div 10) @ [''0123456789'' ! (n mod 10)])"

declare Sprintf_d.simps [simp del]

text \<open>
  \<^verbatim>\<open>sort.Strings(files)\<close>: ascending byte-wise lexicographic order, which is the order
  of \<open>string\<close> here (lists of characters compared lexicographically, characters by
  their code).
\<close>

definition sort_Strings :: "string list \<Rightarrow> string list" where
  "sort_Strings files = sort files"

section \<open>Errors, failures and the log\<close>

text \<open>
  The error values the package itself creates, and \<open>ErrExternal\<close> for an error value
  it receives from outside (libcni, the operating system) and passes on unchanged.
\<close>

datatype error =
    ErrUninitialized            \<comment> \<open>\<^verbatim>\<open>errors.New("cni config uninitialized")\<close>\<close>
  | ErrNetworkNotFound string   \<comment> \<open>\<^verbatim>\<open>fmt.Errorf("CNI network %q not found", name)\<close>\<close>
  | errMissingDefaultNetwork    \<comment> \<open>\<^verbatim>\<open>errors.New("Missing CNI default network")\<close>\<close>
  | ErrNoValidNetworks string   \<comment> \<open>\<^verbatim>\<open>fmt.Errorf("No valid networks found in %s", dir)\<close>\<close>
  | ErrExternal string          \<comment> \<open>an error returned by code outside the package\<close>

text \<open>
  How a call can end other than by returning a result: it returns an error; it panics
  (an index out of range); the run-time system stops the process (unlock of an unlocked
  mutex); it waits for a mutex that is held.
\<close>

datatype failure =
    Err error
  | PanicIndexOutOfRange
  | FatalUnlockOfUnlockedMutex
  | BlockedOnMutex

datatype level = DebugLevel | InfoLevel | WarnLevel | ErrorLevel

text \<open>
  A line of the logrus log: its level, which message it is, and the first argument of
  the format string (a pod key, a file, a directory or a network name).  Modelled are
  the lines of the lock table and of the loader; the other calls of logrus only write
  text and are left out.
\<close>

datatype message =
    UnbalancedUnref         \<comment> \<open>\<^verbatim>\<open>"Unbalanced pod lock unref for %s"\<close>\<close>
  | ZeroRefcountInMap       \<comment> \<open>\<^verbatim>\<open>"Pod lock for %s still in map with zero refcount"\<close>\<close>
  | ErrorLoadingConfList    \<comment> \<open>\<^verbatim>\<open>"Error loading CNI config list file %s: %v"\<close>\<close>
  | ErrorLoadingConf        \<comment> \<open>\<^verbatim>\<open>"Error loading CNI config file %s: %v"\<close>\<close>
  | NoTypeInConf            \<comment> \<open>\<^verbatim>\<open>"Error loading CNI config file %s: no 'type'; perhaps this is a .conflist?"\<close>\<close>
  | ErrorConvertingConf     \<comment> \<open>\<^verbatim>\<open>"Error converting CNI config file %s to list: %v"\<close>\<close>
  | NoNetworksSkipping      \<comment> \<open>\<^verbatim>\<open>"CNI config list %s has no networks, skipping"\<close>\<close>
  | FoundNetwork            \<comment> \<open>\<^verbatim>\<open>"Found CNI network %s (type=%v) at %s"\<close>\<close>
  | ErrorLoadingNetworks    \<comment> \<open>\<^verbatim>\<open>"Error loading CNI networks: %s"\<close>\<close>

type_synonym log_entry = "level \<times> message \<times> string"

section \<open>Data\<close>

subsection \<open>Types of libcni\<close>

text \<open>
  Of \<^verbatim>\<open>types.NetConf\<close>, \<^verbatim>\<open>libcni.NetworkConfig\<close> and \<^verbatim>\<open>libcni.NetworkConfigList\<close> the
  package reads the names, the plugin type and the plugin list; the raw JSON bytes are
  never read and are left out.  Field names that two Go structs share carry the
  struct's name here.
\<close>

record NetConf =
  NetConf_Name :: string
  Type :: string

record NetworkConfig =
  Network :: NetConf

record NetworkConfigList =
  ConfList_Name :: string
  ConfList_CNIVersion :: string
  Plugins :: "NetworkConfig list"

record CNIConfig =
  Path :: "string list"

text \<open>\<^verbatim>\<open>PortMapping\<close> is declared in a file of the package that is not at hand;
  the functions here only pass port mappings on.\<close>

typedecl PortMapping

record RuntimeConf =
  ContainerID :: string
  RuntimeConf_NetNS :: string
  IfName :: string
  Args :: "(string \<times> string) list"
  CapabilityArgs :: "(string \<times> PortMapping list) list"

text \<open>\<^verbatim>\<open>net.IPNet\<close>; a \<^verbatim>\<open>net.HardwareAddr\<close> is kept in its printed form.\<close>

record IPNet =
  IP :: "8 word list"
  Mask :: "8 word list"

type_synonym HardwareAddr = string

text \<open>\<^verbatim>\<open>cnitypes.Result\<close>, with the fields of \<^verbatim>\<open>cnicurrent.Result\<close> the package fills.\<close>

record Interface =
  Interface_Name :: string
  Mac :: string
  Sandbox :: string

record IPConfig =
  Version :: string
  Interface :: "int option"
  Address :: IPNet

record Result =
  CNIVersion :: string
  Interfaces :: "Interface list"
  IPs :: "IPConfig list"

subsection \<open>Types of the package\<close>

text \<open>
  \<^verbatim>\<open>PodNetwork\<close> is declared in a file of the package that is not at hand; these are
  the fields the functions here read.
\<close>

record PodNetwork =
  Name :: string
  Namespace :: string
  ID :: string
  NetNS :: string
  Networks :: "string list"
  PortMappings :: "PortMapping list"

record cniNetwork =
  name :: string
  NetworkConfig :: NetworkConfigList
  CNIConfig :: CNIConfig

text \<open>
  \<^verbatim>\<open>podLock\<close>: the reference count is a Go \<^verbatim>\<open>uint\<close> (64 bits; \<^verbatim>\<open>++\<close> and \<^verbatim>\<open>--\<close> wrap
  around), the mutex is held (\<open>True\<close>) or free.
\<close>

record podLock =
  refcount :: "64 word"
  mu :: bool

text \<open>
  The pod map holds pointers (\<^verbatim>\<open>map[string]*podLock\<close>).  A pointer is an address of
  the store \<open>heap\<close>; \<open>next_addr\<close> is the first address that \<^verbatim>\<open>&podLock{}\<close> has not handed
  out yet.  The read-write mutex of the plugin and the channel of the directory monitor
  have no sequential content and are left out.
\<close>

type_synonym addr = nat

record cniNetworkPlugin =
  loNetwork :: cniNetwork
  defaultNetName :: string
  networks :: "(string, cniNetwork) mapping"
  nsenterPath :: string
  pluginDir :: string
  cniDirs :: "string list"
  vendorCNIDirPrefix :: string
  pods :: "string \<rightharpoonup> addr"
  heap :: "addr \<Rightarrow> podLock"
  next_addr :: addr

section \<open>The pod lock table\<close>

definition buildFullPodName :: "PodNetwork \<Rightarrow> string" where
  "buildFullPodName podNetwork = Namespace podNetwork @ ''_'' @ Name podNetwork"

text \<open>
  \<^verbatim>\<open>podLock\<close> returns the address of the entry's mutex, which is the address of the
  entry.  A missing entry is allocated (\<^verbatim>\<open>&podLock{}\<close>: count zero, mutex free) and
  put into the map; then the count is incremented.
\<close>

definition podLock :: "cniNetworkPlugin \<Rightarrow> PodNetwork \<Rightarrow> addr \<times> cniNetworkPlugin" where
  "podLock plugin podNetwork =
     (let fullPodName = buildFullPodName podNetwork;
          (lock, plugin1) =
            (case pods plugin fullPodName of
               Some lock \<Rightarrow> (lock, plugin)
             | None \<Rightarrow>
                 (let lock = next_addr plugin
                  in (lock, plugin\<lparr>heap := (heap plugin)(lock := \<lparr>refcount = 0, mu = False\<rparr>),
                                    next_addr := Suc lock,
                                    pods := (pods plugin)(fullPodName \<mapsto> lock)\<rparr>)))
      in (lock, plugin1\<lparr>heap := (heap plugin1)
                (lock := (heap plugin1 lock)\<lparr>refcount := refcount (heap plugin1 lock) + 1\<rparr>)\<rparr>))"

text \<open>\<^verbatim>\<open>(*sync.Mutex).Lock\<close> on the mutex at an address: it waits while the mutex is held.\<close>

definition Mutex_Lock :: "addr \<Rightarrow> cniNetworkPlugin \<Rightarrow> failure + cniNetworkPlugin" where
  "Mutex_Lock m plugin =
     (if mu (heap plugin m) then Inl BlockedOnMutex
      else Inr (plugin\<lparr>heap := (heap plugin)(m := (heap plugin m)\<lparr>mu := True\<rparr>)\<rparr>))"

text \<open>
  \<^verbatim>\<open>podUnlock\<close> returns the new plugin and the lines it logged.  \<^verbatim>\<open>lock.mu.Unlock()\<close>
  on a free mutex is a fatal error of the Go run-time system.
\<close>

definition podUnlock ::
  "cniNetworkPlugin \<Rightarrow> PodNetwork \<Rightarrow> failure + cniNetworkPlugin \<times> log_entry list" where
  "podUnlock plugin podNetwork =
     (let fullPodName = buildFullPodName podNetwork in
      case pods plugin fullPodName of
        None \<Rightarrow> Inr (plugin, [(WarnLevel, UnbalancedUnref, fullPodName)])
      | Some lock \<Rightarrow>
          if refcount (heap plugin lock) = 0 then
            Inr (plugin\<lparr>pods := (pods plugin)(fullPodName := None)\<rparr>,
                 [(ErrorLevel, ZeroRefcountInMap, fullPodName)])
          else
            let plugin1 = plugin\<lparr>heap := (heap plugin)
                  (lock := (heap plugin lock)\<lparr>refcount := refcount (heap plugin lock) - 1\<rparr>)\<rparr>
            in if \<not> mu (heap plugin1 lock) then Inl FatalUnlockOfUnlockedMutex
               else
                 let plugin2 = plugin1\<lparr>heap := (heap plugin1)
                       (lock := (heap plugin1 lock)\<lparr>mu := False\<rparr>)\<rparr>
                 in if refcount (heap plugin2 lock) = 0
                    then Inr (plugin2\<lparr>pods := (pods plugin2)(fullPodName := None)\<rparr>, [])
                    else Inr (plugin2, []))"

subsection \<open>Sequences of operations on the table\<close>

text \<open>
  The goroutines that work on the table interleave three kinds of steps: a call of
  \<^verbatim>\<open>podLock\<close> (\<open>Acquire\<close>), the \<^verbatim>\<open>Lock()\<close> of a mutex that an earlier \<^verbatim>\<open>podLock\<close> returned
  (\<open>LockMutex\<close>), and a call of \<^verbatim>\<open>podUnlock\<close> (\<open>Release\<close>).  A sequence of steps runs
  until a step fails.
\<close>

datatype lock_op = Acquire PodNetwork | LockMutex addr | Release PodNetwork

fun lock_step :: "cniNetworkPlugin \<Rightarrow> lock_op \<Rightarrow> failure + cniNetworkPlugin" where
  "lock_step plugin (Acquire podNetwork) = Inr (snd (podLock plugin podNetwork))"
| "lock_step plugin (LockMutex m) = Mutex_Lock m plugin"
| "lock_step plugin (Release podNetwork) =
     (case podUnlock plugin podNetwork of Inl f \<Rightarrow> Inl f | Inr (plugin', logged) \<Rightarrow> Inr plugin')"

fun lock_run :: "cniNetworkPlugin \<Rightarrow> lock_op list \<Rightarrow> failure + cniNetworkPlugin" where
  "lock_run plugin [] = Inr plugin"
| "lock_run plugin (op # ops) =
     (case lock_step plugin op of Inl f \<Rightarrow> Inl f | Inr plugin' \<Rightarrow> lock_run plugin' ops)"

text \<open>
  A sequence is balanced for a key when, among its steps for that key, every \<open>Release\<close>
  has an \<open>Acquire\<close> of its own before it and no \<open>Acquire\<close> is left over: \<open>depth\<close> counts
  the \<open>Acquire\<close> steps that are still open.  (\<^verbatim>\<open>podUnlock\<close> itself calls a release
  without an entry unbalanced.)
\<close>

fun balanced_from :: "nat \<Rightarrow> string \<Rightarrow> lock_op list \<Rightarrow> bool" where
  "balanced_from depth key [] = (depth = 0)"
| "balanced_from depth key (Acquire podNetwork # ops) =
     (if buildFullPodName podNetwork = key then balanced_from (Suc depth) key ops
      else balanced_from depth key ops)"
| "balanced_from depth key (LockMutex m # ops) = balanced_from depth key ops"
| "balanced_from depth key (Release podNetwork # ops) =
     (if buildFullPodName podNetwork = key then 0 < depth \<and> balanced_from (depth - 1) key ops
      else balanced_from depth key ops)"

definition balanced :: "string \<Rightarrow> lock_op list \<Rightarrow> bool" where
  "balanced key ops = balanced_from 0 key ops"

text \<open>
  The pod map as Go builds it: every pointer in it has been allocated, and no two keys
  share an entry.
\<close>

definition pods_wf :: "cniNetworkPlugin \<Rightarrow> bool" where
  "pods_wf plugin =
     ((\<forall>key lock. pods plugin key = Some lock \<longrightarrow> lock < next_addr plugin) \<and>
      (\<forall>key key' lock. pods plugin key = Some lock \<and> pods plugin key' = Some lock \<longrightarrow> key = key'))"

section \<open>Loading the networks of the configuration directory\<close>

text \<open>
  What the loader needs from outside the package at one moment: the constants
  \<^verbatim>\<open>DefaultNetDir\<close>, \<^verbatim>\<open>DefaultCNIDir\<close> and \<^verbatim>\<open>VendorCNIDirTemplate\<close> (declared in a file
  of the package that is not at hand; the template is given applied to its two
  arguments), \<^verbatim>\<open>exec.LookPath\<close>, \<^verbatim>\<open>os.Stat\<close>, and the functions of libcni that list and
  parse the files of a directory.  An error of theirs is its message.
\<close>

record host =
  DefaultNetDir :: string
  DefaultCNIDir :: string
  VendorCNIDirTemplate :: "string \<Rightarrow> string \<Rightarrow> string"
  LookPath :: "string \<Rightarrow> string + string"
  Stat :: "string \<Rightarrow> string option"
  ConfFiles :: "string \<Rightarrow> string list \<Rightarrow> string + string list"
  ConfListFromFile :: "string \<Rightarrow> string + NetworkConfigList"
  ConfFromFile :: "string \<Rightarrow> string + NetworkConfig"
  ConfListFromConf :: "NetworkConfig \<Rightarrow> string + NetworkConfigList"

definition vendorCNIDir :: "host \<Rightarrow> string \<Rightarrow> string \<Rightarrow> string" where
  "vendorCNIDir host prefix pluginType = VendorCNIDirTemplate host prefix pluginType"

text \<open>
  The first part of the loop body of \<^verbatim>\<open>loadNetworks\<close>: reading one file into a
  configuration list, or the warning that is logged before \<^verbatim>\<open>continue\<close>.
\<close>

definition loadNetworks_file :: "host \<Rightarrow> string \<Rightarrow> log_entry + NetworkConfigList" where
  "loadNetworks_file host confFile =
     (if HasSuffix confFile ''.conflist'' then
        (case ConfListFromFile host confFile of
           Inl err \<Rightarrow> Inl (WarnLevel, ErrorLoadingConfList, confFile)
         | Inr confList \<Rightarrow> Inr confList)
      else
        (case ConfFromFile host confFile of
           Inl err \<Rightarrow> Inl (WarnLevel, ErrorLoadingConf, confFile)
         | Inr conf \<Rightarrow>
             if Type (Network conf) = [] then Inl (WarnLevel, NoTypeInConf, confFile)
             else
               (case ConfListFromConf host conf of
                  Inl err \<Rightarrow> Inl (WarnLevel, ErrorConvertingConf, confFile)
                | Inr confList \<Rightarrow> Inr confList)))"

text \<open>
  The loop of \<^verbatim>\<open>loadNetworks\<close> over the sorted files, with the map, the default name
  and the log as they stand.  The search path of a network is \<^verbatim>\<open>plugin.cniDirs\<close> with the
  vendor directory of each plugin appended.
\<close>

fun loadNetworks_loop ::
  "host \<Rightarrow> cniNetworkPlugin \<Rightarrow> string list \<Rightarrow> (string, cniNetwork) mapping \<Rightarrow> string \<Rightarrow>
   log_entry list \<Rightarrow> (string, cniNetwork) mapping \<times> string \<times> log_entry list" where
  "loadNetworks_loop host plugin [] nets defName logged = (nets, defName, logged)"
| "loadNetworks_loop host plugin (confFile # files) nets defName logged =
     (case loadNetworks_file host confFile of
        Inl warning \<Rightarrow> loadNetworks_loop host plugin files nets defName (logged @ [warning])
      | Inr parsed \<Rightarrow>
          if length (Plugins parsed) = 0 then
            loadNetworks_loop host plugin files nets defName
              (logged @ [(WarnLevel, NoNetworksSkipping, confFile)])
          else
            let confList =
                  (if ConfList_Name parsed = [] then parsed\<lparr>ConfList_Name := path_Base confFile\<rparr>
                   else parsed);
                cninet = \<lparr>Path = cniDirs plugin @
                            map (\<lambda>p. vendorCNIDir host (vendorCNIDirPrefix plugin) (Type (Network p)))
                              (Plugins confList)\<rparr>;
                nets' = Mapping.update (ConfList_Name confList)
                          \<lparr>name = ConfList_Name confList, NetworkConfig = confList,
                           CNIConfig = cninet\<rparr> nets;
                defName' = (if defName = [] then ConfList_Name confList else defName)
            in loadNetworks_loop host plugin files nets' defName'
                 (logged @ [(InfoLevel, FoundNetwork, ConfList_Name confList)]))"

definition loadNetworks ::
  "host \<Rightarrow> cniNetworkPlugin \<Rightarrow>
   (error + (string, cniNetwork) mapping \<times> string) \<times> log_entry list" where
  "loadNetworks host plugin =
     (case ConfFiles host (pluginDir plugin) [''.conf'', ''.conflist'', ''.json''] of
        Inl err \<Rightarrow> (Inl (ErrExternal err), [])
      | Inr files \<Rightarrow>
          if length files = 0 then (Inl errMissingDefaultNetwork, [])
          else
            let (nets, defName, logged) =
                  loadNetworks_loop host plugin (sort_Strings files) Mapping.empty [] []
            in if Mapping.is_empty nets
               then (Inl (ErrNoValidNetworks (pluginDir plugin)), logged)
               else (Inr (nets, defName), logged))"

text \<open>
  \<^verbatim>\<open>getLoNetwork\<close>: \<open>loConfig\<close> is what libcni reads from the JSON text in the source (a
  list named \<^verbatim>\<open>cni-loopback\<close>, version \<^verbatim>\<open>0.2.0\<close>, with the one plugin of type
  \<^verbatim>\<open>loopback\<close>).
\<close>

definition loConfig :: NetworkConfigList where
  "loConfig = \<lparr>ConfList_Name = ''cni-loopback'', ConfList_CNIVersion = ''0.2.0'',
               Plugins = [\<lparr>Network = \<lparr>NetConf_Name = [], Type = ''loopback''\<rparr>\<rparr>]\<rparr>"

definition getLoNetwork :: "host \<Rightarrow> string list \<Rightarrow> string \<Rightarrow> cniNetwork" where
  "getLoNetwork host dirs vendorDirPrefix =
     (let vendorDir = vendorCNIDir host vendorDirPrefix (Type (Network (hd (Plugins loConfig))));
          cninet = \<lparr>Path = dirs @ [vendorDir]\<rparr>
      in \<lparr>name = ''lo'', NetworkConfig = loConfig, CNIConfig = cninet\<rparr>)"

definition syncNetworkConfig ::
  "host \<Rightarrow> cniNetworkPlugin \<Rightarrow> error option \<times> cniNetworkPlugin \<times> log_entry list" where
  "syncNetworkConfig host plugin =
     (case loadNetworks host plugin of
        (Inl err, logged) \<Rightarrow>
          (Some err, plugin, logged @ [(ErrorLevel, ErrorLoadingNetworks, pluginDir plugin)])
      | (Inr (nets, defName), logged) \<Rightarrow>
          (None,
           plugin\<lparr>defaultNetName :=
                    (if defaultNetName plugin = [] then defName else defaultNetName plugin),
                  networks := nets\<rparr>,
           logged))"

text \<open>
  \<^verbatim>\<open>InitCNI\<close>.  When the first \<^verbatim>\<open>syncNetworkConfig\<close> fails, the source starts the directory
  monitor, whose only effect on the plugin is to call \<^verbatim>\<open>syncNetworkConfig\<close> again, on
  the directory as it is then: \<open>resync\<close> below is such a sequence of calls.
\<close>

definition InitCNI :: "host \<Rightarrow> string \<Rightarrow> string \<Rightarrow> string list \<Rightarrow> error + cniNetworkPlugin" where
  "InitCNI host defName dir dirs =
     (let vendorPrefix = [];
          dir = (if dir = [] then DefaultNetDir host else dir);
          dirs = (if length dirs = 0 then [DefaultCNIDir host] else dirs);
          plugin = \<lparr>loNetwork = getLoNetwork host dirs vendorPrefix,
                    defaultNetName = defName,
                    networks = Mapping.empty,
                    nsenterPath = [],
                    pluginDir = dir,
                    cniDirs = dirs,
                    vendorCNIDirPrefix = vendorPrefix,
                    pods = Map.empty,
                    heap = (\<lambda>a. \<lparr>refcount = 0, mu = False\<rparr>),
                    next_addr = 0\<rparr>
      in case LookPath host ''nsenter'' of
           Inl err \<Rightarrow> Inl (ErrExternal err)
         | Inr found \<Rightarrow>
             (case Stat host dir of
                Some err \<Rightarrow> Inl (ErrExternal err)
              | None \<Rightarrow> Inr (fst (snd (syncNetworkConfig host (plugin\<lparr>nsenterPath := found\<rparr>))))))"

fun resync :: "host list \<Rightarrow> cniNetworkPlugin \<Rightarrow> cniNetworkPlugin" where
  "resync [] plugin = plugin"
| "resync (host # hosts) plugin = resync hosts (fst (snd (syncNetworkConfig host plugin)))"

section \<open>Looking networks up\<close>

definition getNetwork :: "cniNetworkPlugin \<Rightarrow> string \<Rightarrow> error + cniNetwork" where
  "getNetwork plugin netName =
     (case Mapping.lookup (networks plugin) netName of
        None \<Rightarrow> Inl (ErrNetworkNotFound netName)
      | Some net \<Rightarrow> Inr net)"

definition getDefaultNetworkName :: "cniNetworkPlugin \<Rightarrow> string" where
  "getDefaultNetworkName plugin = defaultNetName plugin"

text \<open>\<^verbatim>\<open>getDefaultNetwork\<close> returns a pointer: \<open>None\<close> is \<^verbatim>\<open>nil\<close>.\<close>

definition getDefaultNetwork :: "cniNetworkPlugin \<Rightarrow> cniNetwork option" where
  "getDefaultNetwork plugin =
     (let defName = getDefaultNetworkName plugin in
      if defName = [] then None
      else (case getNetwork plugin defName of Inl err \<Rightarrow> None | Inr network \<Rightarrow> Some network))"

definition checkInitialized :: "cniNetworkPlugin \<Rightarrow> PodNetwork \<Rightarrow> error option" where
  "checkInitialized plugin podNetwork =
     (if length (Networks podNetwork) = 0 \<and> getDefaultNetwork plugin = None
      then Some ErrUninitialized else None)"

text \<open>\<^verbatim>\<open>Status()\<close> checks the zero value \<^verbatim>\<open>PodNetwork{}\<close>.\<close>

definition PodNetwork_zero :: PodNetwork where
  "PodNetwork_zero =
     \<lparr>Name = [], Namespace = [], ID = [], NetNS = [], Networks = [], PortMappings = []\<rparr>"

definition Status :: "cniNetworkPlugin \<Rightarrow> error option" where
  "Status plugin = checkInitialized plugin PodNetwork_zero"

section \<open>The plugin-execution engine and the trace of its calls\<close>

text \<open>
  The engine is outside the package: \<^verbatim>\<open>AddNetworkList\<close> and \<^verbatim>\<open>DelNetworkList\<close> of libcni
  (methods of the network's \<^verbatim>\<open>CNIConfig\<close>), and \<^verbatim>\<open>getContainerDetails\<close>, which is declared
  in a file of the package that is not at hand and asks the network namespace.  Each is
  a function of the state \<open>'w\<close> of the outside world, returns the new state, and fails
  with a message.
\<close>

record 'w engine =
  AddNetworkList ::
    "CNIConfig \<Rightarrow> NetworkConfigList \<Rightarrow> RuntimeConf \<Rightarrow> 'w \<Rightarrow> (string + Result) \<times> 'w"
  DelNetworkList ::
    "CNIConfig \<Rightarrow> NetworkConfigList \<Rightarrow> RuntimeConf \<Rightarrow> 'w \<Rightarrow> string option \<times> 'w"
  getContainerDetails ::
    "string \<Rightarrow> string \<Rightarrow> string \<Rightarrow> string \<Rightarrow> 'w \<Rightarrow> (string + IPNet \<times> HardwareAddr) \<times> 'w"

text \<open>A call of the engine, with its arguments and with what it returned.\<close>

datatype event =
    AddNetworkListCall cniNetwork RuntimeConf "string + Result"
  | DelNetworkListCall cniNetwork RuntimeConf "string option"
  | getContainerDetailsCall string string string string "string + IPNet \<times> HardwareAddr"

record 'w world =
  trace :: "event list"
  outside :: 'w

definition buildCNIRuntimeConf :: "PodNetwork \<Rightarrow> string \<Rightarrow> error + RuntimeConf" where
  "buildCNIRuntimeConf podNetwork ifName =
     (let rt = \<lparr>ContainerID = ID podNetwork,
                RuntimeConf_NetNS = NetNS podNetwork,
                IfName = ifName,
                Args = [(''IgnoreUnknown'', ''1''),
                        (''K8S_POD_NAMESPACE'', Namespace podNetwork),
                        (''K8S_POD_NAME'', Name podNetwork),
                        (''K8S_POD_INFRA_CONTAINER_ID'', ID podNetwork)],
                CapabilityArgs = []\<rparr>
      in if length (PortMappings podNetwork) = 0 then Inr rt
         else Inr (rt\<lparr>CapabilityArgs := [(''portMappings'', PortMappings podNetwork)]\<rparr>))"

text \<open>
  \<^verbatim>\<open>addToNetwork\<close> and \<^verbatim>\<open>deleteFromNetwork\<close>.  The log line before the call of the engine
  reads \<^verbatim>\<open>netconf.Plugins[0]\<close>, which panics on an empty plugin list.
\<close>

definition addToNetwork ::
  "'w engine \<Rightarrow> cniNetwork \<Rightarrow> PodNetwork \<Rightarrow> string \<Rightarrow> 'w world \<Rightarrow> (failure + Result) \<times> 'w world" where
  "addToNetwork engine network podNetwork ifName w =
     (case buildCNIRuntimeConf podNetwork ifName of
        Inl err \<Rightarrow> (Inl (Err err), w)
      | Inr rt \<Rightarrow>
          let netconf = NetworkConfig network; cninet = CNIConfig network
          in if Plugins netconf = [] then (Inl PanicIndexOutOfRange, w)
             else
               (case AddNetworkList engine cninet netconf rt (outside w) of
                  (Inl err, out) \<Rightarrow>
                    (Inl (Err (ErrExternal err)),
                     \<lparr>trace = trace w @ [AddNetworkListCall network rt (Inl err)], outside = out\<rparr>)
                | (Inr res, out) \<Rightarrow>
                    (Inr res,
                     \<lparr>trace = trace w @ [AddNetworkListCall network rt (Inr res)], outside = out\<rparr>)))"

definition deleteFromNetwork ::
  "'w engine \<Rightarrow> cniNetwork \<Rightarrow> PodNetwork \<Rightarrow> string \<Rightarrow> 'w world \<Rightarrow> failure option \<times> 'w world" where
  "deleteFromNetwork engine network podNetwork ifName w =
     (case buildCNIRuntimeConf podNetwork ifName of
        Inl err \<Rightarrow> (Some (Err err), w)
      | Inr rt \<Rightarrow>
          let netconf = NetworkConfig network; cninet = CNIConfig network
          in if Plugins netconf = [] then (Some PanicIndexOutOfRange, w)
             else
               (case DelNetworkList engine cninet netconf rt (outside w) of
                  (Some err, out) \<Rightarrow>
                    (Some (Err (ErrExternal err)),
                     \<lparr>trace = trace w @ [DelNetworkListCall network rt (Some err)], outside = out\<rparr>)
                | (None, out) \<Rightarrow>
                    (None,
                     \<lparr>trace = trace w @ [DelNetworkListCall network rt None], outside = out\<rparr>)))"

section \<open>The entry points\<close>

text \<open>
  \<^verbatim>\<open>forEachNetwork\<close>: the callback works on a state \<open>'s\<close> (the outside world, and the
  results gathered so far).  \<open>forEachNetwork_loop\<close> is the \<^verbatim>\<open>range\<close> loop from index \<open>i\<close>
  on.
\<close>

fun forEachNetwork_loop ::
  "cniNetworkPlugin \<Rightarrow> PodNetwork \<Rightarrow>
   (cniNetwork \<Rightarrow> string \<Rightarrow> PodNetwork \<Rightarrow> 's \<Rightarrow> failure option \<times> 's) \<Rightarrow>
   nat \<Rightarrow> string list \<Rightarrow> 's \<Rightarrow> failure option \<times> 's" where
  "forEachNetwork_loop plugin podNetwork forEachFunc i [] s = (None, s)"
| "forEachNetwork_loop plugin podNetwork forEachFunc i (netName # rest) s =
     (let ifName = ''eth'' @ Sprintf_d i in
      case getNetwork plugin netName of
        Inl err \<Rightarrow> (Some (Err err), s)
      | Inr network \<Rightarrow>
          (case forEachFunc network ifName podNetwork s of
             (Some f, s') \<Rightarrow> (Some f, s')
           | (None, s') \<Rightarrow> forEachNetwork_loop plugin podNetwork forEachFunc (Suc i) rest s'))"

definition forEachNetwork ::
  "cniNetworkPlugin \<Rightarrow> PodNetwork \<Rightarrow>
   (cniNetwork \<Rightarrow> string \<Rightarrow> PodNetwork \<Rightarrow> 's \<Rightarrow> failure option \<times> 's) \<Rightarrow>
   's \<Rightarrow> failure option \<times> 's" where
  "forEachNetwork plugin podNetwork forEachFunc s =
     (let nets = Networks podNetwork;
          nets = (if length nets = 0 then nets @ [getDefaultNetworkName plugin] else nets)
      in forEachNetwork_loop plugin podNetwork forEachFunc 0 nets s)"

text \<open>
  The three closures handed to \<^verbatim>\<open>forEachNetwork\<close>.  Their state is the result slice
  they append to, and the outside world.
\<close>

definition SetUpPod_func ::
  "'w engine \<Rightarrow> cniNetwork \<Rightarrow> string \<Rightarrow> PodNetwork \<Rightarrow> Result list \<times> 'w world \<Rightarrow>
   failure option \<times> Result list \<times> 'w world" where
  "SetUpPod_func engine network ifName podNetwork s =
     (case s of (results, w) \<Rightarrow>
        (case addToNetwork engine network podNetwork ifName w of
           (Inl f, w') \<Rightarrow> (Some f, (results, w'))
         | (Inr result, w') \<Rightarrow> (None, (results @ [result], w'))))"

definition TearDownPod_func ::
  "'w engine \<Rightarrow> cniNetwork \<Rightarrow> string \<Rightarrow> PodNetwork \<Rightarrow> 'w world \<Rightarrow> failure option \<times> 'w world" where
  "TearDownPod_func engine network ifName podNetwork w =
     (case deleteFromNetwork engine network podNetwork ifName w of
        (Some f, w') \<Rightarrow> (Some f, w')
      | (None, w') \<Rightarrow> (None, w'))"

definition GetPodNetworkStatus_func ::
  "'w engine \<Rightarrow> cniNetworkPlugin \<Rightarrow> cniNetwork \<Rightarrow> string \<Rightarrow> PodNetwork \<Rightarrow>
   Result list \<times> 'w world \<Rightarrow> failure option \<times> Result list \<times> 'w world" where
  "GetPodNetworkStatus_func engine plugin network ifName podNetwork s =
     (case s of (results, w) \<Rightarrow>
        (case getContainerDetails engine (nsenterPath plugin) (NetNS podNetwork) ifName ''-4''
                (outside w) of
           (Inl err, out) \<Rightarrow>
             (Some (Err (ErrExternal err)),
              (results,
               \<lparr>trace = trace w @
                  [getContainerDetailsCall (nsenterPath plugin) (NetNS podNetwork) ifName ''-4''
                     (Inl err)],
                outside = out\<rparr>))
         | (Inr (ip, mac), out) \<Rightarrow>
             (None,
              (results @
                 [\<lparr>CNIVersion = ''0.3.1'',
                   Interfaces = [\<lparr>Interface_Name = ifName, Mac = mac, Sandbox = NetNS podNetwork\<rparr>],
                   IPs = [\<lparr>Version = ''4'', Interface = Some 0, Address = ip\<rparr>]\<rparr>],
               \<lparr>trace = trace w @
                  [getContainerDetailsCall (nsenterPath plugin) (NetNS podNetwork) ifName ''-4''
                     (Inr (ip, mac))],
                outside = out\<rparr>))))"

text \<open>
  \<^verbatim>\<open>SetUpPod\<close>.  \<open>SetUpPod_locked\<close> is the part that runs while the pod's mutex is held;
  the deferred \<^verbatim>\<open>podUnlock\<close> runs after it on every path.  A call that finds the
  mutex held waits (\<open>BlockedOnMutex\<close>) with the count of the entry already incremented.
\<close>

definition SetUpPod_locked ::
  "'w engine \<Rightarrow> cniNetworkPlugin \<Rightarrow> PodNetwork \<Rightarrow> 'w world \<Rightarrow> (failure + Result list) \<times> 'w world" where
  "SetUpPod_locked engine plugin podNetwork w =
     (case addToNetwork engine (loNetwork plugin) podNetwork ''lo'' w of
        (Inl f, w1) \<Rightarrow> (Inl f, w1)
      | (Inr lo_result, w1) \<Rightarrow>
          (case forEachNetwork plugin podNetwork (SetUpPod_func engine) ([], w1) of
             (Some f, (results, w2)) \<Rightarrow> (Inl f, w2)
           | (None, (results, w2)) \<Rightarrow> (Inr results, w2)))"

definition SetUpPod ::
  "'w engine \<Rightarrow> cniNetworkPlugin \<Rightarrow> PodNetwork \<Rightarrow> 'w world \<Rightarrow>
   (failure + Result list) \<times> cniNetworkPlugin \<times> 'w world" where
  "SetUpPod engine plugin podNetwork w =
     (case checkInitialized plugin podNetwork of
        Some err \<Rightarrow> (Inl (Err err), plugin, w)
      | None \<Rightarrow>
          (case podLock plugin podNetwork of (m, plugin1) \<Rightarrow>
             (case Mutex_Lock m plugin1 of
                Inl f \<Rightarrow> (Inl f, plugin1, w)
              | Inr plugin2 \<Rightarrow>
                  (case SetUpPod_locked engine plugin2 podNetwork w of (r, w') \<Rightarrow>
                     (case podUnlock plugin2 podNetwork of
                        Inl f \<Rightarrow> (Inl f, plugin2, w')
                      | Inr (plugin3, logged) \<Rightarrow> (r, plugin3, w'))))))"

definition TearDownPod ::
  "'w engine \<Rightarrow> cniNetworkPlugin \<Rightarrow> PodNetwork \<Rightarrow> 'w world \<Rightarrow>
   failure option \<times> cniNetworkPlugin \<times> 'w world" where
  "TearDownPod engine plugin podNetwork w =
     (case checkInitialized plugin podNetwork of
        Some err \<Rightarrow> (Some (Err err), plugin, w)
      | None \<Rightarrow>
          (case podLock plugin podNetwork of (m, plugin1) \<Rightarrow>
             (case Mutex_Lock m plugin1 of
                Inl f \<Rightarrow> (Some f, plugin1, w)
              | Inr plugin2 \<Rightarrow>
                  (case forEachNetwork plugin2 podNetwork (TearDownPod_func engine) w of (r, w') \<Rightarrow>
                     (case podUnlock plugin2 podNetwork of
                        Inl f \<Rightarrow> (Some f, plugin2, w')
                      | Inr (plugin3, logged) \<Rightarrow> (r, plugin3, w'))))))"

definition GetPodNetworkStatus ::
  "'w engine \<Rightarrow> cniNetworkPlugin \<Rightarrow> PodNetwork \<Rightarrow> 'w world \<Rightarrow>
   (failure + Result list) \<times> cniNetworkPlugin \<times> 'w world" where
  "GetPodNetworkStatus engine plugin podNetwork w =
     (case podLock plugin podNetwork of (m, plugin1) \<Rightarrow>
        (case Mutex_Lock m plugin1 of
           Inl f \<Rightarrow> (Inl f, plugin1, w)
         | Inr plugin2 \<Rightarrow>
             (case forEachNetwork plugin2 podNetwork (GetPodNetworkStatus_func engine plugin2)
                     ([], w) of
                (r, (results, w')) \<Rightarrow>
                  (case podUnlock plugin2 podNetwork of
                     Inl f \<Rightarrow> (Inl f, plugin2, w')
                   | Inr (plugin3, logged) \<Rightarrow>
                       (case r of Some f \<Rightarrow> (Inl f, plugin3, w')
                        | None \<Rightarrow> (Inr results, plugin3, w'))))))"

section \<open>Concrete objects for the examples\<close>

text \<open>A plugin with the one network \<^verbatim>\<open>net-a\<close>, which is its default, and a pod.\<close>

definition net_a :: cniNetwork where
  "net_a = \<lparr>name = ''net-a'',
            NetworkConfig = \<lparr>ConfList_Name = ''net-a'', ConfList_CNIVersion = ''0.3.1'',
                              Plugins = [\<lparr>Network = \<lparr>NetConf_Name = [], Type = ''bridge''\<rparr>\<rparr>]\<rparr>,
            CNIConfig = \<lparr>Path = [''/opt/cni/bin'', ''/opt/bridge/bin'']\<rparr>\<rparr>"

definition plugin_a :: cniNetworkPlugin where
  "plugin_a = \<lparr>loNetwork = \<lparr>name = ''lo'', NetworkConfig = loConfig,
                              CNIConfig = \<lparr>Path = [''/opt/cni/bin'', ''/opt/loopback/bin'']\<rparr>\<rparr>,
               defaultNetName = ''net-a'',
               networks = Mapping.update ''net-a'' net_a Mapping.empty,
               nsenterPath = ''/usr/bin/nsenter'',
               pluginDir = ''/etc/cni/net.d'',
               cniDirs = [''/opt/cni/bin''],
               vendorCNIDirPrefix = [],
               pods = Map.empty,
               heap = (\<lambda>a. \<lparr>refcount = 0, mu = False\<rparr>),
               next_addr = 0\<rparr>"

definition pod_web :: PodNetwork where
  "pod_web = \<lparr>Name = ''web'', Namespace = ''default'', ID = ''c1'', NetNS = ''/proc/42/ns/net'',
               Networks = [], PortMappings = []\<rparr>"

text \<open>The plugin with an entry for the pod in the lock table: with count zero, and with
  count \<open>n\<close> and the mutex held.\<close>

definition plugin_zero_count :: cniNetworkPlugin where
  "plugin_zero_count = plugin_a\<lparr>pods := [''default_web'' \<mapsto> 0], next_addr := 1\<rparr>"

definition plugin_held :: "64 word \<Rightarrow> cniNetworkPlugin" where
  "plugin_held n = plugin_a\<lparr>pods := [''default_web'' \<mapsto> 0],
                      heap := (heap plugin_a)(0 := \<lparr>refcount = n, mu = True\<rparr>), next_addr := 1\<rparr>"

text \<open>
  A host whose directory \<^verbatim>\<open>/etc/cni/net.d\<close> holds \<^verbatim>\<open>a.conflist\<close> (a list named \<^verbatim>\<open>net-a\<close>),
  \<^verbatim>\<open>b.conf\<close> (one plugin of type \<^verbatim>\<open>bridge\<close>, no name) and \<^verbatim>\<open>c.conflist\<close> (which does not
  parse).  \<^verbatim>\<open>ConfListFromConf\<close> wraps a configuration into a list of the same name, as
  libcni does.
\<close>

definition example_host :: host where
  "example_host =
     \<lparr>DefaultNetDir = ''/etc/cni/net.d/'',
      DefaultCNIDir = ''/opt/cni/bin/'',
      VendorCNIDirTemplate = (\<lambda>prefix pluginType. prefix @ ''/opt/'' @ pluginType @ ''/bin/''),
      LookPath = (\<lambda>file. Inr (''/usr/bin/'' @ file)),
      Stat = (\<lambda>path. None),
      ConfFiles = (\<lambda>dir extensions.
         Inr [dir @ ''/c.conflist'', dir @ ''/a.conflist'', dir @ ''/b.conf'']),
      ConfListFromFile = (\<lambda>file.
         if file = ''/etc/cni/net.d/a.conflist''
         then Inr \<lparr>ConfList_Name = ''net-a'', ConfList_CNIVersion = ''0.3.1'',
                    Plugins = [\<lparr>Network = \<lparr>NetConf_Name = [], Type = ''bridge''\<rparr>\<rparr>]\<rparr>
         else Inl ''error parsing configuration list''),
      ConfFromFile = (\<lambda>file.
         if file = ''/etc/cni/net.d/b.conf''
         then Inr \<lparr>Network = \<lparr>NetConf_Name = [], Type = ''bridge''\<rparr>\<rparr>
         else Inl ''error parsing configuration''),
      ConfListFromConf = (\<lambda>conf.
         Inr \<lparr>ConfList_Name = NetConf_Name (Network conf), ConfList_CNIVersion = ''0.3.1'',
              Plugins = [conf]\<rparr>)\<rparr>"

text \<open>The same host with an empty directory.\<close>

definition empty_host :: host where
  "empty_host = example_host\<lparr>ConfFiles := (\<lambda>dir extensions. Inr [])\<rparr>"

text \<open>The plugin with a default name that no file of the directory declares.\<close>

definition plugin_x :: cniNetworkPlugin where
  "plugin_x = plugin_a\<lparr>defaultNetName := ''net-x''\<rparr>"

text \<open>
  An engine over a counter of its calls.  It fails for the networks (and, asked for
  details, for the interfaces) that \<open>failing\<close> names, and succeeds otherwise.
\<close>

definition example_engine :: "string list \<Rightarrow> nat engine" where
  "example_engine failing =
     \<lparr>AddNetworkList = (\<lambda>cninet netconf rt n.
        if ConfList_Name netconf \<in> set failing then (Inl ''plugin failed'', Suc n)
        else (Inr \<lparr>CNIVersion = ''0.3.1'',
                   Interfaces = [\<lparr>Interface_Name = IfName rt, Mac = ''0a:58:0a:58:00:02'',
                                  Sandbox = RuntimeConf_NetNS rt\<rparr>],
                   IPs = []\<rparr>, Suc n)),
      DelNetworkList = (\<lambda>cninet netconf rt n.
        if ConfList_Name netconf \<in> set failing then (Some ''plugin failed'', Suc n)
        else (None, Suc n)),
      getContainerDetails = (\<lambda>nsenter netns ifName addrType n.
        if ifName \<in> set failing then (Inl ''no such interface'', Suc n)
        else (Inr (\<lparr>IP = [10, 88, 0, 2], Mask = [255, 255, 0, 0]\<rparr>, ''0a:58:0a:58:00:02''), Suc n))\<rparr>"

definition world0 :: "nat world" where
  "world0 = \<lparr>trace = [], outside = 0\<rparr>"

text \<open>A second network, the plugin with both networks, and a pod that asks for both.\<close>

definition net_b :: cniNetwork where
  "net_b = \<lparr>name = ''net-b'',
            NetworkConfig = \<lparr>ConfList_Name = ''net-b'', ConfList_CNIVersion = ''0.3.1'',
                              Plugins = [\<lparr>Network = \<lparr>NetConf_Name = [], Type = ''macvlan''\<rparr>\<rparr>]\<rparr>,
            CNIConfig = \<lparr>Path = [''/opt/cni/bin'', ''/opt/macvlan/bin'']\<rparr>\<rparr>"

definition plugin_ab :: cniNetworkPlugin where
  "plugin_ab = plugin_a\<lparr>networks := Mapping.update ''net-b'' net_b (networks plugin_a)\<rparr>"

definition pod_ab :: PodNetwork where
  "pod_ab = pod_web\<lparr>Networks := [''net-a'', ''net-b'']\<rparr>"

text \<open>A pod that asks for \<^verbatim>\<open>net-a\<close> and for a network that no file declares.\<close>

definition pod_az :: PodNetwork where
  "pod_az = pod_web\<lparr>Networks := [''net-a'', ''net-z'']\<rparr>"

section \<open>Notions used in the proofs\<close>

text \<open>
  The invariant of the lock table for one key, against the number \<open>depth\<close> of open
  \<open>Acquire\<close> steps: an entry in the map has a count between one and \<open>depth\<close>, or its
  count has wrapped around to zero, which takes \<open>2 ^ 64\<close> open steps.
\<close>

definition key_inv :: "nat \<Rightarrow> string \<Rightarrow> cniNetworkPlugin \<Rightarrow> bool" where
  "key_inv depth key plugin =
     (case pods plugin key of
        None \<Rightarrow> True
      | Some lock \<Rightarrow>
          (0 < unat (refcount (heap plugin lock)) \<and> unat (refcount (heap plugin lock)) \<le> depth) \<or>
          (refcount (heap plugin lock) = 0 \<and> 2 ^ 64 \<le> depth))"

text \<open>
  What a file contributes to the map: \<open>accepted\<close> is the configuration list that the
  loop of \<^verbatim>\<open>loadNetworks\<close> stores for the file, with the name it stores it under, and
  \<open>None\<close> for a file the loop skips (it does not parse, has no plugin type, cannot be
  turned into a list, or has no plugins).  \<open>logged_for\<close> is the line the loop logs for
  the file.
\<close>

definition accepted :: "host \<Rightarrow> string \<Rightarrow> NetworkConfigList option" where
  "accepted host confFile =
     (case loadNetworks_file host confFile of
        Inl warning \<Rightarrow> None
      | Inr parsed \<Rightarrow>
          if Plugins parsed = [] then None
          else Some (if ConfList_Name parsed = [] then parsed\<lparr>ConfList_Name := path_Base confFile\<rparr>
                     else parsed))"

definition logged_for :: "host \<Rightarrow> string \<Rightarrow> log_entry" where
  "logged_for host confFile =
     (case loadNetworks_file host confFile of
        Inl warning \<Rightarrow> warning
      | Inr parsed \<Rightarrow>
          (case accepted host confFile of
             None \<Rightarrow> (WarnLevel, NoNetworksSkipping, confFile)
           | Some confList \<Rightarrow> (InfoLevel, FoundNetwork, ConfList_Name confList)))"

text \<open>What the trace shows of a call of the engine.\<close>

fun ev_network :: "event \<Rightarrow> cniNetwork option" where
  "ev_network (AddNetworkListCall network rt response) = Some network"
| "ev_network (DelNetworkListCall network rt response) = Some network"
| "ev_network (getContainerDetailsCall nsenter netns ifName addrType response) = None"

fun ev_IfName :: "event \<Rightarrow> string" where
  "ev_IfName (AddNetworkListCall network rt response) = IfName rt"
| "ev_IfName (DelNetworkListCall network rt response) = IfName rt"
| "ev_IfName (getContainerDetailsCall nsenter netns ifName addrType response) = ifName"

fun ev_error :: "event \<Rightarrow> string option" where
  "ev_error (AddNetworkListCall network rt response) =
     (case response of Inl err \<Rightarrow> Some err | Inr result \<Rightarrow> None)"
| "ev_error (DelNetworkListCall network rt response) = response"
| "ev_error (getContainerDetailsCall nsenter netns ifName addrType response) =
     (case response of Inl err \<Rightarrow> Some err | Inr details \<Rightarrow> None)"

fun ev_result :: "event \<Rightarrow> Result option" where
  "ev_result (AddNetworkListCall network rt response) =
     (case response of Inl err \<Rightarrow> None | Inr result \<Rightarrow> Some result)"
| "ev_result (DelNetworkListCall network rt response) = None"
| "ev_result (getContainerDetailsCall nsenter netns ifName addrType response) = None"

fun is_add :: "event \<Rightarrow> bool" where
  "is_add (AddNetworkListCall network rt response) = True"
| "is_add ev = False"

fun is_del :: "event \<Rightarrow> bool" where
  "is_del (DelNetworkListCall network rt response) = True"
| "is_del ev = False"

fun is_details :: "event \<Rightarrow> bool" where
  "is_details (getContainerDetailsCall nsenter netns ifName addrType response) = True"
| "is_details ev = False"

text \<open>
  The network names a pod request resolves to, in the words of the specification: the
  explicit list if it is not empty, else the default network name alone.
\<close>

definition requested :: "cniNetworkPlugin \<Rightarrow> PodNetwork \<Rightarrow> string list" where
  "requested plugin podNetwork =
     (if Networks podNetwork = [] then [defaultNetName plugin] else Networks podNetwork)"

text \<open>
  The calls a closure makes for a network under an interface name: with the runtime
  configuration that \<^verbatim>\<open>buildCNIRuntimeConf\<close> builds for the pod, or with the arguments of
  \<^verbatim>\<open>getContainerDetails\<close>.  \<open>status_result\<close> is the result \<^verbatim>\<open>GetPodNetworkStatus\<close> builds
  from the details.
\<close>

definition add_call :: "PodNetwork \<Rightarrow> cniNetwork \<Rightarrow> string \<Rightarrow> event \<Rightarrow> bool" where
  "add_call podNetwork network ifName ev =
     (\<exists>rt response. ev = AddNetworkListCall network rt response \<and>
        buildCNIRuntimeConf podNetwork ifName = Inr rt)"

definition del_call :: "PodNetwork \<Rightarrow> cniNetwork \<Rightarrow> string \<Rightarrow> event \<Rightarrow> bool" where
  "del_call podNetwork network ifName ev =
     (\<exists>rt response. ev = DelNetworkListCall network rt response \<and>
        buildCNIRuntimeConf podNetwork ifName = Inr rt)"

definition details_call ::
  "cniNetworkPlugin \<Rightarrow> PodNetwork \<Rightarrow> cniNetwork \<Rightarrow> string \<Rightarrow> event \<Rightarrow> bool" where
  "details_call plugin podNetwork network ifName ev =
     (\<exists>response. ev = getContainerDetailsCall (nsenterPath plugin) (NetNS podNetwork) ifName ''-4''
        response)"

fun status_result :: "event \<Rightarrow> Result option" where
  "status_result (getContainerDetailsCall nsenter netns ifName addrType (Inr (ip, mac))) =
     Some \<lparr>CNIVersion = ''0.3.1'',
           Interfaces = [\<lparr>Interface_Name = ifName, Mac = mac, Sandbox = netns\<rparr>],
           IPs = [\<lparr>Version = ''4'', Interface = Some 0, Address = ip\<rparr>]\<rparr>"
| "status_result ev = None"

text \<open>
  \<open>follows P i names evs\<close>: the calls \<open>evs\<close> are made for the names in order, the first at
  index \<open>i\<close>, one call for each name, and only the last call may have failed.
  \<open>at_network\<close> is the call for the network a name is stored under, with the interface
  name of its index.  \<open>loop_outcome\<close> says what \<^verbatim>\<open>forEachNetwork\<close> returns after these
  calls: nothing when every name had its successful call; else the error of the last
  call, or the lookup error of the first name without a call, or the panic on its empty
  plugin list.
\<close>

fun follows :: "(string \<Rightarrow> nat \<Rightarrow> event \<Rightarrow> bool) \<Rightarrow> nat \<Rightarrow> string list \<Rightarrow> event list \<Rightarrow> bool" where
  "follows P i names [] = True"
| "follows P i [] (ev # evs) = False"
| "follows P i (netName # names) (ev # evs) =
     (P netName i ev \<and> (evs \<noteq> [] \<longrightarrow> ev_error ev = None) \<and> follows P (Suc i) names evs)"

definition at_network ::
  "cniNetworkPlugin \<Rightarrow> (cniNetwork \<Rightarrow> string \<Rightarrow> event \<Rightarrow> bool) \<Rightarrow> string \<Rightarrow> nat \<Rightarrow> event \<Rightarrow> bool" where
  "at_network plugin P netName k ev =
     (\<exists>network. Mapping.lookup (networks plugin) netName = Some network \<and>
        P network (''eth'' @ Sprintf_d k) ev)"

definition loop_outcome ::
  "cniNetworkPlugin \<Rightarrow> string list \<Rightarrow> event list \<Rightarrow> failure option \<Rightarrow> bool" where
  "loop_outcome plugin names evs r =
     (case r of
        None \<Rightarrow> length evs = length names \<and> (\<forall>ev \<in> set evs. ev_error ev = None)
      | Some f \<Rightarrow>
          (evs \<noteq> [] \<and> (\<exists>e. ev_error (last evs) = Some e \<and> f = Err (ErrExternal e))) \<or>
          ((\<forall>ev \<in> set evs. ev_error ev = None) \<and> length evs < length names \<and>
           (case Mapping.lookup (networks plugin) (names ! length evs) of
              None \<Rightarrow> f = Err (ErrNetworkNotFound (names ! length evs))
            | Some network \<Rightarrow> Plugins (NetworkConfig network) = [] \<and> f = PanicIndexOutOfRange)))"

text \<open>What one call of a closure does, seen through the trace \<open>tr\<close> and the results
  \<open>acc\<close> of its state.\<close>

definition step_ok ::
  "(cniNetwork \<Rightarrow> string \<Rightarrow> event \<Rightarrow> bool) \<Rightarrow> ('s \<Rightarrow> event list) \<Rightarrow> ('s \<Rightarrow> Result list) \<Rightarrow>
   (event \<Rightarrow> Result option) \<Rightarrow> cniNetwork \<Rightarrow> string \<Rightarrow> 's \<Rightarrow> failure option \<Rightarrow> 's \<Rightarrow> bool" where
  "step_ok P tr acc g network ifName s r s' =
     ((r = Some PanicIndexOutOfRange \<and> Plugins (NetworkConfig network) = [] \<and>
       tr s' = tr s \<and> acc s' = acc s) \<or>
      (\<exists>ev. tr s' = tr s @ [ev] \<and> acc s' = acc s @ List.map_filter g [ev] \<and> P network ifName ev \<and>
         (case ev_error ev of None \<Rightarrow> r = None | Some e \<Rightarrow> r = Some (Err (ErrExternal e)))))"

chapter \<open>Properties\<close>

section \<open>The pod lock table\<close>

lemma podLock_wf: "pods_wf plugin \<Longrightarrow> pods_wf (snd (podLock plugin p))"
  unfolding pods_wf_def podLock_def
  by (auto simp: Let_def less_Suc_eq split: option.splits if_splits) 

lemma Mutex_Lock_wf: "pods_wf plugin \<Longrightarrow> Mutex_Lock m plugin = Inr plugin' \<Longrightarrow> pods_wf plugin'"
  unfolding pods_wf_def Mutex_Lock_def
  by (auto split: if_splits)

lemma podUnlock_wf: "pods_wf plugin \<Longrightarrow> podUnlock plugin p = Inr (plugin', logged) \<Longrightarrow> pods_wf plugin'"
  unfolding pods_wf_def podUnlock_def
  by (auto simp: Let_def split: option.splits if_splits)

lemma refcount_inc_wraps:
  fixes w :: "64 word"
  assumes "w + 1 = 0"
  shows "unat w = 2 ^ 64 - 1"
proof -
  from assms have "w = - 1" by (simp add: add_eq_0_iff2)
  then show ?thesis by (simp add: unsigned_minus_1_eq_mask mask_eq_exp_minus_1)
qed

lemma refcount_inc:
  fixes w :: "64 word"
  assumes "w + 1 \<noteq> 0"
  shows "unat (w + 1) = Suc (unat w)"
  using unatSuc [of w] assms by (simp add: add.commute)

lemma refcount_dec:
  fixes w :: "64 word"
  assumes "w \<noteq> 0"
  shows "unat (w - 1) = unat w - 1"
  using assms by (rule unat_minus_one)

lemma refcount_pos:
  fixes w :: "64 word"
  shows "0 < unat w \<longleftrightarrow> w \<noteq> 0"
  by (simp add: unat_gt_0)

text \<open>Acquire of the key itself.\<close>
lemma podLock_key_inv_same:
  assumes "key_inv depth key plugin" "buildFullPodName p = key"
  shows "key_inv (Suc depth) key (snd (podLock plugin p))"
proof (cases "pods plugin key")
  case None
  then show ?thesis using assms
    by (simp add: key_inv_def podLock_def Let_def)
next
  case (Some lock)
  show ?thesis
  proof (cases "refcount (heap plugin lock) + 1 = 0")
    case True
    from refcount_inc_wraps[OF True] show ?thesis using assms Some True
      by (auto simp: key_inv_def podLock_def Let_def)
  next
    case False
    from refcount_inc[OF False] show ?thesis using assms Some False
      by (auto simp: key_inv_def podLock_def Let_def)
  qed
qed

lemma podLock_key_inv_other:
  assumes "key_inv depth key plugin" "buildFullPodName p \<noteq> key" "pods_wf plugin"
  shows "key_inv depth key (snd (podLock plugin p))"
  using assms unfolding key_inv_def podLock_def pods_wf_def
  by (fastforce simp: Let_def split: option.splits)

lemma Mutex_Lock_key_inv:
  assumes "key_inv depth key plugin" "Mutex_Lock m plugin = Inr plugin'"
  shows "key_inv depth key plugin'"
  using assms unfolding key_inv_def Mutex_Lock_def
  by (auto split: if_splits option.splits)

lemma podUnlock_key_inv_same:
  assumes "key_inv depth key plugin" "buildFullPodName p = key" "0 < depth"
    "podUnlock plugin p = Inr (plugin', logged)"
  shows "key_inv (depth - 1) key plugin'"
  using assms unfolding key_inv_def podUnlock_def
  by (auto simp: Let_def refcount_dec refcount_pos split: option.splits if_splits)

lemma podUnlock_key_inv_other:
  assumes "key_inv depth key plugin" "buildFullPodName p \<noteq> key" "pods_wf plugin"
    "podUnlock plugin p = Inr (plugin', logged)"
  shows "key_inv depth key plugin'"
  using assms unfolding key_inv_def podUnlock_def pods_wf_def
  by (auto simp: Let_def split: option.splits if_splits)

lemma key_inv_zero: "key_inv 0 key plugin \<Longrightarrow> pods plugin key = None"
  by (auto simp: key_inv_def split: option.splits)

lemma lock_run_balanced_from:
  assumes "pods_wf plugin" "key_inv depth key plugin" "balanced_from depth key ops"
    "lock_run plugin ops = Inr plugin'"
  shows "pods plugin' key = None"
  using assms
proof (induction ops arbitrary: plugin depth)
  case Nil
  then show ?case by (simp add: key_inv_zero)
next
  case (Cons op ops)
  show ?case
  proof (cases op)
    case (Acquire p)
    let ?q = "snd (podLock plugin p)"
    have run: "lock_run ?q ops = Inr plugin'" using Cons.prems(4) Acquire by simp
    have wf: "pods_wf ?q" using Cons.prems(1) by (rule podLock_wf)
    show ?thesis
    proof (cases "buildFullPodName p = key")
      case True
      have "key_inv (Suc depth) key ?q" using Cons.prems(2) True by (rule podLock_key_inv_same)
      moreover have "balanced_from (Suc depth) key ops" using Cons.prems(3) Acquire True by simp
      ultimately show ?thesis using Cons.IH wf run by blast
    next
      case False
      have "key_inv depth key ?q" using Cons.prems(2) False Cons.prems(1) by (rule podLock_key_inv_other)
      moreover have "balanced_from depth key ops" using Cons.prems(3) Acquire False by simp
      ultimately show ?thesis using Cons.IH wf run by blast
    qed
  next
    case (LockMutex m)
    from Cons.prems(4) LockMutex obtain q where q: "Mutex_Lock m plugin = Inr q" and run: "lock_run q ops = Inr plugin'"
      by (auto split: sum.splits)
    have "pods_wf q" using Cons.prems(1) q by (rule Mutex_Lock_wf)
    moreover have "key_inv depth key q" using Cons.prems(2) q by (rule Mutex_Lock_key_inv)
    moreover have "balanced_from depth key ops" using Cons.prems(3) LockMutex by simp
    ultimately show ?thesis using Cons.IH run by blast
  next
    case (Release p)
    from Cons.prems(4) Release obtain q logged where q: "podUnlock plugin p = Inr (q, logged)" and run: "lock_run q ops = Inr plugin'"
      by (auto split: sum.splits prod.splits)
    have wf: "pods_wf q" using Cons.prems(1) q by (rule podUnlock_wf)
    show ?thesis
    proof (cases "buildFullPodName p = key")
      case True
      have d: "0 < depth" and b: "balanced_from (depth - 1) key ops" using Cons.prems(3) Release True by simp_all
      have "key_inv (depth - 1) key q" using Cons.prems(2) True d q by (rule podUnlock_key_inv_same)
      then show ?thesis using Cons.IH wf run b by blast
    next
      case False
      have "key_inv depth key q" using Cons.prems(2) False Cons.prems(1) q by (rule podUnlock_key_inv_other)
      moreover have "balanced_from depth key ops" using Cons.prems(3) Release False by simp
      ultimately show ?thesis using Cons.IH wf run by blast
    qed
  qed
qed

lemma podLock_absent:
  assumes "pods plugin (buildFullPodName p) = None"
  shows "case podLock plugin p of (lock, plugin1) \<Rightarrow>
           pods plugin1 = (pods plugin)(buildFullPodName p \<mapsto> lock) \<and>
           refcount (heap plugin1 lock) = 1 \<and> \<not> mu (heap plugin1 lock)"
  using assms by (simp add: podLock_def Let_def)

lemma podLock_present:
  assumes "pods plugin (buildFullPodName p) = Some lock"
  shows "case podLock plugin p of (lock', plugin1) \<Rightarrow>
           lock' = lock \<and> pods plugin1 = pods plugin \<and>
           refcount (heap plugin1 lock) = refcount (heap plugin lock) + 1"
  using assms by (simp add: podLock_def Let_def)

lemma podUnlock_last:
  assumes "pods plugin (buildFullPodName p) = Some lock" "refcount (heap plugin lock) = 1"
    "mu (heap plugin lock)"
  shows "\<exists>plugin1. podUnlock plugin p = Inr (plugin1, []) \<and>
           pods plugin1 = (pods plugin)(buildFullPodName p := None)"
  using assms by (simp add: podUnlock_def Let_def)

lemma podUnlock_not_last:
  assumes "pods plugin (buildFullPodName p) = Some lock" "refcount (heap plugin lock) \<noteq> 0"
    "refcount (heap plugin lock) \<noteq> 1" "mu (heap plugin lock)"
  shows "\<exists>plugin1. podUnlock plugin p = Inr (plugin1, []) \<and> pods plugin1 = pods plugin \<and>
           refcount (heap plugin1 lock) = refcount (heap plugin lock) - 1"
  using assms by (simp add: podUnlock_def Let_def)

lemma podUnlock_unknown:
  assumes "pods plugin (buildFullPodName p) = None"
  shows "podUnlock plugin p = Inr (plugin, [(WarnLevel, UnbalancedUnref, buildFullPodName p)])"
  using assms by (simp add: podUnlock_def Let_def)

lemma podUnlock_zero:
  assumes "pods plugin (buildFullPodName p) = Some lock" "refcount (heap plugin lock) = 0"
  shows "podUnlock plugin p =
           Inr (plugin\<lparr>pods := (pods plugin)(buildFullPodName p := None)\<rparr>,
                [(ErrorLevel, ZeroRefcountInMap, buildFullPodName p)])"
  using assms by (simp add: podUnlock_def Let_def)

text \<open>
  Claim C8.  For every key: after a balanced sequence of Acquire and Release steps that
  runs to its end, from a table without the key, the key is absent from the table.
  Acquire creates a missing entry and increments the count (to one for a new entry);
  Release deletes the entry when it brings the count to zero, and keeps it otherwise.
  Release of a key that is not in the table logs a warning and changes nothing; Release
  of a key whose count is already zero logs an error and removes the entry.
\<close>

theorem podLock_table_balanced:
  "(pods_wf plugin \<and> pods plugin key = None \<and> balanced key ops \<and>
      lock_run plugin ops = Inr plugin' \<longrightarrow> pods plugin' key = None) \<and>
   (pods plugin (buildFullPodName p) = None \<longrightarrow>
      (case podLock plugin p of (m, plugin1) \<Rightarrow>
         pods plugin1 = (pods plugin)(buildFullPodName p \<mapsto> m) \<and>
         refcount (heap plugin1 m) = 1 \<and> \<not> mu (heap plugin1 m))) \<and>
   (pods plugin (buildFullPodName p) = Some lock \<longrightarrow>
      (case podLock plugin p of (m, plugin1) \<Rightarrow>
         m = lock \<and> pods plugin1 = pods plugin \<and>
         refcount (heap plugin1 lock) = refcount (heap plugin lock) + 1)) \<and>
   (pods plugin (buildFullPodName p) = Some lock \<and> refcount (heap plugin lock) = 1 \<and>
      mu (heap plugin lock) \<longrightarrow>
      (\<exists>plugin1. podUnlock plugin p = Inr (plugin1, []) \<and>
         pods plugin1 = (pods plugin)(buildFullPodName p := None))) \<and>
   (pods plugin (buildFullPodName p) = Some lock \<and> refcount (heap plugin lock) \<noteq> 0 \<and>
      refcount (heap plugin lock) \<noteq> 1 \<and> mu (heap plugin lock) \<longrightarrow>
      (\<exists>plugin1. podUnlock plugin p = Inr (plugin1, []) \<and> pods plugin1 = pods plugin \<and>
         refcount (heap plugin1 lock) = refcount (heap plugin lock) - 1)) \<and>
   (pods plugin (buildFullPodName p) = None \<longrightarrow>
      podUnlock plugin p = Inr (plugin, [(WarnLevel, UnbalancedUnref, buildFullPodName p)])) \<and>
   (pods plugin (buildFullPodName p) = Some lock \<and> refcount (heap plugin lock) = 0 \<longrightarrow>
      podUnlock plugin p =
        Inr (plugin\<lparr>pods := (pods plugin)(buildFullPodName p := None)\<rparr>,
             [(ErrorLevel, ZeroRefcountInMap, buildFullPodName p)]))"
proof -
  have "pods plugin' key = None"
    if "pods_wf plugin" "pods plugin key = None" "balanced key ops" "lock_run plugin ops = Inr plugin'"
  proof -
    have inv: "key_inv 0 key plugin" using that(2) by (simp add: key_inv_def)
    have bal: "balanced_from 0 key ops" using that(3) by (simp add: balanced_def)
    show ?thesis using that(1) inv bal that(4) by (rule lock_run_balanced_from)
  qed
  then show ?thesis
    using podLock_absent[of plugin p] podLock_present[of plugin p lock]
      podUnlock_last[of plugin p lock] podUnlock_not_last[of plugin p lock]
      podUnlock_unknown[of plugin p] podUnlock_zero[of plugin p lock]
    by blast
qed

theorem podLock_table_balanced_witness:
  "pods_wf plugin_a \<and> pods plugin_a ''default_web'' = None \<and>
   balanced ''default_web'' [Acquire pod_web, LockMutex 0, Release pod_web] \<and>
   (\<exists>plugin'. lock_run plugin_a [Acquire pod_web, LockMutex 0, Release pod_web] = Inr plugin' \<and>
      pods plugin' ''default_web'' = None) \<and>
   buildFullPodName pod_web = ''default_web'' \<and>
   (case podLock plugin_a pod_web of (m, plugin1) \<Rightarrow>
      pods plugin1 = [''default_web'' \<mapsto> m] \<and> refcount (heap plugin1 m) = 1 \<and>
      \<not> mu (heap plugin1 m)) \<and>
   pods (plugin_held 1) ''default_web'' = Some 0 \<and>
   (case podLock (plugin_held 1) pod_web of (m, plugin1) \<Rightarrow>
      m = 0 \<and> pods plugin1 = [''default_web'' \<mapsto> 0] \<and> refcount (heap plugin1 0) = 2) \<and>
   refcount (heap (plugin_held 1) 0) = 1 \<and> mu (heap (plugin_held 1) 0) \<and>
   (\<exists>plugin1. podUnlock (plugin_held 1) pod_web = Inr (plugin1, []) \<and>
      pods plugin1 = Map.empty) \<and>
   refcount (heap (plugin_held 2) 0) = 2 \<and> mu (heap (plugin_held 2) 0) \<and>
   (\<exists>plugin1. podUnlock (plugin_held 2) pod_web = Inr (plugin1, []) \<and>
      pods plugin1 = [''default_web'' \<mapsto> 0] \<and> refcount (heap plugin1 0) = 1) \<and>
   podUnlock plugin_a pod_web = Inr (plugin_a, [(WarnLevel, UnbalancedUnref, ''default_web'')]) \<and>
   pods plugin_zero_count ''default_web'' = Some 0 \<and>
   refcount (heap plugin_zero_count 0) = 0 \<and>
   podUnlock plugin_zero_count pod_web =
     Inr (plugin_zero_count\<lparr>pods := Map.empty\<rparr>, [(ErrorLevel, ZeroRefcountInMap, ''default_web'')])"
proof -
  have key: "buildFullPodName pod_web = ''default_web''"
    by (simp add: buildFullPodName_def pod_web_def)
  have wf: "pods_wf plugin_a" by (simp add: pods_wf_def plugin_a_def)
  have absent: "pods plugin_a ''default_web'' = None" by (simp add: plugin_a_def)
  have bal: "balanced ''default_web'' [Acquire pod_web, LockMutex 0, Release pod_web]"
    by (simp add: balanced_def key)
  have run: "\<exists>plugin'. lock_run plugin_a [Acquire pod_web, LockMutex 0, Release pod_web] = Inr plugin'"
    by (simp add: podLock_def Mutex_Lock_def podUnlock_def key plugin_a_def Let_def)
  then obtain q where q: "lock_run plugin_a [Acquire pod_web, LockMutex 0, Release pod_web] = Inr q"
    by blast
  have c1: "pods q ''default_web'' = None"
    using podLock_table_balanced[of plugin_a "''default_web''" "[Acquire pod_web, LockMutex 0, Release pod_web]" q]
      wf absent bal q by blast
  have h1: "pods (plugin_held 1) ''default_web'' = Some 0" "refcount (heap (plugin_held 1) 0) = 1"
    "mu (heap (plugin_held 1) 0)"
    by (simp_all add: plugin_held_def)
  have h2: "pods (plugin_held 2) ''default_web'' = Some 0" "refcount (heap (plugin_held 2) 0) = 2"
    "mu (heap (plugin_held 2) 0)"
    by (simp_all add: plugin_held_def)
  have z: "pods plugin_zero_count ''default_web'' = Some 0" "refcount (heap plugin_zero_count 0) = 0"
    by (simp_all add: plugin_zero_count_def plugin_a_def)
  have p1: "pods (plugin_held 1) = [''default_web'' \<mapsto> 0]" "pods (plugin_held 2) = [''default_web'' \<mapsto> 0]"
    "pods plugin_a = Map.empty" "pods plugin_zero_count = [''default_web'' \<mapsto> 0]"
    by (simp_all add: plugin_held_def plugin_a_def plugin_zero_count_def)
  note t_a = podLock_table_balanced[of plugin_a _ _ _ pod_web, unfolded key]
  note t_1 = podLock_table_balanced[of "plugin_held 1" _ _ _ pod_web 0, unfolded key]
  note t_2 = podLock_table_balanced[of "plugin_held 2" _ _ _ pod_web 0, unfolded key]
  note t_z = podLock_table_balanced[of plugin_zero_count _ _ _ pod_web 0, unfolded key]
  have c2: "case podLock plugin_a pod_web of (m, plugin1) \<Rightarrow>
      pods plugin1 = [''default_web'' \<mapsto> m] \<and> refcount (heap plugin1 m) = 1 \<and>
      \<not> mu (heap plugin1 m)"
    using t_a absent p1 by simp
  have c3: "case podLock (plugin_held 1) pod_web of (m, plugin1) \<Rightarrow>
      m = 0 \<and> pods plugin1 = [''default_web'' \<mapsto> 0] \<and> refcount (heap plugin1 0) = 2"
    using t_1 h1 p1 by simp
  have c4: "\<exists>plugin1. podUnlock (plugin_held 1) pod_web = Inr (plugin1, []) \<and>
      pods plugin1 = Map.empty"
    using t_1 h1 p1 by simp
  have c5: "\<exists>plugin1. podUnlock (plugin_held 2) pod_web = Inr (plugin1, []) \<and>
      pods plugin1 = [''default_web'' \<mapsto> 0] \<and> refcount (heap plugin1 0) = 1"
    using t_2 h2 p1 by simp
  have c6: "podUnlock plugin_a pod_web = Inr (plugin_a, [(WarnLevel, UnbalancedUnref, ''default_web'')])"
    using t_a absent by simp
  have c7: "podUnlock plugin_zero_count pod_web =
     Inr (plugin_zero_count\<lparr>pods := Map.empty\<rparr>, [(ErrorLevel, ZeroRefcountInMap, ''default_web'')])"
    using t_z z p1 by simp
  show ?thesis
    using key wf absent bal q c1 h1 h2 z c2 c3 c4 c5 c6 c7 by blast
qed

section \<open>Loading\<close>

lemma path_Base_nonempty: "path_Base path \<noteq> []"
  by (simp add: path_Base_def Let_def)

lemma accepted_name_nonempty: "accepted host f = Some c \<Longrightarrow> ConfList_Name c \<noteq> []"
  by (auto simp: accepted_def path_Base_nonempty split: sum.splits if_splits)

lemma accepted_plugins_nonempty: "accepted host f = Some c \<Longrightarrow> Plugins c \<noteq> []"
  by (auto simp: accepted_def split: sum.splits if_splits)

lemma loadNetworks_file_warns:
  "loadNetworks_file host f = Inl warning \<Longrightarrow> \<exists>m. warning = (WarnLevel, m, f)"
  by (auto simp: loadNetworks_file_def split: if_splits sum.splits)

lemma logged_for_rejected: "accepted host f = None \<Longrightarrow> \<exists>m. logged_for host f = (WarnLevel, m, f)"
  by (auto simp: logged_for_def accepted_def dest: loadNetworks_file_warns split: sum.splits if_splits)

lemma loop_skip:
  "accepted host f = None \<Longrightarrow>
   loadNetworks_loop host plugin (f # files) nets d lg =
   loadNetworks_loop host plugin files nets d (lg @ [logged_for host f])"
  by (auto simp: accepted_def logged_for_def split: sum.splits if_splits)

lemma loop_take:
  "accepted host f = Some c \<Longrightarrow>
   loadNetworks_loop host plugin (f # files) nets d lg =
   loadNetworks_loop host plugin files
     (Mapping.update (ConfList_Name c)
        \<lparr>name = ConfList_Name c, NetworkConfig = c,
         CNIConfig = \<lparr>Path = cniDirs plugin @
            map (\<lambda>p. vendorCNIDir host (vendorCNIDirPrefix plugin) (Type (Network p))) (Plugins c)\<rparr>\<rparr> nets)
     (if d = [] then ConfList_Name c else d) (lg @ [logged_for host f])"
  by (auto simp: accepted_def logged_for_def Let_def split: sum.splits if_splits)

lemma loop_keys:
  "Mapping.keys (fst (loadNetworks_loop host plugin files nets d lg)) =
   Mapping.keys nets \<union> {ConfList_Name c |c f. f \<in> set files \<and> accepted host f = Some c}"
proof (induction files arbitrary: nets d lg)
  case Nil
  then show ?case by simp
next
  case (Cons f files)
  show ?case
  proof (cases "accepted host f")
    case None
    then show ?thesis unfolding loop_skip[OF None] Cons.IH by auto
  next
    case (Some c)
    then show ?thesis unfolding loop_take[OF Some] Cons.IH by auto
  qed
qed

lemma loop_logged:
  "snd (snd (loadNetworks_loop host plugin files nets d lg)) = lg @ map (logged_for host) files"
proof (induction files arbitrary: nets d lg)
  case Nil
  then show ?case by simp
next
  case (Cons f files)
  show ?case
  proof (cases "accepted host f")
    case None
    then show ?thesis unfolding loop_skip[OF None] Cons.IH by simp
  next
    case (Some c)
    then show ?thesis unfolding loop_take[OF Some] Cons.IH by simp
  qed
qed

lemma loop_default_kept:
  "d \<noteq> [] \<Longrightarrow> fst (snd (loadNetworks_loop host plugin files nets d lg)) = d"
proof (induction files arbitrary: nets lg)
  case Nil
  then show ?case by simp
next
  case (Cons f files)
  show ?case
  proof (cases "accepted host f")
    case None
    then show ?thesis unfolding loop_skip[OF None] using Cons by simp
  next
    case (Some c)
    then show ?thesis unfolding loop_take[OF Some] using Cons by simp
  qed
qed

lemma loop_default_found:
  "fst (snd (loadNetworks_loop host plugin files nets [] lg)) = [] \<longleftrightarrow>
   (\<forall>f \<in> set files. accepted host f = None)"
proof (induction files arbitrary: nets lg)
  case Nil
  then show ?case by simp
next
  case (Cons f files)
  show ?case
  proof (cases "accepted host f")
    case None
    then show ?thesis unfolding loop_skip[OF None] using Cons by simp
  next
    case (Some c)
    then show ?thesis unfolding loop_take[OF Some]
      using accepted_name_nonempty[OF Some] by (simp add: loop_default_kept)
  qed
qed

lemma is_empty_keys: "Mapping.is_empty m \<longleftrightarrow> Mapping.keys m = {}"
  by (simp add: Mapping.is_empty_def)

lemma set_sort_Strings: "set (sort_Strings files) = set files"
  by (simp add: sort_Strings_def)

lemma loadNetworks_cases:
  "loadNetworks host plugin =
     (case ConfFiles host (pluginDir plugin) [''.conf'', ''.conflist'', ''.json''] of
        Inl e \<Rightarrow> (Inl (ErrExternal e), [])
      | Inr files \<Rightarrow>
          if files = [] then (Inl errMissingDefaultNetwork, [])
          else if \<forall>f \<in> set files. accepted host f = None
          then (Inl (ErrNoValidNetworks (pluginDir plugin)), map (logged_for host) (sort_Strings files))
          else (Inr (fst (loadNetworks_loop host plugin (sort_Strings files) Mapping.empty [] []),
                     fst (snd (loadNetworks_loop host plugin (sort_Strings files) Mapping.empty [] []))),
                map (logged_for host) (sort_Strings files)))"
proof (cases "ConfFiles host (pluginDir plugin) [''.conf'', ''.conflist'', ''.json'']")
  case (Inl e)
  then show ?thesis by (simp add: loadNetworks_def)
next
  case (Inr files)
  let ?r = "loadNetworks_loop host plugin (sort_Strings files) Mapping.empty [] []"
  have "Mapping.keys (fst ?r) = {ConfList_Name c |c f. f \<in> set files \<and> accepted host f = Some c}"
    by (simp add: loop_keys set_sort_Strings)
  moreover have "{ConfList_Name c |c f. f \<in> set files \<and> accepted host f = Some c} = {} \<longleftrightarrow>
      (\<forall>f \<in> set files. accepted host f = None)"
  proof
    assume a: "{ConfList_Name c |c f. f \<in> set files \<and> accepted host f = Some c} = {}"
    show "\<forall>f \<in> set files. accepted host f = None"
    proof
      fix f assume "f \<in> set files"
      then show "accepted host f = None" using a by (cases "accepted host f") auto
    qed
  next
    assume "\<forall>f \<in> set files. accepted host f = None"
    then show "{ConfList_Name c |c f. f \<in> set files \<and> accepted host f = Some c} = {}" by auto
  qed
  ultimately have e: "Mapping.is_empty (fst ?r) \<longleftrightarrow> (\<forall>f \<in> set files. accepted host f = None)"
    by (simp add: is_empty_keys)
  have l: "snd (snd ?r) = map (logged_for host) (sort_Strings files)"
    by (simp add: loop_logged)
  obtain n d lg where r: "?r = (n, d, lg)" by (cases ?r) auto
  show ?thesis using Inr e l unfolding r
    by (simp add: loadNetworks_def r)
qed

lemma accepted_None_iff:
  "accepted host f = None \<longleftrightarrow>
     (\<exists>warning. loadNetworks_file host f = Inl warning) \<or>
     (\<exists>parsed. loadNetworks_file host f = Inr parsed \<and> Plugins parsed = [])"
  by (auto simp: accepted_def split: sum.splits)

lemma loadNetworks_file_Inl_iff:
  "(\<exists>warning. loadNetworks_file host f = Inl warning) \<longleftrightarrow>
     (if HasSuffix f ''.conflist'' then \<exists>e. ConfListFromFile host f = Inl e
      else (\<exists>e. ConfFromFile host f = Inl e) \<or>
           (\<exists>conf. ConfFromFile host f = Inr conf \<and>
              (Type (Network conf) = [] \<or> (\<exists>e. ConfListFromConf host conf = Inl e))))"
  by (auto simp: loadNetworks_file_def split: sum.splits)

lemma loadNetworks_success:
  assumes "ConfFiles host (pluginDir plugin) [''.conf'', ''.conflist'', ''.json''] = Inr files"
    and "g \<in> set files" and "accepted host g \<noteq> None"
  shows "\<exists>nets d. loadNetworks host plugin = (Inr (nets, d), map (logged_for host) (sort_Strings files)) \<and>
           Mapping.keys nets = {ConfList_Name c |c g. g \<in> set files \<and> accepted host g = Some c} \<and>
           d \<noteq> []"
proof -
  have ne: "files \<noteq> []" using assms(2) by auto
  have nall: "\<not> (\<forall>f \<in> set files. accepted host f = None)" using assms(2,3) by auto
  let ?r = "loadNetworks_loop host plugin (sort_Strings files) Mapping.empty [] []"
  have "loadNetworks host plugin = (Inr (fst ?r, fst (snd ?r)), map (logged_for host) (sort_Strings files))"
    using assms(1) ne nall by (simp add: loadNetworks_cases)
  moreover have "Mapping.keys (fst ?r) = {ConfList_Name c |c g. g \<in> set files \<and> accepted host g = Some c}"
    by (simp add: loop_keys set_sort_Strings)
  moreover have "fst (snd ?r) \<noteq> []"
    using nall by (simp add: loop_default_found set_sort_Strings)
  ultimately show ?thesis by blast
qed

lemma load_default_nonempty:
  assumes "fst (loadNetworks host plugin) = Inr (nets, d)"
  shows "d \<noteq> []"
proof (cases "ConfFiles host (pluginDir plugin) [''.conf'', ''.conflist'', ''.json'']")
  case (Inl e)
  then show ?thesis using assms by (simp add: loadNetworks_cases)
next
  case (Inr files)
  then have nall: "\<not> (\<forall>f \<in> set files. accepted host f = None)"
    and d: "d = fst (snd (loadNetworks_loop host plugin (sort_Strings files) Mapping.empty [] []))"
    using assms by (auto simp: loadNetworks_cases split: if_splits)
  show ?thesis unfolding d using nall by (simp add: loop_default_found set_sort_Strings)
qed

lemma sync_cases:
  "(\<exists>err logged. syncNetworkConfig host plugin = (Some err, plugin, logged) \<and>
      fst (loadNetworks host plugin) = Inl err) \<or>
   (\<exists>nets d logged. fst (loadNetworks host plugin) = Inr (nets, d) \<and> d \<noteq> [] \<and>
      syncNetworkConfig host plugin =
        (None, plugin\<lparr>defaultNetName := (if defaultNetName plugin = [] then d else defaultNetName plugin),
                       networks := nets\<rparr>, logged))"
proof (cases "loadNetworks host plugin")
  case (Pair r logged)
  show ?thesis
  proof (cases r)
    case (Inl err)
    then show ?thesis using Pair by (simp add: syncNetworkConfig_def)
  next
    case (Inr nd)
    obtain nets d where nd: "nd = (nets, d)" by (cases nd) auto
    have "d \<noteq> []" using load_default_nonempty[of host plugin nets d] Pair Inr nd by simp
    then show ?thesis using Pair Inr nd by (simp add: syncNetworkConfig_def)
  qed
qed

lemma sync_default_kept:
  "defaultNetName plugin \<noteq> [] \<Longrightarrow>
   defaultNetName (fst (snd (syncNetworkConfig host plugin))) = defaultNetName plugin"
  using sync_cases[of host plugin] by auto

lemma resync_default_kept:
  "defaultNetName plugin \<noteq> [] \<Longrightarrow> defaultNetName (resync hosts plugin) = defaultNetName plugin"
proof (induction hosts arbitrary: plugin)
  case Nil
  then show ?case by simp
next
  case (Cons host hosts)
  have "defaultNetName (fst (snd (syncNetworkConfig host plugin))) = defaultNetName plugin"
    using Cons.prems by (rule sync_default_kept)
  then show ?case using Cons by simp
qed

lemma InitCNI_default:
  assumes "InitCNI host defName dir dirs = Inr plugin" "defName \<noteq> []"
  shows "defaultNetName plugin = defName"
proof -
  from assms(1) obtain p where
    "plugin = fst (snd (syncNetworkConfig host p))" "defaultNetName p = defName"
    unfolding InitCNI_def Let_def by (auto split: sum.splits option.splits)
  then show ?thesis using sync_default_kept[of p host] assms(2) by simp
qed

subsection \<open>The example directory\<close>

lemma example_host_simps:
  "DefaultNetDir example_host = ''/etc/cni/net.d/''"
  "DefaultCNIDir example_host = ''/opt/cni/bin/''"
  "LookPath example_host file = Inr (''/usr/bin/'' @ file)"
  "Stat example_host path = None"
  by (simp_all add: example_host_def)

lemma example_dir:
  "pluginDir plugin_a = ''/etc/cni/net.d''"
  "ConfFiles example_host ''/etc/cni/net.d'' [''.conf'', ''.conflist'', ''.json''] =
     Inr [''/etc/cni/net.d/c.conflist'', ''/etc/cni/net.d/a.conflist'', ''/etc/cni/net.d/b.conf'']"
  by (simp_all add: plugin_a_def example_host_def)

lemma example_accepted:
  "accepted example_host ''/etc/cni/net.d/a.conflist'' =
     Some \<lparr>ConfList_Name = ''net-a'', ConfList_CNIVersion = ''0.3.1'',
           Plugins = [\<lparr>Network = \<lparr>NetConf_Name = [], Type = ''bridge''\<rparr>\<rparr>]\<rparr>"
  "accepted example_host ''/etc/cni/net.d/b.conf'' =
     Some \<lparr>ConfList_Name = ''b.conf'', ConfList_CNIVersion = ''0.3.1'',
           Plugins = [\<lparr>Network = \<lparr>NetConf_Name = [], Type = ''bridge''\<rparr>\<rparr>]\<rparr>"
  "accepted example_host ''/etc/cni/net.d/c.conflist'' = None"
  by (simp_all add: accepted_def loadNetworks_file_def HasSuffix_def path_Base_def example_host_def)

lemma example_sorted:
  "sort_Strings [''/etc/cni/net.d/c.conflist'', ''/etc/cni/net.d/a.conflist'', ''/etc/cni/net.d/b.conf''] =
     [''/etc/cni/net.d/a.conflist'', ''/etc/cni/net.d/b.conf'', ''/etc/cni/net.d/c.conflist'']"
  by (simp add: sort_Strings_def less_char_def less_eq_char_def)

lemma example_load_any:
  assumes "pluginDir plugin = ''/etc/cni/net.d''"
  shows "\<exists>nets. fst (loadNetworks example_host plugin) = Inr (nets, ''net-a'') \<and>
     Mapping.keys nets = {''net-a'', ''b.conf''}"
proof -
  let ?r = "loadNetworks_loop example_host plugin
      [''/etc/cni/net.d/a.conflist'', ''/etc/cni/net.d/b.conf'', ''/etc/cni/net.d/c.conflist'']
      Mapping.empty [] []"
  have k: "Mapping.keys (fst ?r) = {''net-a'', ''b.conf''}" and d: "fst (snd ?r) = ''net-a''"
    unfolding loop_take[OF example_accepted(1)] loop_take[OF example_accepted(2)]
      loop_skip[OF example_accepted(3)]
    by (simp_all add: insert_commute)
  have "fst (loadNetworks example_host plugin) = Inr (fst ?r, fst (snd ?r))"
    unfolding loadNetworks_cases assms example_dir
    by (simp add: example_accepted example_sorted del: loadNetworks_loop.simps)
  then show ?thesis using k d by simp
qed

lemma example_load:
  "\<exists>nets. fst (loadNetworks example_host plugin_a) = Inr (nets, ''net-a'') \<and>
     Mapping.keys nets = {''net-a'', ''b.conf''}"
proof -
  let ?r = "loadNetworks_loop example_host plugin_a
      [''/etc/cni/net.d/a.conflist'', ''/etc/cni/net.d/b.conf'', ''/etc/cni/net.d/c.conflist'']
      Mapping.empty [] []"
  have k: "Mapping.keys (fst ?r) = {''net-a'', ''b.conf''}" and d: "fst (snd ?r) = ''net-a''"
    unfolding loop_take[OF example_accepted(1)] loop_take[OF example_accepted(2)]
      loop_skip[OF example_accepted(3)]
    by (simp_all add: insert_commute)
  have "fst (loadNetworks example_host plugin_a) = Inr (fst ?r, fst (snd ?r))"
    unfolding loadNetworks_cases example_dir
    by (simp add: example_accepted example_sorted del: loadNetworks_loop.simps)
  then show ?thesis using k d by simp
qed

lemma example_sync:
  assumes "pluginDir plugin = ''/etc/cni/net.d''"
  shows "\<exists>nets logged. Mapping.keys nets = {''net-a'', ''b.conf''} \<and>
     syncNetworkConfig example_host plugin =
       (None, plugin\<lparr>defaultNetName := (if defaultNetName plugin = [] then ''net-a'' else defaultNetName plugin),
                     networks := nets\<rparr>, logged)"
proof -
  from example_load_any[OF assms] obtain nets where
    l: "fst (loadNetworks example_host plugin) = Inr (nets, ''net-a'')" and
    k: "Mapping.keys nets = {''net-a'', ''b.conf''}" by blast
  obtain logged where lg: "loadNetworks example_host plugin = (Inr (nets, ''net-a''), logged)"
    using l by (cases "loadNetworks example_host plugin") simp
  have "syncNetworkConfig example_host plugin =
       (None, plugin\<lparr>defaultNetName := (if defaultNetName plugin = [] then ''net-a'' else defaultNetName plugin),
                     networks := nets\<rparr>, logged)"
    by (simp add: syncNetworkConfig_def lg)
  with k show ?thesis by blast
qed

lemma empty_sync:
  "\<exists>logged. syncNetworkConfig empty_host plugin = (Some errMissingDefaultNetwork, plugin, logged)"
proof -
  have "fst (loadNetworks empty_host plugin) = Inl errMissingDefaultNetwork"
    by (simp add: loadNetworks_cases empty_host_def)
  then obtain logged where "loadNetworks empty_host plugin = (Inl errMissingDefaultNetwork, logged)"
    by (cases "loadNetworks empty_host plugin") simp
  then show ?thesis by (simp add: syncNetworkConfig_def)
qed

lemma example_InitCNI:
  "\<exists>nets. Mapping.keys nets = {''net-a'', ''b.conf''} \<and>
     InitCNI example_host defName ''/etc/cni/net.d'' [] =
       Inr \<lparr>loNetwork = getLoNetwork example_host [''/opt/cni/bin/''] [],
            defaultNetName = (if defName = [] then ''net-a'' else defName),
            networks = nets,
            nsenterPath = ''/usr/bin/nsenter'',
            pluginDir = ''/etc/cni/net.d'',
            cniDirs = [''/opt/cni/bin/''],
            vendorCNIDirPrefix = [],
            pods = Map.empty,
            heap = (\<lambda>a. \<lparr>refcount = 0, mu = False\<rparr>),
            next_addr = 0\<rparr>"
proof -
  let ?p = "\<lparr>loNetwork = getLoNetwork example_host [''/opt/cni/bin/''] [],
            defaultNetName = defName,
            networks = Mapping.empty,
            nsenterPath = ''/usr/bin/nsenter'',
            pluginDir = ''/etc/cni/net.d'',
            cniDirs = [''/opt/cni/bin/''],
            vendorCNIDirPrefix = [],
            pods = Map.empty,
            heap = (\<lambda>a. \<lparr>refcount = 0, mu = False\<rparr>),
            next_addr = 0\<rparr>"
  have i: "InitCNI example_host defName ''/etc/cni/net.d'' [] =
      Inr (fst (snd (syncNetworkConfig example_host ?p)))"
    by (simp add: InitCNI_def example_host_simps Let_def)
  have "pluginDir ?p = ''/etc/cni/net.d''" by simp
  from example_sync[OF this] obtain nets logged where
    k: "Mapping.keys nets = {''net-a'', ''b.conf''}" and
    s: "syncNetworkConfig example_host ?p =
       (None, ?p\<lparr>defaultNetName := (if defaultNetName ?p = [] then ''net-a'' else defaultNetName ?p),
                     networks := nets\<rparr>, logged)" by blast
  have "InitCNI example_host defName ''/etc/cni/net.d'' [] =
       Inr \<lparr>loNetwork = getLoNetwork example_host [''/opt/cni/bin/''] [],
            defaultNetName = (if defName = [] then ''net-a'' else defName),
            networks = nets,
            nsenterPath = ''/usr/bin/nsenter'',
            pluginDir = ''/etc/cni/net.d'',
            cniDirs = [''/opt/cni/bin/''],
            vendorCNIDirPrefix = [],
            pods = Map.empty,
            heap = (\<lambda>a. \<lparr>refcount = 0, mu = False\<rparr>),
            next_addr = 0\<rparr>"
    unfolding i s by simp
  with k show ?thesis by blast
qed

subsection \<open>When loading fails\<close>

text \<open>
  Claim C6.  \<^verbatim>\<open>loadNetworks\<close> fails if and only if the directory yields no usable
  network: the directory cannot be listed, it has no file with one of the three
  extensions, or every file is rejected.  The error is then the one of libcni,
  \<open>errMissingDefaultNetwork\<close>, or \<open>ErrNoValidNetworks\<close>.  A rejected file (it fails to
  parse, has no plugin type, or declares no plugins) is logged with a warning and
  skipped: when some file of the directory is accepted, the load succeeds, and the map
  holds the names of the accepted files.
\<close>

theorem loadNetworks_fails_iff_no_usable_network:
  "((\<exists>err. fst (loadNetworks host plugin) = Inl err) \<longleftrightarrow>
      (case ConfFiles host (pluginDir plugin) [''.conf'', ''.conflist'', ''.json''] of
         Inl e \<Rightarrow> True
       | Inr files \<Rightarrow> (\<forall>f \<in> set files. accepted host f = None))) \<and>
   (\<forall>err. fst (loadNetworks host plugin) = Inl err \<longrightarrow>
      (case ConfFiles host (pluginDir plugin) [''.conf'', ''.conflist'', ''.json''] of
         Inl e \<Rightarrow> err = ErrExternal e
       | Inr files \<Rightarrow>
           err = (if files = [] then errMissingDefaultNetwork
                  else ErrNoValidNetworks (pluginDir plugin)))) \<and>
   (\<forall>files f g.
      ConfFiles host (pluginDir plugin) [''.conf'', ''.conflist'', ''.json''] = Inr files \<and>
      f \<in> set files \<and> accepted host f = None \<and> g \<in> set files \<and> accepted host g \<noteq> None \<longrightarrow>
      (\<exists>nets d. fst (loadNetworks host plugin) = Inr (nets, d) \<and>
         Mapping.keys nets =
           {ConfList_Name c |c g. g \<in> set files \<and> accepted host g = Some c}) \<and>
      (\<exists>m. (WarnLevel, m, f) \<in> set (snd (loadNetworks host plugin)))) \<and>
   (accepted host confFile = None \<longleftrightarrow>
      (\<exists>warning. loadNetworks_file host confFile = Inl warning) \<or>
      (\<exists>parsed. loadNetworks_file host confFile = Inr parsed \<and> Plugins parsed = []))"
proof (intro conjI allI impI)
  show "(\<exists>err. fst (loadNetworks host plugin) = Inl err) \<longleftrightarrow>
      (case ConfFiles host (pluginDir plugin) [''.conf'', ''.conflist'', ''.json''] of
         Inl e \<Rightarrow> True
       | Inr files \<Rightarrow> (\<forall>f \<in> set files. accepted host f = None))"
    by (simp add: loadNetworks_cases split: sum.splits)
next
  fix err assume "fst (loadNetworks host plugin) = Inl err"
  then show "case ConfFiles host (pluginDir plugin) [''.conf'', ''.conflist'', ''.json''] of
         Inl e \<Rightarrow> err = ErrExternal e
       | Inr files \<Rightarrow>
           err = (if files = [] then errMissingDefaultNetwork
                  else ErrNoValidNetworks (pluginDir plugin))"
    by (auto simp: loadNetworks_cases split: sum.splits if_splits)
next
  fix files f g
  assume a: "ConfFiles host (pluginDir plugin) [''.conf'', ''.conflist'', ''.json''] = Inr files \<and>
      f \<in> set files \<and> accepted host f = None \<and> g \<in> set files \<and> accepted host g \<noteq> None"
  from a loadNetworks_success[of host plugin files g]
  obtain nets d where l: "loadNetworks host plugin = (Inr (nets, d), map (logged_for host) (sort_Strings files))"
    and k: "Mapping.keys nets = {ConfList_Name c |c g. g \<in> set files \<and> accepted host g = Some c}"
    by blast
  show "\<exists>nets d. fst (loadNetworks host plugin) = Inr (nets, d) \<and>
         Mapping.keys nets = {ConfList_Name c |c g. g \<in> set files \<and> accepted host g = Some c}"
    using l k by simp
  from a obtain m where "logged_for host f = (WarnLevel, m, f)"
    using logged_for_rejected by blast
  moreover have "logged_for host f \<in> set (map (logged_for host) (sort_Strings files))"
    using a by (simp add: set_sort_Strings)
  ultimately show "\<exists>m. (WarnLevel, m, f) \<in> set (snd (loadNetworks host plugin))"
    using l by (metis snd_conv)
next
  show "accepted host confFile = None \<longleftrightarrow>
      (\<exists>warning. loadNetworks_file host confFile = Inl warning) \<or>
      (\<exists>parsed. loadNetworks_file host confFile = Inr parsed \<and> Plugins parsed = [])"
    by (rule accepted_None_iff)
qed

theorem loadNetworks_fails_iff_no_usable_network_witness:
  "ConfFiles example_host (pluginDir plugin_a) [''.conf'', ''.conflist'', ''.json''] =
     Inr [''/etc/cni/net.d/c.conflist'', ''/etc/cni/net.d/a.conflist'', ''/etc/cni/net.d/b.conf''] \<and>
   accepted example_host ''/etc/cni/net.d/c.conflist'' = None \<and>
   (\<exists>warning. loadNetworks_file example_host ''/etc/cni/net.d/c.conflist'' = Inl warning) \<and>
   accepted example_host ''/etc/cni/net.d/a.conflist'' \<noteq> None \<and>
   (\<exists>nets d. fst (loadNetworks example_host plugin_a) = Inr (nets, d) \<and>
      Mapping.keys nets = {''net-a'', ''b.conf''}) \<and>
   (\<exists>m. (WarnLevel, m, ''/etc/cni/net.d/c.conflist'') \<in> set (snd (loadNetworks example_host plugin_a))) \<and>
   ConfFiles empty_host (pluginDir plugin_a) [''.conf'', ''.conflist'', ''.json''] = Inr [] \<and>
   fst (loadNetworks empty_host plugin_a) = Inl errMissingDefaultNetwork"
proof -
  let ?files = "[''/etc/cni/net.d/c.conflist'', ''/etc/cni/net.d/a.conflist'', ''/etc/cni/net.d/b.conf'']"
  note inst = loadNetworks_fails_iff_no_usable_network[of example_host plugin_a "''/etc/cni/net.d/c.conflist''"]
  have files: "ConfFiles example_host (pluginDir plugin_a) [''.conf'', ''.conflist'', ''.json''] = Inr ?files"
    by (simp add: example_dir)
  have names: "{ConfList_Name c |c g. g \<in> set ?files \<and> accepted example_host g = Some c} =
      {''net-a'', ''b.conf''}" (is "?L = ?R")
  proof
    show "?L \<subseteq> ?R" by (auto simp: example_accepted)
    have "''net-a'' \<in> ?L" using example_accepted(1) by force
    moreover have "''b.conf'' \<in> ?L" using example_accepted(2) by force
    ultimately show "?R \<subseteq> ?L" by blast
  qed
  have rej: "\<exists>warning. loadNetworks_file example_host ''/etc/cni/net.d/c.conflist'' = Inl warning"
    using inst example_accepted(3) by (auto simp: example_host_def loadNetworks_file_def HasSuffix_def)
  have "ConfFiles example_host (pluginDir plugin_a) [''.conf'', ''.conflist'', ''.json''] = Inr ?files \<and>
      ''/etc/cni/net.d/c.conflist'' \<in> set ?files \<and>
      accepted example_host ''/etc/cni/net.d/c.conflist'' = None \<and>
      ''/etc/cni/net.d/a.conflist'' \<in> set ?files \<and>
      accepted example_host ''/etc/cni/net.d/a.conflist'' \<noteq> None"
    using files by (simp add: example_accepted)
  with inst have ok: "(\<exists>nets d. fst (loadNetworks example_host plugin_a) = Inr (nets, d) \<and>
         Mapping.keys nets = {ConfList_Name c |c g. g \<in> set ?files \<and> accepted example_host g = Some c}) \<and>
      (\<exists>m. (WarnLevel, m, ''/etc/cni/net.d/c.conflist'') \<in> set (snd (loadNetworks example_host plugin_a)))"
    by blast
  have efiles: "ConfFiles empty_host (pluginDir plugin_a) [''.conf'', ''.conflist'', ''.json''] = Inr []"
    by (simp add: empty_host_def)
  note inst_empty = loadNetworks_fails_iff_no_usable_network[of empty_host plugin_a "[]"]
  have "\<exists>err. fst (loadNetworks empty_host plugin_a) = Inl err"
    using inst_empty efiles by simp
  then obtain err where err: "fst (loadNetworks empty_host plugin_a) = Inl err" by blast
  then have "err = errMissingDefaultNetwork"
    using inst_empty efiles by simp
  with err have fails: "fst (loadNetworks empty_host plugin_a) = Inl errMissingDefaultNetwork"
    by simp
  show ?thesis
    using files example_accepted(1,3) rej ok efiles fails unfolding names by simp
qed

subsection \<open>A directory of three files\<close>

lemma append_less_append: "(dir::string) @ xs < dir @ ys \<longleftrightarrow> xs < ys"
  by (induction dir) simp_all

lemma sort_Strings_three:
  assumes "distinct files" "set files = {a, b, c}" "a < b" "b < c"
  shows "sort_Strings files = [a, b, c]"
proof -
  have "sorted [a, b, c]" using assms(3,4) by auto
  moreover have "distinct [a, b, c]" using assms(3,4) by auto
  moreover have "set (sort files) = set [a, b, c]" using assms(2) by simp
  ultimately show ?thesis
    unfolding sort_Strings_def
    using sorted_distinct_set_unique[of "sort files" "[a, b, c]"] assms(1) by simp
qed

lemma HasSuffix_append:
  "length suffix \<le> length file \<Longrightarrow> HasSuffix (dir @ file) suffix = HasSuffix file suffix"
  by (simp add: HasSuffix_def)

lemma path_Base_file:
  assumes "file \<noteq> []" "CHR ''/'' \<notin> set file"
  shows "path_Base (dir @ ''/'' @ file) = file"
proof -
  obtain x xs where r: "rev file = x # xs" using assms(1) by (cases "rev file") auto
  have x: "x \<noteq> CHR ''/''" using assms(2) r by (metis list.set_intros(1) set_rev)
  have "rev (dir @ ''/'' @ file) = x # xs @ ''/'' @ rev dir" using r by simp
  then have stripped: "dropWhile (\<lambda>c. c = CHR ''/'') (rev (dir @ ''/'' @ file)) =
      rev file @ ''/'' @ rev dir"
    using x r by simp
  have "\<And>c. c \<in> set (rev file) \<Longrightarrow> c \<noteq> CHR ''/''" using assms(2) by auto
  then have "takeWhile (\<lambda>c. c \<noteq> CHR ''/'') (rev file @ ''/'' @ rev dir) =
      rev file @ takeWhile (\<lambda>c. c \<noteq> CHR ''/'') (''/'' @ rev dir)"
    by (rule takeWhile_append2)
  then have "takeWhile (\<lambda>c. c \<noteq> CHR ''/'') (rev file @ ''/'' @ rev dir) = rev file"
    by simp
  then show ?thesis using stripped assms(1) by (simp add: path_Base_def Let_def)
qed

text \<open>
  Claim C1 (amended).  A directory holds \<^verbatim>\<open>a.conflist\<close> (valid, named \<^verbatim>\<open>net-a\<close>), \<^verbatim>\<open>b.conf\<close>
  (one plugin of type \<^verbatim>\<open>bridge\<close>, no declared name) and \<^verbatim>\<open>c.conflist\<close> (malformed).  Loading
  it does not fail; the map holds exactly the networks \<^verbatim>\<open>net-a\<close> and \<^verbatim>\<open>b.conf\<close>; the default
  network is \<^verbatim>\<open>net-a\<close>.  The name of the configuration without a declared name is
  \<^verbatim>\<open>path.Base\<close> of its file, which keeps the extension: \<^verbatim>\<open>b.conf\<close>, not \<^verbatim>\<open>b\<close>.
\<close>

theorem loadNetworks_three_files:
  assumes dir: "pluginDir plugin = dir"
    and files: "ConfFiles host dir [''.conf'', ''.conflist'', ''.json''] = Inr files"
      "distinct files"
      "set files = {dir @ ''/a.conflist'', dir @ ''/b.conf'', dir @ ''/c.conflist''}"
    and a: "ConfListFromFile host (dir @ ''/a.conflist'') = Inr list_a"
      "ConfList_Name list_a = ''net-a''" "Plugins list_a \<noteq> []"
    and b: "ConfFromFile host (dir @ ''/b.conf'') = Inr conf_b"
      "NetConf_Name (Network conf_b) = []" "Type (Network conf_b) = ''bridge''"
      "ConfListFromConf host conf_b = Inr list_b"
      "ConfList_Name list_b = NetConf_Name (Network conf_b)" "Plugins list_b = [conf_b]"
    and c: "ConfListFromFile host (dir @ ''/c.conflist'') = Inl err"
  shows "\<exists>nets net_a net_b.
           fst (loadNetworks host plugin) = Inr (nets, ''net-a'') \<and>
           Mapping.keys nets = {''net-a'', ''b.conf''} \<and>
           Mapping.lookup nets ''net-a'' = Some net_a \<and>
           name net_a = ''net-a'' \<and> NetworkConfig net_a = list_a \<and>
           Mapping.lookup nets ''b.conf'' = Some net_b \<and>
           name net_b = path_Base (dir @ ''/b.conf'') \<and> name net_b = ''b.conf'' \<and>
           NetworkConfig net_b = list_b\<lparr>ConfList_Name := ''b.conf''\<rparr>"
proof -
  let ?a = "dir @ ''/a.conflist''" and ?b = "dir @ ''/b.conf''" and ?c = "dir @ ''/c.conflist''"
  have order: "?a < ?b" "?b < ?c"
    by (simp_all add: append_less_append less_char_def)
  have sorted: "sort_Strings files = [?a, ?b, ?c]"
    using files(2,3) order by (rule sort_Strings_three)
  have suffix: "HasSuffix ?a ''.conflist''" "\<not> HasSuffix ?b ''.conflist''" "HasSuffix ?c ''.conflist''"
    by (simp_all add: HasSuffix_append) (simp_all add: HasSuffix_def)
  have base: "path_Base ?b = ''b.conf''"
    using path_Base_file[of "''b.conf''" dir] by simp
  have acc_a: "accepted host ?a = Some list_a"
    using a suffix by (simp add: accepted_def loadNetworks_file_def)
  have acc_b: "accepted host ?b = Some (list_b\<lparr>ConfList_Name := ''b.conf''\<rparr>)"
    using b suffix base by (simp add: accepted_def loadNetworks_file_def)
  have acc_c: "accepted host ?c = None"
    using c suffix by (simp add: accepted_def loadNetworks_file_def)
  have ne: "files \<noteq> []" using files(3) by auto
  have nall: "\<not> (\<forall>f \<in> set files. accepted host f = None)"
    using files(3) acc_a by simp
  let ?r = "loadNetworks_loop host plugin [?a, ?b, ?c] Mapping.empty [] []"
  have load: "fst (loadNetworks host plugin) = Inr (fst ?r, fst (snd ?r))"
    using files(1) ne nall dir sorted by (simp add: loadNetworks_cases)
  have r: "?r =
     (Mapping.update ''b.conf''
        \<lparr>name = ''b.conf'', NetworkConfig = list_b\<lparr>ConfList_Name := ''b.conf''\<rparr>,
         CNIConfig = \<lparr>Path = cniDirs plugin @
            map (\<lambda>p. vendorCNIDir host (vendorCNIDirPrefix plugin) (Type (Network p)))
              (Plugins (list_b\<lparr>ConfList_Name := ''b.conf''\<rparr>))\<rparr>\<rparr>
        (Mapping.update ''net-a''
           \<lparr>name = ''net-a'', NetworkConfig = list_a,
            CNIConfig = \<lparr>Path = cniDirs plugin @
               map (\<lambda>p. vendorCNIDir host (vendorCNIDirPrefix plugin) (Type (Network p)))
                 (Plugins list_a)\<rparr>\<rparr>
           Mapping.empty),
      ''net-a'',
      [logged_for host ?a, logged_for host ?b, logged_for host ?c])"
    unfolding loop_take[OF acc_a] loop_take[OF acc_b] loop_skip[OF acc_c]
    using a(2) by simp
  show ?thesis
    unfolding load r using base
    by (simp add: Mapping.lookup_update Mapping.lookup_update_neq insert_commute)
qed

theorem loadNetworks_three_files_witness:
  "pluginDir plugin_a = ''/etc/cni/net.d'' \<and>
   ConfFiles example_host ''/etc/cni/net.d'' [''.conf'', ''.conflist'', ''.json''] =
     Inr [''/etc/cni/net.d/c.conflist'', ''/etc/cni/net.d/a.conflist'', ''/etc/cni/net.d/b.conf''] \<and>
   ConfListFromFile example_host ''/etc/cni/net.d/a.conflist'' =
     Inr \<lparr>ConfList_Name = ''net-a'', ConfList_CNIVersion = ''0.3.1'',
          Plugins = [\<lparr>Network = \<lparr>NetConf_Name = [], Type = ''bridge''\<rparr>\<rparr>]\<rparr> \<and>
   ConfFromFile example_host ''/etc/cni/net.d/b.conf'' =
     Inr \<lparr>Network = \<lparr>NetConf_Name = [], Type = ''bridge''\<rparr>\<rparr> \<and>
   ConfListFromConf example_host \<lparr>Network = \<lparr>NetConf_Name = [], Type = ''bridge''\<rparr>\<rparr> =
     Inr \<lparr>ConfList_Name = [], ConfList_CNIVersion = ''0.3.1'',
          Plugins = [\<lparr>Network = \<lparr>NetConf_Name = [], Type = ''bridge''\<rparr>\<rparr>]\<rparr> \<and>
   ConfListFromFile example_host ''/etc/cni/net.d/c.conflist'' =
     Inl ''error parsing configuration list'' \<and>
   (\<exists>nets net_b.
      fst (loadNetworks example_host plugin_a) = Inr (nets, ''net-a'') \<and>
      Mapping.keys nets = {''net-a'', ''b.conf''} \<and>
      Mapping.lookup nets ''b.conf'' = Some net_b \<and> name net_b = ''b.conf'')"
proof -
  let ?la = "\<lparr>ConfList_Name = ''net-a'', ConfList_CNIVersion = ''0.3.1'',
          Plugins = [\<lparr>Network = \<lparr>NetConf_Name = [], Type = ''bridge''\<rparr>\<rparr>]\<rparr>"
  let ?cb = "\<lparr>Network = \<lparr>NetConf_Name = [], Type = ''bridge''\<rparr>\<rparr>"
  let ?lb = "\<lparr>ConfList_Name = [], ConfList_CNIVersion = ''0.3.1'', Plugins = [?cb]\<rparr>"
  have a: "ConfListFromFile example_host (''/etc/cni/net.d'' @ ''/a.conflist'') = Inr ?la"
    and b: "ConfFromFile example_host (''/etc/cni/net.d'' @ ''/b.conf'') = Inr ?cb"
    and lb: "ConfListFromConf example_host ?cb = Inr ?lb"
    and c: "ConfListFromFile example_host (''/etc/cni/net.d'' @ ''/c.conflist'') =
        Inl ''error parsing configuration list''"
    by (simp_all add: example_host_def)
  have "\<exists>nets net_a net_b.
           fst (loadNetworks example_host plugin_a) = Inr (nets, ''net-a'') \<and>
           Mapping.keys nets = {''net-a'', ''b.conf''} \<and>
           Mapping.lookup nets ''net-a'' = Some net_a \<and>
           name net_a = ''net-a'' \<and> NetworkConfig net_a = ?la \<and>
           Mapping.lookup nets ''b.conf'' = Some net_b \<and>
           name net_b = path_Base (''/etc/cni/net.d'' @ ''/b.conf'') \<and> name net_b = ''b.conf'' \<and>
           NetworkConfig net_b = ?lb\<lparr>ConfList_Name := ''b.conf''\<rparr>"
    by (rule loadNetworks_three_files[OF example_dir(1) example_dir(2) _ _ a _ _ b _ _ lb _ _ c])
       (simp_all add: insert_commute)
  then obtain nets net_b where
      "fst (loadNetworks example_host plugin_a) = Inr (nets, ''net-a'')"
      "Mapping.keys nets = {''net-a'', ''b.conf''}"
      "Mapping.lookup nets ''b.conf'' = Some net_b" "name net_b = ''b.conf''"
    by blast
  then have "\<exists>nets net_b.
      fst (loadNetworks example_host plugin_a) = Inr (nets, ''net-a'') \<and>
      Mapping.keys nets = {''net-a'', ''b.conf''} \<and>
      Mapping.lookup nets ''b.conf'' = Some net_b \<and> name net_b = ''b.conf''"
    by blast
  moreover note example_dir a b lb c
  ultimately show ?thesis by simp
qed

text \<open>On the example directory no network is named \<^verbatim>\<open>b\<close>.\<close>

theorem loadNetworks_three_files_counterexample:
  "\<exists>nets. fst (loadNetworks example_host plugin_a) = Inr (nets, ''net-a'') \<and>
     ''b'' \<notin> Mapping.keys nets \<and> Mapping.keys nets \<noteq> {''net-a'', ''b''}"
proof -
  from example_load obtain nets where
    l: "fst (loadNetworks example_host plugin_a) = Inr (nets, ''net-a'')" and
    k: "Mapping.keys nets = {''net-a'', ''b.conf''}" by blast
  have nb: "''b'' \<notin> Mapping.keys nets" using k by simp
  have "''b'' \<in> {''net-a'', ''b''}" by simp
  with nb have "Mapping.keys nets \<noteq> {''net-a'', ''b''}" by metis
  with nb l show ?thesis by blast
qed

subsection \<open>The default network name\<close>

text \<open>
  Claim C7.  A default network name that is not empty is never changed by
  \<^verbatim>\<open>syncNetworkConfig\<close>, however often it runs and whatever it loads: neither a name
  given to \<^verbatim>\<open>InitCNI\<close>, nor the name that the first successful load found.  A
  successful \<^verbatim>\<open>syncNetworkConfig\<close> replaces the map of networks by the loaded one, and
  assigns the default name only if it was empty (then to the loader's default, which
  is not empty); a failed one changes nothing.
\<close>

theorem default_network_name_sticky:
  "(defaultNetName plugin \<noteq> [] \<longrightarrow>
      defaultNetName (resync hosts plugin) = defaultNetName plugin) \<and>
   (defName \<noteq> [] \<and> InitCNI host defName dir dirs = Inr plugin0 \<longrightarrow>
      defaultNetName plugin0 = defName \<and> defaultNetName (resync hosts plugin0) = defName) \<and>
   (syncNetworkConfig host plugin = (None, plugin', logged) \<longrightarrow>
      (\<exists>d. fst (loadNetworks host plugin) = Inr (networks plugin', d) \<and> d \<noteq> [] \<and>
         defaultNetName plugin' = (if defaultNetName plugin = [] then d else defaultNetName plugin)) \<and>
      defaultNetName plugin' \<noteq> [] \<and>
      defaultNetName (resync hosts plugin') = defaultNetName plugin') \<and>
   (syncNetworkConfig host plugin = (Some err, plugin', logged) \<longrightarrow> plugin' = plugin)"
proof (intro conjI impI)
  assume "defaultNetName plugin \<noteq> []"
  then show "defaultNetName (resync hosts plugin) = defaultNetName plugin"
    by (rule resync_default_kept)
next
  assume a: "defName \<noteq> [] \<and> InitCNI host defName dir dirs = Inr plugin0"
  then show "defaultNetName plugin0 = defName" using InitCNI_default by blast
  then show "defaultNetName (resync hosts plugin0) = defName"
    using a resync_default_kept[of plugin0 hosts] by simp
next
  assume a: "syncNetworkConfig host plugin = (None, plugin', logged)"
  then obtain nets d where l: "fst (loadNetworks host plugin) = Inr (nets, d)" and d: "d \<noteq> []"
    and p: "plugin' = plugin\<lparr>defaultNetName := (if defaultNetName plugin = [] then d else defaultNetName plugin),
                       networks := nets\<rparr>"
    using sync_cases[of host plugin] by auto
  show "\<exists>d. fst (loadNetworks host plugin) = Inr (networks plugin', d) \<and> d \<noteq> [] \<and>
         defaultNetName plugin' = (if defaultNetName plugin = [] then d else defaultNetName plugin)"
    using l d p by auto
  show ne: "defaultNetName plugin' \<noteq> []" using d p by auto
  show "defaultNetName (resync hosts plugin') = defaultNetName plugin'"
    using ne by (rule resync_default_kept)
next
  assume "syncNetworkConfig host plugin = (Some err, plugin', logged)"
  then show "plugin' = plugin" using sync_cases[of host plugin] by auto
qed

theorem default_network_name_sticky_witness:
  "defaultNetName plugin_x \<noteq> [] \<and>
   defaultNetName (resync [example_host, empty_host] plugin_x) = ''net-x'' \<and>
   (\<exists>plugin0. InitCNI example_host ''net-x'' ''/etc/cni/net.d'' [] = Inr plugin0 \<and>
      defaultNetName plugin0 = ''net-x'' \<and>
      defaultNetName (resync [example_host, empty_host] plugin0) = ''net-x'') \<and>
   (\<exists>plugin' logged.
      syncNetworkConfig example_host (plugin_a\<lparr>defaultNetName := []\<rparr>) = (None, plugin', logged) \<and>
      defaultNetName plugin' = ''net-a'' \<and>
      defaultNetName (resync [empty_host, example_host] plugin') = ''net-a'') \<and>
   (\<exists>logged. syncNetworkConfig empty_host plugin_a = (Some errMissingDefaultNetwork, plugin_a, logged))"
proof -
  let ?hosts = "[example_host, empty_host]"
  have x: "defaultNetName plugin_x = ''net-x''" by (simp add: plugin_x_def)
  then have x1: "defaultNetName plugin_x \<noteq> []" by simp
  have c1: "defaultNetName (resync ?hosts plugin_x) = ''net-x''"
    using default_network_name_sticky[where plugin = plugin_x and hosts = ?hosts] x by simp
  obtain plugin0 where i: "InitCNI example_host ''net-x'' ''/etc/cni/net.d'' [] = Inr plugin0"
    using example_InitCNI[of "''net-x''"] by blast
  have c2: "defaultNetName plugin0 = ''net-x'' \<and> defaultNetName (resync ?hosts plugin0) = ''net-x''"
    using default_network_name_sticky[where hosts = ?hosts and defName = "''net-x''" and host = example_host
        and dir = "''/etc/cni/net.d''" and dirs = "[]" and ?plugin0.0 = plugin0] i
    by simp
  let ?p = "plugin_a\<lparr>defaultNetName := []\<rparr>"
  have "pluginDir ?p = ''/etc/cni/net.d''" by (simp add: plugin_a_def)
  from example_sync[OF this] obtain plugin' logged where
    s: "syncNetworkConfig example_host ?p = (None, plugin', logged)" by auto
  have l: "\<exists>nets. fst (loadNetworks example_host ?p) = Inr (nets, ''net-a'')"
    using example_load_any[of ?p] by (auto simp: plugin_a_def)
  have c3: "defaultNetName plugin' = ''net-a'' \<and>
      defaultNetName (resync [empty_host, example_host] plugin') = ''net-a''"
    using default_network_name_sticky[where hosts = "[empty_host, example_host]" and host = example_host
        and plugin = ?p and plugin' = plugin' and logged = logged] s l
    by auto
  obtain logged' where e: "syncNetworkConfig empty_host plugin_a = (Some errMissingDefaultNetwork, plugin_a, logged')"
    using empty_sync by blast
  have "plugin_a = plugin_a"
    using default_network_name_sticky[where host = empty_host and plugin = plugin_a and plugin' = plugin_a
        and logged = logged' and err = errMissingDefaultNetwork] e
    by simp
  show ?thesis using x1 c1 i c2 s c3 e by blast
qed

section \<open>The initialisation check\<close>

lemma getDefaultNetwork_None_iff:
  "getDefaultNetwork plugin = None \<longleftrightarrow>
     defaultNetName plugin = [] \<or> Mapping.lookup (networks plugin) (defaultNetName plugin) = None"
  by (simp add: getDefaultNetwork_def getDefaultNetworkName_def getNetwork_def Let_def
      split: option.splits)

text \<open>
  Claim C9 (amended).  \<^verbatim>\<open>Status()\<close> returns the error \<^verbatim>\<open>cni config uninitialized\<close> unless the
  default network is resolvable, that is, unless the default network name is not empty
  and names a network of the map; then it returns no error.
\<close>

theorem Status_uninitialized_iff:
  "(Status plugin = (if getDefaultNetwork plugin = None then Some ErrUninitialized else None)) \<and>
   (getDefaultNetwork plugin = None \<longleftrightarrow>
      defaultNetName plugin = [] \<or>
      Mapping.lookup (networks plugin) (defaultNetName plugin) = None)"
  using getDefaultNetwork_None_iff
  by (simp add: Status_def checkInitialized_def PodNetwork_zero_def)

theorem Status_uninitialized_iff_witness:
  "Status plugin_a = None \<and> Status plugin_x = Some ErrUninitialized \<and>
   Status (plugin_a\<lparr>defaultNetName := []\<rparr>) = Some ErrUninitialized"
  using Status_uninitialized_iff[of plugin_a] Status_uninitialized_iff[of plugin_x]
    Status_uninitialized_iff[of "plugin_a\<lparr>defaultNetName := []\<rparr>"]
  by (simp add: plugin_a_def plugin_x_def Mapping.lookup_update Mapping.lookup_update_neq)

text \<open>
  With a default name given to \<^verbatim>\<open>InitCNI\<close> that no file declares, the network \<^verbatim>\<open>net-a\<close>
  of the example directory is found by name, and \<^verbatim>\<open>Status()\<close> still returns the error.
\<close>

theorem Status_some_network_counterexample:
  "\<exists>plugin network.
     InitCNI example_host ''net-x'' ''/etc/cni/net.d'' [] = Inr plugin \<and>
     getNetwork plugin ''net-a'' = Inr network \<and>
     Status plugin = Some ErrUninitialized"
proof -
  obtain nets plugin where k: "Mapping.keys nets = {''net-a'', ''b.conf''}"
    and i: "InitCNI example_host ''net-x'' ''/etc/cni/net.d'' [] = Inr plugin"
    and d: "defaultNetName plugin = ''net-x''" and n: "networks plugin = nets"
    using example_InitCNI[of "''net-x''"] by fastforce
  have "''net-a'' \<in> Mapping.keys nets" using k by simp
  then obtain network where "Mapping.lookup nets ''net-a'' = Some network"
    by (auto simp: Mapping.keys_dom_lookup)
  then have g: "getNetwork plugin ''net-a'' = Inr network" by (simp add: getNetwork_def n)
  have "''net-x'' \<notin> Mapping.keys nets" using k by simp
  then have "Mapping.lookup nets ''net-x'' = None"
    by (auto simp: Mapping.keys_dom_lookup)
  then have "Status plugin = Some ErrUninitialized"
    by (simp add: Status_def checkInitialized_def PodNetwork_zero_def getDefaultNetwork_def
        getDefaultNetworkName_def getNetwork_def d n)
  with i g show ?thesis by blast
qed

text \<open>
  Claim C10.  \<^verbatim>\<open>TearDownPod\<close> for a pod without a network list, on a plugin whose default
  network is not resolvable, returns the error \<^verbatim>\<open>cni config uninitialized\<close> and leaves
  the plugin (so the lock table: the pod lock is not taken) and the outside world (so
  the trace: nothing is detached) as they were.
\<close>

theorem TearDownPod_uninitialized:
  "(Networks podNetwork = [] \<and> getDefaultNetwork plugin = None \<longrightarrow>
      TearDownPod engine plugin podNetwork w = (Some (Err ErrUninitialized), plugin, w)) \<and>
   (getDefaultNetwork plugin = None \<longleftrightarrow>
      defaultNetName plugin = [] \<or>
      Mapping.lookup (networks plugin) (defaultNetName plugin) = None)"
  using getDefaultNetwork_None_iff
  by (simp add: TearDownPod_def checkInitialized_def)

theorem TearDownPod_uninitialized_witness:
  "Networks pod_web = [] \<and> getDefaultNetwork plugin_x = None \<and>
   TearDownPod (example_engine []) plugin_x pod_web world0 =
     (Some (Err ErrUninitialized), plugin_x, world0)"
proof -
  have n: "Networks pod_web = []" by (simp add: pod_web_def)
  have "Mapping.lookup (networks plugin_x) (defaultNetName plugin_x) = None"
    by (simp add: plugin_x_def plugin_a_def Mapping.lookup_update_neq)
  then have g: "getDefaultNetwork plugin_x = None"
    using TearDownPod_uninitialized[of pod_web plugin_x "example_engine []" world0] by simp
  show ?thesis
    using TearDownPod_uninitialized[of pod_web plugin_x "example_engine []" world0] n g by simp
qed

section \<open>The entry points and the trace\<close>

subsection \<open>The loop of \<^verbatim>\<open>forEachNetwork\<close>\<close>

lemma loop_generic:
  assumes step: "\<And>network ifName s r s'.
      forEachFunc network ifName podNetwork s = (r, s') \<Longrightarrow> step_ok P tr acc g network ifName s r s'"
    and run: "forEachNetwork_loop plugin podNetwork forEachFunc i names s = (r, s')"
  shows "\<exists>evs. tr s' = tr s @ evs \<and> acc s' = acc s @ List.map_filter g evs \<and>
           follows (\<lambda>netName k ev. \<exists>network.
              Mapping.lookup (networks plugin) netName = Some network \<and>
              P network (''eth'' @ Sprintf_d k) ev) i names evs \<and>
           loop_outcome plugin names evs r"
  using run
proof (induction names arbitrary: i s)
  case Nil
  then show ?case by (simp add: loop_outcome_def List.map_filter_simps)
next
  case (Cons netName names)
  let ?Q = "\<lambda>netName k ev. \<exists>network.
              Mapping.lookup (networks plugin) netName = Some network \<and>
              P network (''eth'' @ Sprintf_d k) ev"
  show ?case
  proof (cases "Mapping.lookup (networks plugin) netName")
    case None
    then have "r = Some (Err (ErrNetworkNotFound netName))" "s' = s"
      using Cons.prems by (simp_all add: getNetwork_def)
    then have "tr s' = tr s @ [] \<and> acc s' = acc s @ List.map_filter g [] \<and>
        follows ?Q i (netName # names) [] \<and> loop_outcome plugin (netName # names) [] r"
      using None by (simp add: loop_outcome_def List.map_filter_simps)
    then show ?thesis by blast
  next
    case (Some network)
    obtain r1 s1 where f: "forEachFunc network (''eth'' @ Sprintf_d i) podNetwork s = (r1, s1)"
      by (cases "forEachFunc network (''eth'' @ Sprintf_d i) podNetwork s") auto
    from step[OF f] have ok: "step_ok P tr acc g network (''eth'' @ Sprintf_d i) s r1 s1" .
    show ?thesis
    proof (cases r1)
      case None
      then obtain ev where ev: "tr s1 = tr s @ [ev]" "acc s1 = acc s @ List.map_filter g [ev]"
        "P network (''eth'' @ Sprintf_d i) ev" "ev_error ev = None"
        using ok by (auto simp: step_ok_def split: option.splits)
      have "forEachNetwork_loop plugin podNetwork forEachFunc (Suc i) names s1 = (r, s')"
        using Cons.prems Some f None by (simp add: getNetwork_def)
      from Cons.IH[OF this] obtain evs where evs: "tr s' = tr s1 @ evs"
        "acc s' = acc s1 @ List.map_filter g evs" "follows ?Q (Suc i) names evs"
        "loop_outcome plugin names evs r" by blast
      have 1: "tr s' = tr s @ (ev # evs)" using ev evs by simp
      have 2: "acc s' = acc s @ List.map_filter g (ev # evs)"
        using ev evs by (simp add: List.map_filter_simps split: option.splits)
      have 3: "follows ?Q i (netName # names) (ev # evs)"
        using ev evs Some by simp
      have 4: "loop_outcome plugin (netName # names) (ev # evs) r"
        using evs(4) ev(4) by (auto simp: loop_outcome_def split: option.splits)
      from 1 2 3 4 show ?thesis by blast
    next
      case (Some f1)
      then have rs: "r = Some f1" "s' = s1"
        using Cons.prems \<open>Mapping.lookup (networks plugin) netName = Some network\<close> f
        by (simp_all add: getNetwork_def)
      from ok Some consider
        (panic) "f1 = PanicIndexOutOfRange" "Plugins (NetworkConfig network) = []" "tr s1 = tr s" "acc s1 = acc s"
        | (failed) ev e where "tr s1 = tr s @ [ev]" "acc s1 = acc s @ List.map_filter g [ev]"
          "P network (''eth'' @ Sprintf_d i) ev" "ev_error ev = Some e" "f1 = Err (ErrExternal e)"
        by (auto simp: step_ok_def split: option.splits)
      then show ?thesis
      proof cases
        case panic
        then have "tr s' = tr s @ [] \<and> acc s' = acc s @ List.map_filter g [] \<and>
            follows ?Q i (netName # names) [] \<and> loop_outcome plugin (netName # names) [] r"
          using rs \<open>Mapping.lookup (networks plugin) netName = Some network\<close>
          by (simp add: loop_outcome_def List.map_filter_simps)
        then show ?thesis by blast
      next
        case failed
        then have "tr s' = tr s @ [ev] \<and> acc s' = acc s @ List.map_filter g [ev] \<and>
            follows ?Q i (netName # names) [ev] \<and> loop_outcome plugin (netName # names) [ev] r"
          using rs \<open>Mapping.lookup (networks plugin) netName = Some network\<close>
          by (simp add: loop_outcome_def)
        then show ?thesis by blast
      qed
    qed
  qed
qed

lemma buildCNIRuntimeConf_Inr:
  "\<exists>rt. buildCNIRuntimeConf podNetwork ifName = Inr rt \<and> IfName rt = ifName \<and>
     ContainerID rt = ID podNetwork \<and> RuntimeConf_NetNS rt = NetNS podNetwork"
  by (simp add: buildCNIRuntimeConf_def Let_def)

lemma add_call_obs:
  "add_call podNetwork network ifName ev \<Longrightarrow>
   is_add ev \<and> ev_network ev = Some network \<and> ev_IfName ev = ifName"
  using buildCNIRuntimeConf_Inr[of podNetwork ifName] by (auto simp: add_call_def)

lemma del_call_obs:
  "del_call podNetwork network ifName ev \<Longrightarrow>
   is_del ev \<and> ev_network ev = Some network \<and> ev_IfName ev = ifName"
  using buildCNIRuntimeConf_Inr[of podNetwork ifName] by (auto simp: del_call_def)

lemma details_call_obs:
  "details_call plugin podNetwork network ifName ev \<Longrightarrow> is_details ev \<and> ev_IfName ev = ifName"
  by (auto simp: details_call_def)

lemma addToNetwork_cases:
  "(Plugins (NetworkConfig network) = [] \<and>
    addToNetwork engine network podNetwork ifName w = (Inl PanicIndexOutOfRange, w)) \<or>
   (\<exists>ev out. add_call podNetwork network ifName ev \<and>
      addToNetwork engine network podNetwork ifName w =
        (case ev_error ev of Some e \<Rightarrow> Inl (Err (ErrExternal e)) | None \<Rightarrow> Inr (the (ev_result ev)),
         \<lparr>trace = trace w @ [ev], outside = out\<rparr>) \<and>
      (ev_error ev = None \<longleftrightarrow> ev_result ev \<noteq> None))"
proof (cases "Plugins (NetworkConfig network) = []")
  case True
  then show ?thesis by (simp add: addToNetwork_def buildCNIRuntimeConf_def Let_def)
next
  case False
  obtain rt where rt: "buildCNIRuntimeConf podNetwork ifName = Inr rt"
    using buildCNIRuntimeConf_Inr by blast
  obtain response out where c:
    "AddNetworkList engine (CNIConfig network) (NetworkConfig network) rt (outside w) = (response, out)"
    by (cases "AddNetworkList engine (CNIConfig network) (NetworkConfig network) rt (outside w)") auto
  let ?ev = "AddNetworkListCall network rt response"
  have f1: "add_call podNetwork network ifName ?ev" using rt by (simp add: add_call_def)
  have f2: "addToNetwork engine network podNetwork ifName w =
        (case ev_error ?ev of Some e \<Rightarrow> Inl (Err (ErrExternal e)) | None \<Rightarrow> Inr (the (ev_result ?ev)),
         \<lparr>trace = trace w @ [?ev], outside = out\<rparr>)"
    using False rt c by (cases response) (simp_all add: addToNetwork_def Let_def)
  have f3: "ev_error ?ev = None \<longleftrightarrow> ev_result ?ev \<noteq> None"
    by (cases response) simp_all
  show ?thesis
    by (rule disjI2, rule exI[of _ ?ev], rule exI[of _ out], intro conjI) (rule f1 f2 f3)+
qed

lemma deleteFromNetwork_cases:
  "(Plugins (NetworkConfig network) = [] \<and>
    deleteFromNetwork engine network podNetwork ifName w = (Some PanicIndexOutOfRange, w)) \<or>
   (\<exists>ev out. del_call podNetwork network ifName ev \<and>
      deleteFromNetwork engine network podNetwork ifName w =
        (case ev_error ev of Some e \<Rightarrow> Some (Err (ErrExternal e)) | None \<Rightarrow> None,
         \<lparr>trace = trace w @ [ev], outside = out\<rparr>))"
proof (cases "Plugins (NetworkConfig network) = []")
  case True
  then show ?thesis by (simp add: deleteFromNetwork_def buildCNIRuntimeConf_def Let_def)
next
  case False
  obtain rt where rt: "buildCNIRuntimeConf podNetwork ifName = Inr rt"
    using buildCNIRuntimeConf_Inr by blast
  obtain response out where c:
    "DelNetworkList engine (CNIConfig network) (NetworkConfig network) rt (outside w) = (response, out)"
    by (cases "DelNetworkList engine (CNIConfig network) (NetworkConfig network) rt (outside w)") auto
  let ?ev = "DelNetworkListCall network rt response"
  have f1: "del_call podNetwork network ifName ?ev" using rt by (simp add: del_call_def)
  have f2: "deleteFromNetwork engine network podNetwork ifName w =
        (case ev_error ?ev of Some e \<Rightarrow> Some (Err (ErrExternal e)) | None \<Rightarrow> None,
         \<lparr>trace = trace w @ [?ev], outside = out\<rparr>)"
    using False rt c by (cases response) (simp_all add: deleteFromNetwork_def Let_def)
  show ?thesis
    by (rule disjI2, rule exI[of _ ?ev], rule exI[of _ out], intro conjI) (rule f1 f2)+
qed

lemma SetUpPod_func_step:
  assumes "SetUpPod_func engine network ifName podNetwork s = (r, s')"
  shows "step_ok (add_call podNetwork) (\<lambda>s. trace (snd s)) fst ev_result network ifName s r s'"
proof -
  obtain results w where s: "s = (results, w)" by (cases s) auto
  from addToNetwork_cases[of network engine podNetwork ifName w] show ?thesis
  proof (elim disjE exE conjE)
    assume "Plugins (NetworkConfig network) = []"
      "addToNetwork engine network podNetwork ifName w = (Inl PanicIndexOutOfRange, w)"
    then show ?thesis using assms s by (auto simp: SetUpPod_func_def step_ok_def)
  next
    fix ev out
    assume a: "add_call podNetwork network ifName ev"
      "addToNetwork engine network podNetwork ifName w =
        (case ev_error ev of Some e \<Rightarrow> Inl (Err (ErrExternal e)) | None \<Rightarrow> Inr (the (ev_result ev)),
         \<lparr>trace = trace w @ [ev], outside = out\<rparr>)"
      "ev_error ev = None \<longleftrightarrow> ev_result ev \<noteq> None"
    show ?thesis
    proof (cases "ev_error ev")
      case None
      then obtain res where "ev_result ev = Some res" using a(3) by auto
      then show ?thesis using assms s a(1,2) None
        by (auto simp: SetUpPod_func_def step_ok_def List.map_filter_simps)
    next
      case (Some e)
      then have "ev_result ev = None" using a(3) by auto
      then show ?thesis using assms s a(1,2) Some
        by (auto simp: SetUpPod_func_def step_ok_def List.map_filter_simps)
    qed
  qed
qed

lemma TearDownPod_func_step:
  assumes "TearDownPod_func engine network ifName podNetwork w = (r, w')"
  shows "step_ok (del_call podNetwork) trace (\<lambda>w. []) (\<lambda>ev. None) network ifName w r w'"
proof -
  from deleteFromNetwork_cases[of network engine podNetwork ifName w] show ?thesis
  proof (elim disjE exE conjE)
    assume "Plugins (NetworkConfig network) = []"
      "deleteFromNetwork engine network podNetwork ifName w = (Some PanicIndexOutOfRange, w)"
    then show ?thesis using assms by (auto simp: TearDownPod_func_def step_ok_def)
  next
    fix ev out
    assume a: "del_call podNetwork network ifName ev"
      "deleteFromNetwork engine network podNetwork ifName w =
        (case ev_error ev of Some e \<Rightarrow> Some (Err (ErrExternal e)) | None \<Rightarrow> None,
         \<lparr>trace = trace w @ [ev], outside = out\<rparr>)"
    show ?thesis using assms a
      by (cases "ev_error ev")
         (auto simp: TearDownPod_func_def step_ok_def List.map_filter_simps)
  qed
qed

lemma GetPodNetworkStatus_func_step:
  assumes "GetPodNetworkStatus_func engine plugin network ifName podNetwork s = (r, s')"
  shows "step_ok (details_call plugin podNetwork) (\<lambda>s. trace (snd s)) fst status_result
           network ifName s r s'"
proof -
  obtain results w where s: "s = (results, w)" by (cases s) auto
  obtain response out where c:
    "getContainerDetails engine (nsenterPath plugin) (NetNS podNetwork) ifName ''-4'' (outside w) =
       (response, out)"
    by (cases "getContainerDetails engine (nsenterPath plugin) (NetNS podNetwork) ifName ''-4'' (outside w)") auto
  show ?thesis
  proof (cases response)
    case (Inl err)
    then show ?thesis using assms s c
      by (auto simp: GetPodNetworkStatus_func_def step_ok_def details_call_def List.map_filter_simps)
  next
    case (Inr details)
    obtain ip mac where "details = (ip, mac)" by (cases details) auto
    then show ?thesis using assms s c Inr
      by (auto simp: GetPodNetworkStatus_func_def step_ok_def details_call_def List.map_filter_simps)
  qed
qed

lemma follows_length: "follows P i names evs \<Longrightarrow> length evs \<le> length names"
  by (induction P i names evs rule: follows.induct) simp_all

lemma follows_nth:
  "follows P i names evs \<Longrightarrow> j < length evs \<Longrightarrow> P (names ! j) (i + j) (evs ! j)"
proof (induction P i names evs arbitrary: j rule: follows.induct)
  case (3 P i netName names ev evs)
  then show ?case by (cases j) simp_all
qed simp_all

lemma follows_not_last:
  "follows P i names evs \<Longrightarrow> Suc j < length evs \<Longrightarrow> ev_error (evs ! j) = None"
proof (induction P i names evs arbitrary: j rule: follows.induct)
  case (3 P i netName names ev evs)
  then show ?case by (cases j) auto
qed simp_all

lemma loop_outcome_error:
  assumes "follows P i names evs" "loop_outcome plugin names evs r"
    "j < length evs" "ev_error (evs ! j) = Some e"
  shows "Suc j = length evs \<and> r = Some (Err (ErrExternal e))"
proof -
  have last: "Suc j = length evs"
  proof (rule ccontr)
    assume "Suc j \<noteq> length evs"
    then have "Suc j < length evs" using assms(3) by simp
    then have "ev_error (evs ! j) = None" using assms(1) by (rule follows_not_last[rotated])
    then show False using assms(4) by simp
  qed
  have ne: "evs \<noteq> []" using assms(3) by auto
  have "length evs - 1 = j" using last by simp
  then have l: "last evs = evs ! j" using ne by (simp add: last_conv_nth)
  have mem: "evs ! j \<in> set evs" using assms(3) by simp
  have "r = Some (Err (ErrExternal e))"
  proof (cases r)
    case None
    then have "\<forall>ev \<in> set evs. ev_error ev = None" using assms(2) by (simp add: loop_outcome_def)
    then show ?thesis using mem assms(4) by auto
  next
    case (Some f)
    then have "(evs \<noteq> [] \<and> (\<exists>e. ev_error (last evs) = Some e \<and> f = Err (ErrExternal e))) \<or>
          (\<forall>ev \<in> set evs. ev_error ev = None)"
      using assms(2) by (auto simp: loop_outcome_def)
    then show ?thesis using mem assms(4) l Some by auto
  qed
  with last show ?thesis by simp
qed

lemma loop_outcome_None:
  "loop_outcome plugin names evs None \<Longrightarrow>
   length evs = length names \<and> (\<forall>ev \<in> set evs. ev_error ev = None)"
  by (simp add: loop_outcome_def)

lemma podLock_frame:
  assumes "podLock plugin podNetwork = (m, plugin1)"
  shows "networks plugin1 = networks plugin" "defaultNetName plugin1 = defaultNetName plugin"
    "loNetwork plugin1 = loNetwork plugin" "nsenterPath plugin1 = nsenterPath plugin"
    "pods plugin1 (buildFullPodName podNetwork) = Some m"
  using assms by (auto simp: podLock_def Let_def split: option.splits)

lemma Mutex_Lock_frame:
  assumes "Mutex_Lock m plugin1 = Inr plugin2"
  shows "networks plugin2 = networks plugin1" "defaultNetName plugin2 = defaultNetName plugin1"
    "loNetwork plugin2 = loNetwork plugin1" "nsenterPath plugin2 = nsenterPath plugin1"
    "pods plugin2 = pods plugin1" "mu (heap plugin2 m)"
  using assms by (auto simp: Mutex_Lock_def split: if_splits)

lemma Mutex_Lock_blocked: "Mutex_Lock m plugin1 = Inl f \<Longrightarrow> f = BlockedOnMutex"
  by (auto simp: Mutex_Lock_def split: if_splits)

lemma podUnlock_held:
  assumes "pods plugin2 (buildFullPodName podNetwork) = Some m" "mu (heap plugin2 m)"
  shows "\<exists>plugin3 logged. podUnlock plugin2 podNetwork = Inr (plugin3, logged)"
  using assms by (simp add: podUnlock_def Let_def)

lemma requested_frame:
  "networks plugin2 = networks plugin \<Longrightarrow> defaultNetName plugin2 = defaultNetName plugin \<Longrightarrow>
   requested plugin2 podNetwork = requested plugin podNetwork"
  by (simp add: requested_def)

lemma forEachNetwork_requested:
  "forEachNetwork plugin podNetwork forEachFunc s =
   forEachNetwork_loop plugin podNetwork forEachFunc 0 (requested plugin podNetwork) s"
  by (simp add: forEachNetwork_def requested_def getDefaultNetworkName_def Let_def)

lemma enter_cases:
  obtains (blocked) m plugin1 where "podLock plugin podNetwork = (m, plugin1)"
      "Mutex_Lock m plugin1 = Inl BlockedOnMutex"
    | (held) m plugin1 plugin2 plugin3 logged where "podLock plugin podNetwork = (m, plugin1)"
      "Mutex_Lock m plugin1 = Inr plugin2" "podUnlock plugin2 podNetwork = Inr (plugin3, logged)"
      "networks plugin2 = networks plugin" "defaultNetName plugin2 = defaultNetName plugin"
      "loNetwork plugin2 = loNetwork plugin" "nsenterPath plugin2 = nsenterPath plugin"
proof -
  obtain m plugin1 where l: "podLock plugin podNetwork = (m, plugin1)"
    by (cases "podLock plugin podNetwork") auto
  show ?thesis
  proof (cases "Mutex_Lock m plugin1")
    case (Inl f)
    then have "Mutex_Lock m plugin1 = Inl BlockedOnMutex" using Mutex_Lock_blocked by blast
    then show ?thesis using l blocked by blast
  next
    case (Inr plugin2)
    have "pods plugin2 (buildFullPodName podNetwork) = Some m"
      using Mutex_Lock_frame(5)[OF Inr] podLock_frame(5)[OF l] by simp
    then obtain plugin3 logged where "podUnlock plugin2 podNetwork = Inr (plugin3, logged)"
      using podUnlock_held Mutex_Lock_frame(6)[OF Inr] by blast
    then show ?thesis
      using held[OF l Inr] Mutex_Lock_frame(1-4)[OF Inr] podLock_frame(1-4)[OF l] by simp
  qed
qed

lemma forEachNetwork_trace:
  assumes step: "\<And>network ifName s r s'.
      forEachFunc network ifName podNetwork s = (r, s') \<Longrightarrow> step_ok P tr acc g network ifName s r s'"
    and run: "forEachNetwork plugin2 podNetwork forEachFunc s = (r, s')"
    and frame: "networks plugin2 = networks plugin" "defaultNetName plugin2 = defaultNetName plugin"
  shows "\<exists>evs. tr s' = tr s @ evs \<and> acc s' = acc s @ List.map_filter g evs \<and>
           follows (at_network plugin P) 0 (requested plugin podNetwork) evs \<and>
           loop_outcome plugin (requested plugin podNetwork) evs r"
proof -
  have "requested plugin2 podNetwork = requested plugin podNetwork"
    using frame by (rule requested_frame)
  then have "forEachNetwork_loop plugin2 podNetwork forEachFunc 0 (requested plugin podNetwork) s = (r, s')"
    using run unfolding forEachNetwork_requested by simp
  from loop_generic[of forEachFunc podNetwork P tr acc g plugin2, OF step this]
  show ?thesis
    unfolding at_network_def loop_outcome_def frame by simp
qed

lemma SetUpPod_trace:
  assumes "SetUpPod engine plugin podNetwork w = (r, plugin', w')"
  obtains (none) "trace w' = trace w"
      "r = Inl (Err ErrUninitialized) \<or> r = Inl BlockedOnMutex \<or> r = Inl PanicIndexOutOfRange"
    | (lo_failed) lo_ev e where "trace w' = trace w @ [lo_ev]"
      "add_call podNetwork (loNetwork plugin) ''lo'' lo_ev" "ev_error lo_ev = Some e"
      "r = Inl (Err (ErrExternal e))"
    | (looped) lo_ev evs r' where "trace w' = trace w @ lo_ev # evs"
      "add_call podNetwork (loNetwork plugin) ''lo'' lo_ev" "ev_error lo_ev = None"
      "follows (at_network plugin (add_call podNetwork)) 0 (requested plugin podNetwork) evs"
      "loop_outcome plugin (requested plugin podNetwork) evs r'"
      "r = (case r' of Some f \<Rightarrow> Inl f | None \<Rightarrow> Inr (List.map_filter ev_result evs))"
proof (cases "checkInitialized plugin podNetwork")
  case (Some err)
  then have "err = ErrUninitialized" by (auto simp: checkInitialized_def split: if_splits)
  then show ?thesis using assms Some none by (simp add: SetUpPod_def)
next
  case None
  show ?thesis
  proof (cases plugin podNetwork rule: enter_cases)
    case (blocked m plugin1)
    then show ?thesis using assms None none by (simp add: SetUpPod_def)
  next
    case (held m plugin1 plugin2 plugin3 logged)
    obtain r0 w0 where body: "SetUpPod_locked engine plugin2 podNetwork w = (r0, w0)"
      by (cases "SetUpPod_locked engine plugin2 podNetwork w") auto
    have res: "r = r0" "w' = w0"
      using assms None held(1,2,3) body by (simp_all add: SetUpPod_def)
    from addToNetwork_cases[of "loNetwork plugin2" engine podNetwork "''lo''" w]
    show ?thesis
    proof (elim disjE exE conjE)
      assume "Plugins (NetworkConfig (loNetwork plugin2)) = []"
        "addToNetwork engine (loNetwork plugin2) podNetwork ''lo'' w = (Inl PanicIndexOutOfRange, w)"
      then show ?thesis using body res none by (simp add: SetUpPod_locked_def)
    next
      fix lo_ev out
      assume lo: "add_call podNetwork (loNetwork plugin2) ''lo'' lo_ev"
        and call: "addToNetwork engine (loNetwork plugin2) podNetwork ''lo'' w =
          (case ev_error lo_ev of Some e \<Rightarrow> Inl (Err (ErrExternal e))
           | None \<Rightarrow> Inr (the (ev_result lo_ev)),
           \<lparr>trace = trace w @ [lo_ev], outside = out\<rparr>)"
      let ?w1 = "\<lparr>trace = trace w @ [lo_ev], outside = out\<rparr>"
      have lo': "add_call podNetwork (loNetwork plugin) ''lo'' lo_ev" using lo held(6) by simp
      show ?thesis
      proof (cases "ev_error lo_ev")
        case (Some e)
        then have "r0 = Inl (Err (ErrExternal e))" "w0 = ?w1"
          using body call by (simp_all add: SetUpPod_locked_def)
        then show ?thesis using res lo' Some lo_failed by simp
      next
        case None
        obtain r' results w2 where loop:
          "forEachNetwork plugin2 podNetwork (SetUpPod_func engine) ([], ?w1) = (r', (results, w2))"
          by (cases "forEachNetwork plugin2 podNetwork (SetUpPod_func engine) ([], ?w1)") auto
        have r0: "r0 = (case r' of Some f \<Rightarrow> Inl f | None \<Rightarrow> Inr results)" "w0 = w2"
          using body call None loop by (simp_all add: SetUpPod_locked_def split: option.splits)
        have step: "\<And>network ifName s r s'.
            SetUpPod_func engine network ifName podNetwork s = (r, s') \<Longrightarrow>
            step_ok (add_call podNetwork) (\<lambda>s. trace (snd s)) fst ev_result network ifName s r s'"
          by (rule SetUpPod_func_step)
        from forEachNetwork_trace[OF step loop held(4,5)]
        obtain evs where evs: "trace w2 = (trace w @ [lo_ev]) @ evs"
          "results = List.map_filter ev_result evs"
          "follows (at_network plugin (add_call podNetwork)) 0 (requested plugin podNetwork) evs"
          "loop_outcome plugin (requested plugin podNetwork) evs r'"
          by auto
        have "trace w' = trace w @ lo_ev # evs" using evs(1) res r0 by simp
        moreover have "r = (case r' of Some f \<Rightarrow> Inl f | None \<Rightarrow> Inr (List.map_filter ev_result evs))"
          using res r0 evs(2) by (cases r') simp_all
        ultimately show ?thesis using looped lo' None evs(3,4) by blast
      qed
    qed
  qed
qed

lemma TearDownPod_trace:
  assumes "TearDownPod engine plugin podNetwork w = (r, plugin', w')"
  obtains (none) "trace w' = trace w"
      "(r = Some (Err ErrUninitialized) \<and> checkInitialized plugin podNetwork \<noteq> None) \<or>
       r = Some BlockedOnMutex"
    | (looped) evs where "trace w' = trace w @ evs"
      "follows (at_network plugin (del_call podNetwork)) 0 (requested plugin podNetwork) evs"
      "loop_outcome plugin (requested plugin podNetwork) evs r"
proof (cases "checkInitialized plugin podNetwork")
  case (Some err)
  then have "err = ErrUninitialized" by (auto simp: checkInitialized_def split: if_splits)
  then show ?thesis using assms Some none by (simp add: TearDownPod_def)
next
  case None
  show ?thesis
  proof (cases plugin podNetwork rule: enter_cases)
    case (blocked m plugin1)
    then show ?thesis using assms None none by (simp add: TearDownPod_def)
  next
    case (held m plugin1 plugin2 plugin3 logged)
    obtain r0 w0 where loop:
      "forEachNetwork plugin2 podNetwork (TearDownPod_func engine) w = (r0, w0)"
      by (cases "forEachNetwork plugin2 podNetwork (TearDownPod_func engine) w") auto
    have res: "r = r0" "w' = w0"
      using assms None held(1,2,3) loop by (simp_all add: TearDownPod_def)
    have step: "\<And>network ifName s r s'.
        TearDownPod_func engine network ifName podNetwork s = (r, s') \<Longrightarrow>
        step_ok (del_call podNetwork) trace (\<lambda>w. []) (\<lambda>ev. None) network ifName s r s'"
      by (rule TearDownPod_func_step)
    from forEachNetwork_trace[OF step loop held(4,5)]
    obtain evs where "trace w0 = trace w @ evs"
      "follows (at_network plugin (del_call podNetwork)) 0 (requested plugin podNetwork) evs"
      "loop_outcome plugin (requested plugin podNetwork) evs r0"
      by auto
    then show ?thesis using looped res by simp
  qed
qed

lemma GetPodNetworkStatus_trace:
  assumes "GetPodNetworkStatus engine plugin podNetwork w = (r, plugin', w')"
  obtains (none) "trace w' = trace w" "r = Inl BlockedOnMutex"
    | (looped) evs r' where "trace w' = trace w @ evs"
      "follows (at_network plugin (details_call plugin podNetwork)) 0
         (requested plugin podNetwork) evs"
      "loop_outcome plugin (requested plugin podNetwork) evs r'"
      "r = (case r' of Some f \<Rightarrow> Inl f | None \<Rightarrow> Inr (List.map_filter status_result evs))"
proof (cases plugin podNetwork rule: enter_cases)
  case (blocked m plugin1)
  then show ?thesis using assms none by (simp add: GetPodNetworkStatus_def)
next
  case (held m plugin1 plugin2 plugin3 logged)
  obtain r' results w0 where loop:
    "forEachNetwork plugin2 podNetwork (GetPodNetworkStatus_func engine plugin2) ([], w) =
       (r', (results, w0))"
    by (cases "forEachNetwork plugin2 podNetwork (GetPodNetworkStatus_func engine plugin2) ([], w)") auto
  have res: "r = (case r' of Some f \<Rightarrow> Inl f | None \<Rightarrow> Inr results)" "w' = w0"
    using assms held(1,2,3) loop by (simp_all add: GetPodNetworkStatus_def split: option.splits)
  have same: "details_call plugin2 podNetwork = details_call plugin podNetwork"
    using held(7) by (simp add: details_call_def fun_eq_iff)
  have step: "\<And>network ifName s r s'.
      GetPodNetworkStatus_func engine plugin2 network ifName podNetwork s = (r, s') \<Longrightarrow>
      step_ok (details_call plugin2 podNetwork) (\<lambda>s. trace (snd s)) fst status_result
        network ifName s r s'"
    by (rule GetPodNetworkStatus_func_step)
  from forEachNetwork_trace[OF step loop held(4,5)]
  obtain evs where evs: "trace w0 = trace w @ evs" "results = List.map_filter status_result evs"
    "follows (at_network plugin (details_call plugin podNetwork)) 0
       (requested plugin podNetwork) evs"
    "loop_outcome plugin (requested plugin podNetwork) evs r'"
    unfolding same by auto
  have "r = (case r' of Some f \<Rightarrow> Inl f | None \<Rightarrow> Inr (List.map_filter status_result evs))"
    using res(1) evs(2) by (cases r') simp_all
  moreover have "trace w' = trace w @ evs" using evs(1) res(2) by simp
  ultimately show ?thesis using looped evs(3,4) by blast
qed

lemma at_network_add:
  "at_network plugin (add_call podNetwork) netName k ev \<Longrightarrow>
   is_add ev \<and> ev_network ev = Mapping.lookup (networks plugin) netName \<and>
   ev_network ev \<noteq> None \<and> ev_IfName ev = ''eth'' @ Sprintf_d k"
  using add_call_obs by (fastforce simp: at_network_def)

lemma at_network_del:
  "at_network plugin (del_call podNetwork) netName k ev \<Longrightarrow>
   is_del ev \<and> ev_network ev = Mapping.lookup (networks plugin) netName \<and>
   ev_network ev \<noteq> None \<and> ev_IfName ev = ''eth'' @ Sprintf_d k"
  using del_call_obs by (fastforce simp: at_network_def)

lemma at_network_details:
  "at_network plugin (details_call plugin podNetwork) netName k ev \<Longrightarrow>
   is_details ev \<and> Mapping.lookup (networks plugin) netName \<noteq> None \<and>
   ev_IfName ev = ''eth'' @ Sprintf_d k"
  using details_call_obs by (fastforce simp: at_network_def)

lemma eth_not_lo: "''eth'' @ Sprintf_d k \<noteq> ''lo''"
  by simp

subsection \<open>The examples, evaluated\<close>

lemma Sprintf_d_examples:
  "Sprintf_d 0 = ''0''" "Sprintf_d (Suc 0) = ''1''" "Sprintf_d 12 = ''12''"
  by (simp_all add: Sprintf_d.simps)

lemmas eval_defs = TearDownPod_def SetUpPod_def SetUpPod_locked_def GetPodNetworkStatus_def
  checkInitialized_def getDefaultNetwork_def getDefaultNetworkName_def getNetwork_def
  podLock_def Mutex_Lock_def podUnlock_def buildFullPodName_def
  forEachNetwork_def TearDownPod_func_def SetUpPod_func_def GetPodNetworkStatus_func_def
  deleteFromNetwork_def addToNetwork_def buildCNIRuntimeConf_def
  plugin_ab_def plugin_a_def plugin_x_def pod_ab_def pod_web_def net_a_def net_b_def
  example_engine_def world0_def loConfig_def Let_def
  Mapping.lookup_update Mapping.lookup_update_neq Mapping.lookup_empty Sprintf_d_examples

lemma ex_requested:
  "requested plugin_ab pod_ab = [''net-a'', ''net-b'']" "requested plugin_a pod_web = [''net-a'']"
  "trace world0 = []"
  by (simp_all add: requested_def plugin_ab_def plugin_a_def pod_ab_def pod_web_def world0_def)

lemma ex_teardown_fail:
  "map ev_error (trace (snd (snd (TearDownPod (example_engine [''net-b'']) plugin_ab pod_ab world0)))) =
     [None, Some ''plugin failed'']"
  by (simp add: eval_defs)

lemma ex_teardown_ok:
  "fst (TearDownPod (example_engine []) plugin_a pod_web world0) = None"
  by (simp add: eval_defs)

subsection \<open>TearDown\<close>

text \<open>
  Claim C5.  The calls of the engine that \<^verbatim>\<open>TearDownPod\<close> makes are \<^verbatim>\<open>DelNetworkList\<close>
  calls only, one for each resolved network name in list order, as far as the call
  gets: the call at position \<open>j\<close> is for the network stored under the \<open>j\<close>-th resolved
  name (the names resolve as for \<^verbatim>\<open>SetUpPod\<close>: \<open>requested\<close>), with the interface name
  \<^verbatim>\<open>eth\<close>\<open>j\<close>.  No call is for an interface \<^verbatim>\<open>lo\<close>, and \<^verbatim>\<open>TearDownPod\<close> does not read the
  loopback network of the plugin.  A call that fails is the last call (no later
  network is detached, none is tried again), and its error is what \<^verbatim>\<open>TearDownPod\<close>
  returns; a \<^verbatim>\<open>TearDownPod\<close> without error has detached every resolved network.
\<close>

theorem TearDownPod_detaches_in_order:
  assumes "TearDownPod engine plugin podNetwork w = (r, plugin', w')"
  shows "\<exists>evs. trace w' = trace w @ evs \<and>
     length evs \<le> length (requested plugin podNetwork) \<and>
     (\<forall>j < length evs.
        is_del (evs ! j) \<and>
        ev_network (evs ! j) = Mapping.lookup (networks plugin) (requested plugin podNetwork ! j) \<and>
        ev_network (evs ! j) \<noteq> None \<and>
        ev_IfName (evs ! j) = ''eth'' @ Sprintf_d j \<and> ev_IfName (evs ! j) \<noteq> ''lo'') \<and>
     (\<forall>j e. j < length evs \<and> ev_error (evs ! j) = Some e \<longrightarrow>
        Suc j = length evs \<and> r = Some (Err (ErrExternal e))) \<and>
     (r = None \<longrightarrow>
        length evs = length (requested plugin podNetwork) \<and>
        (\<forall>j < length evs. ev_error (evs ! j) = None))"
  using assms
proof (cases rule: TearDownPod_trace)
  case none
  then have "trace w' = trace w @ []" "r \<noteq> None" by auto
  then show ?thesis by (intro exI[of _ "[]"]) auto
next
  case (looped evs)
  have 1: "length evs \<le> length (requested plugin podNetwork)"
    using looped(2) by (rule follows_length)
  have 2: "is_del (evs ! j) \<and>
        ev_network (evs ! j) = Mapping.lookup (networks plugin) (requested plugin podNetwork ! j) \<and>
        ev_network (evs ! j) \<noteq> None \<and>
        ev_IfName (evs ! j) = ''eth'' @ Sprintf_d j \<and> ev_IfName (evs ! j) \<noteq> ''lo''"
    if "j < length evs" for j
  proof -
    have "at_network plugin (del_call podNetwork) (requested plugin podNetwork ! j) j (evs ! j)"
      using follows_nth[OF looped(2) that] by simp
    from at_network_del[OF this] eth_not_lo[of j] show ?thesis by metis
  qed
  have 3: "Suc j = length evs \<and> r = Some (Err (ErrExternal e))"
    if "j < length evs \<and> ev_error (evs ! j) = Some e" for j e
    using loop_outcome_error[OF looped(2,3)] that by blast
  have 4: "length evs = length (requested plugin podNetwork) \<and>
        (\<forall>j < length evs. ev_error (evs ! j) = None)" if "r = None"
    using loop_outcome_None[of plugin _ evs] looped(3) that by auto
  show ?thesis using looped(1) 1 2 3 4 by blast
qed

theorem TearDownPod_detaches_in_order_witness:
  "(\<exists>r plugin' w' evs.
      TearDownPod (example_engine [''net-b'']) plugin_ab pod_ab world0 = (r, plugin', w') \<and>
      trace w' = trace world0 @ evs \<and>
      requested plugin_ab pod_ab = [''net-a'', ''net-b''] \<and> length evs = 2 \<and>
      is_del (evs ! 0) \<and> ev_network (evs ! 0) = Mapping.lookup (networks plugin_ab) ''net-a'' \<and>
      ev_IfName (evs ! 0) = ''eth'' @ Sprintf_d 0 \<and>
      is_del (evs ! 1) \<and> ev_network (evs ! 1) = Mapping.lookup (networks plugin_ab) ''net-b'' \<and>
      ev_IfName (evs ! 1) = ''eth'' @ Sprintf_d 1 \<and>
      ev_error (evs ! 1) = Some ''plugin failed'' \<and>
      r = Some (Err (ErrExternal ''plugin failed''))) \<and>
   (\<exists>plugin' w' evs.
      TearDownPod (example_engine []) plugin_a pod_web world0 = (None, plugin', w') \<and>
      trace w' = trace world0 @ evs \<and>
      requested plugin_a pod_web = [''net-a''] \<and> length evs = 1 \<and>
      is_del (evs ! 0) \<and> ev_network (evs ! 0) = Mapping.lookup (networks plugin_a) ''net-a'' \<and>
      ev_IfName (evs ! 0) = ''eth'' @ Sprintf_d 0 \<and> ev_IfName (evs ! 0) \<noteq> ''lo'' \<and>
      ev_error (evs ! 0) = None)"
proof (rule conjI)
  obtain r p' w' where t: "TearDownPod (example_engine [''net-b'']) plugin_ab pod_ab world0 = (r, p', w')"
    by (cases "TearDownPod (example_engine [''net-b'']) plugin_ab pod_ab world0") auto
  from TearDownPod_detaches_in_order[OF t] obtain evs where
    tr: "trace w' = trace world0 @ evs" and
    pos: "\<forall>j < length evs.
        is_del (evs ! j) \<and>
        ev_network (evs ! j) = Mapping.lookup (networks plugin_ab) (requested plugin_ab pod_ab ! j) \<and>
        ev_network (evs ! j) \<noteq> None \<and>
        ev_IfName (evs ! j) = ''eth'' @ Sprintf_d j \<and> ev_IfName (evs ! j) \<noteq> ''lo''" and
    err: "\<forall>j e. j < length evs \<and> ev_error (evs ! j) = Some e \<longrightarrow>
        Suc j = length evs \<and> r = Some (Err (ErrExternal e))"
    by blast
  have "map ev_error (trace w') = [None, Some ''plugin failed'']"
    using ex_teardown_fail t by simp
  then have m: "map ev_error evs = [None, Some ''plugin failed'']"
    using tr by (simp add: ex_requested)
  then obtain a b where ab: "evs = [a, b]" "ev_error b = Some ''plugin failed''"
    by (auto simp: map_eq_Cons_conv)
  have len: "length evs = 2" and n0: "evs ! 0 = a" and n1: "evs ! 1 = b"
    using ab(1) by simp_all
  have e1: "ev_error (evs ! 1) = Some ''plugin failed''" using ab(2) n1 by simp
  have "(1::nat) < length evs \<and> ev_error (evs ! 1) = Some ''plugin failed''"
    using len e1 by simp
  with err have r: "r = Some (Err (ErrExternal ''plugin failed''))" by blast
  have "(0::nat) < length evs" "(1::nat) < length evs" using len by simp_all
  with pos have
    "is_del (evs ! 0) \<and>
     ev_network (evs ! 0) = Mapping.lookup (networks plugin_ab) (requested plugin_ab pod_ab ! 0) \<and>
     ev_IfName (evs ! 0) = ''eth'' @ Sprintf_d 0"
    "is_del (evs ! 1) \<and>
     ev_network (evs ! 1) = Mapping.lookup (networks plugin_ab) (requested plugin_ab pod_ab ! 1) \<and>
     ev_IfName (evs ! 1) = ''eth'' @ Sprintf_d 1"
    by blast+
  then have p0: "is_del (evs ! 0) \<and> ev_network (evs ! 0) = Mapping.lookup (networks plugin_ab) ''net-a'' \<and>
      ev_IfName (evs ! 0) = ''eth'' @ Sprintf_d 0"
    and p1: "is_del (evs ! 1) \<and> ev_network (evs ! 1) = Mapping.lookup (networks plugin_ab) ''net-b'' \<and>
      ev_IfName (evs ! 1) = ''eth'' @ Sprintf_d 1"
    unfolding ex_requested by simp_all
  show "\<exists>r plugin' w' evs.
      TearDownPod (example_engine [''net-b'']) plugin_ab pod_ab world0 = (r, plugin', w') \<and>
      trace w' = trace world0 @ evs \<and>
      requested plugin_ab pod_ab = [''net-a'', ''net-b''] \<and> length evs = 2 \<and>
      is_del (evs ! 0) \<and> ev_network (evs ! 0) = Mapping.lookup (networks plugin_ab) ''net-a'' \<and>
      ev_IfName (evs ! 0) = ''eth'' @ Sprintf_d 0 \<and>
      is_del (evs ! 1) \<and> ev_network (evs ! 1) = Mapping.lookup (networks plugin_ab) ''net-b'' \<and>
      ev_IfName (evs ! 1) = ''eth'' @ Sprintf_d 1 \<and>
      ev_error (evs ! 1) = Some ''plugin failed'' \<and>
      r = Some (Err (ErrExternal ''plugin failed''))"
    using t tr ex_requested(1) len p0 p1 e1 r by blast
next
  obtain r p' w' where t: "TearDownPod (example_engine []) plugin_a pod_web world0 = (r, p', w')"
    by (cases "TearDownPod (example_engine []) plugin_a pod_web world0") auto
  have r: "r = None" using ex_teardown_ok t by simp
  from TearDownPod_detaches_in_order[OF t] obtain evs where
    tr: "trace w' = trace world0 @ evs" and
    pos: "\<forall>j < length evs.
        is_del (evs ! j) \<and>
        ev_network (evs ! j) = Mapping.lookup (networks plugin_a) (requested plugin_a pod_web ! j) \<and>
        ev_network (evs ! j) \<noteq> None \<and>
        ev_IfName (evs ! j) = ''eth'' @ Sprintf_d j \<and> ev_IfName (evs ! j) \<noteq> ''lo''" and
    ok: "r = None \<longrightarrow>
        length evs = length (requested plugin_a pod_web) \<and>
        (\<forall>j < length evs. ev_error (evs ! j) = None)"
    by blast
  have len: "length evs = 1" and e: "\<forall>j < length evs. ev_error (evs ! j) = None"
    using ok r by (simp_all add: ex_requested)
  have z: "(0::nat) < length evs" using len by simp
  with pos have
    "is_del (evs ! 0) \<and>
     ev_network (evs ! 0) = Mapping.lookup (networks plugin_a) (requested plugin_a pod_web ! 0) \<and>
     ev_IfName (evs ! 0) = ''eth'' @ Sprintf_d 0 \<and> ev_IfName (evs ! 0) \<noteq> ''lo''"
    by blast
  then have p0: "is_del (evs ! 0) \<and> ev_network (evs ! 0) = Mapping.lookup (networks plugin_a) ''net-a'' \<and>
      ev_IfName (evs ! 0) = ''eth'' @ Sprintf_d 0 \<and> ev_IfName (evs ! 0) \<noteq> ''lo''"
    unfolding ex_requested by simp
  have e0: "ev_error (evs ! 0) = None" using e z by blast
  show "\<exists>plugin' w' evs.
      TearDownPod (example_engine []) plugin_a pod_web world0 = (None, plugin', w') \<and>
      trace w' = trace world0 @ evs \<and>
      requested plugin_a pod_web = [''net-a''] \<and> length evs = 1 \<and>
      is_del (evs ! 0) \<and> ev_network (evs ! 0) = Mapping.lookup (networks plugin_a) ''net-a'' \<and>
      ev_IfName (evs ! 0) = ''eth'' @ Sprintf_d 0 \<and> ev_IfName (evs ! 0) \<noteq> ''lo'' \<and>
      ev_error (evs ! 0) = None"
    using t[unfolded r] tr ex_requested(2) len p0 e0 by blast
qed

subsection \<open>SetUp\<close>

lemma add_call_result:
  "add_call podNetwork network ifName ev \<Longrightarrow> ev_error ev = None \<Longrightarrow> ev_result ev \<noteq> None"
  by (auto simp: add_call_def split: sum.splits)

lemma at_network_add_result:
  "at_network plugin (add_call podNetwork) netName k ev \<Longrightarrow> ev_error ev = None \<Longrightarrow>
   ev_result ev \<noteq> None"
  using add_call_result by (auto simp: at_network_def)

lemma map_filter_all_some:
  assumes "\<forall>ev \<in> set evs. g ev \<noteq> None"
  shows "List.map_filter g evs = map (\<lambda>ev. the (g ev)) evs"
  using assms by (induction evs) (auto simp: List.map_filter_simps)

lemma follows_results:
  assumes "follows (at_network plugin (add_call podNetwork)) i names evs"
    "\<forall>ev \<in> set evs. ev_error ev = None"
  shows "length (List.map_filter ev_result evs) = length evs \<and>
    (\<forall>j < length evs. ev_result (evs ! j) = Some (List.map_filter ev_result evs ! j))"
proof -
  have some: "\<forall>ev \<in> set evs. ev_result ev \<noteq> None"
  proof
    fix ev assume "ev \<in> set evs"
    then obtain j where j: "j < length evs" "evs ! j = ev" by (auto simp: in_set_conv_nth)
    have "at_network plugin (add_call podNetwork) (names ! j) (i + j) (evs ! j)"
      using follows_nth[OF assms(1) j(1)] .
    then show "ev_result ev \<noteq> None"
      using at_network_add_result assms(2) j \<open>ev \<in> set evs\<close> by blast
  qed
  then have m: "List.map_filter ev_result evs = map (\<lambda>ev. the (ev_result ev)) evs"
    by (rule map_filter_all_some)
  show ?thesis unfolding m using some by auto
qed

lemma ex_setup_ok:
  "\<exists>results. fst (SetUpPod (example_engine []) plugin_a pod_web world0) = Inr results"
  by (simp add: eval_defs)

lemma ex_setup_lo_fail:
  "map ev_error (trace (snd (snd (SetUpPod (example_engine [''cni-loopback'']) plugin_a pod_web world0)))) =
     [Some ''plugin failed'']"
  by (simp add: eval_defs)

lemma ex_setup_fail:
  "map ev_error (trace (snd (snd (SetUpPod (example_engine [''net-b'']) plugin_ab pod_ab world0)))) =
     [None, None, Some ''plugin failed'']"
  by (simp add: eval_defs)

text \<open>
  Claim C2.  Whenever \<^verbatim>\<open>SetUpPod\<close> calls the engine at all, its first call attaches the
  loopback network of the plugin with the interface name \<^verbatim>\<open>lo\<close>.  Every later call
  attaches a requested network (the call after the loopback call, at position \<open>j\<close>,
  the network stored under the \<open>j\<close>-th resolved name) and is made only after the loopback
  call succeeded.  If the loopback call fails, it is the only call, and \<^verbatim>\<open>SetUpPod\<close>
  returns its error.  A \<^verbatim>\<open>SetUpPod\<close> that succeeds made one call for the loopback network
  and one for each resolved name, and returns the results of the calls for the resolved
  names, in order: as many results as names, without the result of the loopback call.
\<close>

theorem SetUpPod_loopback_first:
  assumes "SetUpPod engine plugin podNetwork w = (r, plugin', w')"
  shows "\<exists>evs. trace w' = trace w @ evs \<and>
     (evs \<noteq> [] \<longrightarrow>
        is_add (hd evs) \<and> ev_network (hd evs) = Some (loNetwork plugin) \<and>
        ev_IfName (hd evs) = ''lo'') \<and>
     (\<forall>j. Suc j < length evs \<longrightarrow>
        ev_error (hd evs) = None \<and> is_add (evs ! Suc j) \<and>
        ev_network (evs ! Suc j) =
          Mapping.lookup (networks plugin) (requested plugin podNetwork ! j) \<and>
        ev_network (evs ! Suc j) \<noteq> None \<and>
        ev_IfName (evs ! Suc j) = ''eth'' @ Sprintf_d j) \<and>
     (\<forall>e. evs \<noteq> [] \<and> ev_error (hd evs) = Some e \<longrightarrow>
        evs = [hd evs] \<and> r = Inl (Err (ErrExternal e))) \<and>
     (\<forall>results. r = Inr results \<longrightarrow>
        length evs = Suc (length (requested plugin podNetwork)) \<and>
        length results = length (requested plugin podNetwork) \<and>
        (\<forall>j < length results. ev_result (evs ! Suc j) = Some (results ! j)))"
  using assms
proof (cases rule: SetUpPod_trace)
  case none
  then have "trace w' = trace w @ []" "\<forall>results. r \<noteq> Inr results" by auto
  then show ?thesis by (intro exI[of _ "[]"]) auto
next
  case (lo_failed lo_ev e)
  have "is_add lo_ev \<and> ev_network lo_ev = Some (loNetwork plugin) \<and> ev_IfName lo_ev = ''lo''"
    using add_call_obs[OF lo_failed(2)] .
  moreover have "\<forall>results. r \<noteq> Inr results" using lo_failed(4) by simp
  ultimately show ?thesis using lo_failed(1,3,4) by (intro exI[of _ "[lo_ev]"]) auto
next
  case (looped lo_ev evs r')
  let ?names = "requested plugin podNetwork"
  have 1: "is_add lo_ev \<and> ev_network lo_ev = Some (loNetwork plugin) \<and> ev_IfName lo_ev = ''lo''"
    using add_call_obs[OF looped(2)] .
  have 2: "is_add (evs ! j)"
      "ev_network (evs ! j) = Mapping.lookup (networks plugin) (?names ! j)"
      "ev_network (evs ! j) \<noteq> None" "ev_IfName (evs ! j) = ''eth'' @ Sprintf_d j"
    if "j < length evs" for j
  proof -
    have "at_network plugin (add_call podNetwork) (?names ! j) j (evs ! j)"
      using follows_nth[OF looped(4) that] by simp
    from at_network_add[OF this]
    show "is_add (evs ! j)"
      "ev_network (evs ! j) = Mapping.lookup (networks plugin) (?names ! j)"
      "ev_network (evs ! j) \<noteq> None" "ev_IfName (evs ! j) = ''eth'' @ Sprintf_d j"
      by blast+
  qed
  have 4: "length evs = length ?names \<and> length results = length ?names \<and>
        (\<forall>j < length results. ev_result (evs ! j) = Some (results ! j))"
    if "r = Inr results" for results
  proof -
    have r': "r' = None" and res: "results = List.map_filter ev_result evs"
      using that looped(6) by (cases r'; simp)+
    have len: "length evs = length ?names" and ok: "\<forall>ev \<in> set evs. ev_error ev = None"
      using loop_outcome_None looped(5) r' by blast+
    from follows_results[OF looped(4) ok] show ?thesis using len res by simp
  qed
  show ?thesis
  proof (intro exI[of _ "lo_ev # evs"] conjI allI impI)
    show "trace w' = trace w @ lo_ev # evs" by (rule looped(1))
    show "is_add (hd (lo_ev # evs))" "ev_network (hd (lo_ev # evs)) = Some (loNetwork plugin)"
      "ev_IfName (hd (lo_ev # evs)) = ''lo''" using 1 by simp_all
  next
    fix j assume "Suc j < length (lo_ev # evs)"
    then have j: "j < length evs" by simp
    show "ev_error (hd (lo_ev # evs)) = None" using looped(3) by simp
    show "is_add ((lo_ev # evs) ! Suc j)" using 2(1)[OF j] by simp
    show "ev_network ((lo_ev # evs) ! Suc j) = Mapping.lookup (networks plugin) (?names ! j)"
      using 2(2)[OF j] by simp
    show "ev_network ((lo_ev # evs) ! Suc j) \<noteq> None" using 2(3)[OF j] by simp
    show "ev_IfName ((lo_ev # evs) ! Suc j) = ''eth'' @ Sprintf_d j" using 2(4)[OF j] by simp
  next
    fix e assume "lo_ev # evs \<noteq> [] \<and> ev_error (hd (lo_ev # evs)) = Some e"
    then have False using looped(3) by simp
    then show "lo_ev # evs = [hd (lo_ev # evs)]" "r = Inl (Err (ErrExternal e))" by simp_all
  next
    fix results assume r: "r = Inr results"
    from 4[OF r]
    show "length (lo_ev # evs) = Suc (length ?names)" "length results = length ?names" by simp_all
    fix j assume "j < length results"
    then show "ev_result ((lo_ev # evs) ! Suc j) = Some (results ! j)" using 4[OF r] by simp
  qed
qed

theorem SetUpPod_loopback_first_witness:
  "(\<exists>results plugin' w' evs.
      SetUpPod (example_engine []) plugin_a pod_web world0 = (Inr results, plugin', w') \<and>
      trace w' = trace world0 @ evs \<and> requested plugin_a pod_web = [''net-a''] \<and>
      length evs = 2 \<and> length results = 1 \<and>
      is_add (evs ! 0) \<and> ev_network (evs ! 0) = Some (loNetwork plugin_a) \<and>
      ev_IfName (evs ! 0) = ''lo'' \<and> ev_error (evs ! 0) = None \<and>
      is_add (evs ! 1) \<and> ev_network (evs ! 1) = Mapping.lookup (networks plugin_a) ''net-a'' \<and>
      ev_IfName (evs ! 1) = ''eth'' @ Sprintf_d 0 \<and>
      ev_result (evs ! 1) = Some (results ! 0)) \<and>
   (\<exists>r plugin' w' lo_ev.
      SetUpPod (example_engine [''cni-loopback'']) plugin_a pod_web world0 = (r, plugin', w') \<and>
      trace w' = trace world0 @ [lo_ev] \<and>
      is_add lo_ev \<and> ev_network lo_ev = Some (loNetwork plugin_a) \<and> ev_IfName lo_ev = ''lo'' \<and>
      ev_error lo_ev = Some ''plugin failed'' \<and>
      r = Inl (Err (ErrExternal ''plugin failed'')))"
proof (rule conjI)
  obtain r p' w' where t: "SetUpPod (example_engine []) plugin_a pod_web world0 = (r, p', w')"
    by (cases "SetUpPod (example_engine []) plugin_a pod_web world0") auto
  obtain results where r: "r = Inr results" using ex_setup_ok t by auto
  from SetUpPod_loopback_first[OF t] obtain evs where
    tr: "trace w' = trace world0 @ evs" and
    lo: "evs \<noteq> [] \<longrightarrow>
        is_add (hd evs) \<and> ev_network (hd evs) = Some (loNetwork plugin_a) \<and>
        ev_IfName (hd evs) = ''lo''" and
    pos: "\<forall>j. Suc j < length evs \<longrightarrow>
        ev_error (hd evs) = None \<and> is_add (evs ! Suc j) \<and>
        ev_network (evs ! Suc j) =
          Mapping.lookup (networks plugin_a) (requested plugin_a pod_web ! j) \<and>
        ev_network (evs ! Suc j) \<noteq> None \<and>
        ev_IfName (evs ! Suc j) = ''eth'' @ Sprintf_d j" and
    ok: "\<forall>results. r = Inr results \<longrightarrow>
        length evs = Suc (length (requested plugin_a pod_web)) \<and>
        length results = length (requested plugin_a pod_web) \<and>
        (\<forall>j < length results. ev_result (evs ! Suc j) = Some (results ! j))"
    by blast
  from ok r have len: "length evs = 2" "length results = 1"
    and res: "\<forall>j < length results. ev_result (evs ! Suc j) = Some (results ! j)"
    by (simp_all add: ex_requested)
  have ne: "evs \<noteq> []" using len by auto
  then have h: "hd evs = evs ! 0" by (simp add: hd_conv_nth)
  have l0: "is_add (evs ! 0) \<and> ev_network (evs ! 0) = Some (loNetwork plugin_a) \<and>
      ev_IfName (evs ! 0) = ''lo''"
    using lo ne h by simp
  have "Suc 0 < length evs" using len by simp
  with pos have "ev_error (hd evs) = None \<and> is_add (evs ! Suc 0) \<and>
        ev_network (evs ! Suc 0) =
          Mapping.lookup (networks plugin_a) (requested plugin_a pod_web ! 0) \<and>
        ev_IfName (evs ! Suc 0) = ''eth'' @ Sprintf_d 0"
    by blast
  then have l1: "ev_error (evs ! 0) = None \<and> is_add (evs ! 1) \<and>
      ev_network (evs ! 1) = Mapping.lookup (networks plugin_a) ''net-a'' \<and>
      ev_IfName (evs ! 1) = ''eth'' @ Sprintf_d 0"
    unfolding ex_requested h by simp
  have "(0::nat) < length results" using len by simp
  with res have "ev_result (evs ! Suc 0) = Some (results ! 0)" by blast
  then have l2: "ev_result (evs ! 1) = Some (results ! 0)" by simp
  show "\<exists>results plugin' w' evs.
      SetUpPod (example_engine []) plugin_a pod_web world0 = (Inr results, plugin', w') \<and>
      trace w' = trace world0 @ evs \<and> requested plugin_a pod_web = [''net-a''] \<and>
      length evs = 2 \<and> length results = 1 \<and>
      is_add (evs ! 0) \<and> ev_network (evs ! 0) = Some (loNetwork plugin_a) \<and>
      ev_IfName (evs ! 0) = ''lo'' \<and> ev_error (evs ! 0) = None \<and>
      is_add (evs ! 1) \<and> ev_network (evs ! 1) = Mapping.lookup (networks plugin_a) ''net-a'' \<and>
      ev_IfName (evs ! 1) = ''eth'' @ Sprintf_d 0 \<and>
      ev_result (evs ! 1) = Some (results ! 0)"
    using t[unfolded r] tr ex_requested(2) len l0 l1 l2 by blast
next
  obtain r p' w' where
    t: "SetUpPod (example_engine [''cni-loopback'']) plugin_a pod_web world0 = (r, p', w')"
    by (cases "SetUpPod (example_engine [''cni-loopback'']) plugin_a pod_web world0") auto
  from SetUpPod_loopback_first[OF t] obtain evs where
    tr: "trace w' = trace world0 @ evs" and
    lo: "evs \<noteq> [] \<longrightarrow>
        is_add (hd evs) \<and> ev_network (hd evs) = Some (loNetwork plugin_a) \<and>
        ev_IfName (hd evs) = ''lo''" and
    fail: "\<forall>e. evs \<noteq> [] \<and> ev_error (hd evs) = Some e \<longrightarrow>
        evs = [hd evs] \<and> r = Inl (Err (ErrExternal e))"
    by blast
  have "map ev_error (trace w') = [Some ''plugin failed'']" using ex_setup_lo_fail t by simp
  then have "map ev_error evs = [Some ''plugin failed'']" using tr by (simp add: ex_requested)
  then obtain a where a: "evs = [a]" "ev_error a = Some ''plugin failed''"
    by (auto simp: map_eq_Cons_conv)
  have "evs \<noteq> [] \<and> ev_error (hd evs) = Some ''plugin failed''" using a by simp
  with fail have r: "r = Inl (Err (ErrExternal ''plugin failed''))" by blast
  have l: "is_add a \<and> ev_network a = Some (loNetwork plugin_a) \<and> ev_IfName a = ''lo''"
    using lo a(1) by simp
  show "\<exists>r plugin' w' lo_ev.
      SetUpPod (example_engine [''cni-loopback'']) plugin_a pod_web world0 = (r, plugin', w') \<and>
      trace w' = trace world0 @ [lo_ev] \<and>
      is_add lo_ev \<and> ev_network lo_ev = Some (loNetwork plugin_a) \<and> ev_IfName lo_ev = ''lo'' \<and>
      ev_error lo_ev = Some ''plugin failed'' \<and>
      r = Inl (Err (ErrExternal ''plugin failed''))"
    using t tr[unfolded a(1)] l a(2) r by blast
qed

text \<open>
  Claim C4.  The calls of the engine that \<^verbatim>\<open>SetUpPod\<close> makes are \<^verbatim>\<open>AddNetworkList\<close> calls
  only: nothing is detached.  A call that fails is the last call of \<^verbatim>\<open>SetUpPod\<close>; every
  call before it succeeded and returned a result, so those networks stay attached.
  What \<^verbatim>\<open>SetUpPod\<close> returns then is the error of the failed call and nothing else: no
  result list, and nothing about the calls before.
\<close>

theorem SetUpPod_first_failure:
  assumes "SetUpPod engine plugin podNetwork w = (r, plugin', w')"
  shows "\<exists>evs. trace w' = trace w @ evs \<and>
     (\<forall>ev \<in> set evs. is_add ev) \<and>
     (\<forall>j e. j < length evs \<and> ev_error (evs ! j) = Some e \<longrightarrow>
        Suc j = length evs \<and> r = Inl (Err (ErrExternal e)) \<and>
        (\<forall>k < j. ev_error (evs ! k) = None \<and> ev_result (evs ! k) \<noteq> None))"
  using assms
proof (cases rule: SetUpPod_trace)
  case none
  then have "trace w' = trace w @ []" by simp
  then show ?thesis by (intro exI[of _ "[]"]) simp
next
  case (lo_failed lo_ev e)
  have "is_add lo_ev" using add_call_obs[OF lo_failed(2)] by simp
  then show ?thesis using lo_failed(1,3,4) by (intro exI[of _ "[lo_ev]"]) auto
next
  case (looped lo_ev evs r')
  let ?names = "requested plugin podNetwork"
  have lo: "is_add lo_ev" "ev_result lo_ev \<noteq> None"
    using add_call_obs[OF looped(2)] add_call_result[OF looped(2,3)] by simp_all
  have adds: "is_add ev" if "ev \<in> set evs" for ev
  proof -
    from that obtain j where j: "j < length evs" "evs ! j = ev" by (auto simp: in_set_conv_nth)
    have "at_network plugin (add_call podNetwork) (?names ! j) j (evs ! j)"
      using follows_nth[OF looped(4) j(1)] by simp
    from at_network_add[OF this] j(2) show ?thesis by simp
  qed
  have fail: "Suc j = length (lo_ev # evs) \<and> r = Inl (Err (ErrExternal e)) \<and>
        (\<forall>k < j. ev_error ((lo_ev # evs) ! k) = None \<and> ev_result ((lo_ev # evs) ! k) \<noteq> None)"
    if a: "j < length (lo_ev # evs) \<and> ev_error ((lo_ev # evs) ! j) = Some e" for j e
  proof (cases j)
    case 0
    then show ?thesis using a looped(3) by simp
  next
    case (Suc i)
    then have i: "i < length evs" "ev_error (evs ! i) = Some e" using a by simp_all
    from loop_outcome_error[OF looped(4,5) i]
    have last: "Suc i = length evs" and r': "r' = Some (Err (ErrExternal e))" by simp_all
    have r: "r = Inl (Err (ErrExternal e))" using looped(6) r' by simp
    have before: "ev_error ((lo_ev # evs) ! k) = None \<and> ev_result ((lo_ev # evs) ! k) \<noteq> None"
      if "k < j" for k
    proof (cases k)
      case 0
      then show ?thesis using looped(3) lo(2) by simp
    next
      case (Suc k')
      then have k': "Suc k' < length evs" using that \<open>j = Suc i\<close> i(1) by simp
      then have e: "ev_error (evs ! k') = None" using follows_not_last[OF looped(4)] by blast
      have "at_network plugin (add_call podNetwork) (?names ! k') k' (evs ! k')"
        using follows_nth[OF looped(4), of k'] k' by simp
      from at_network_add_result[OF this e] e show ?thesis using Suc by simp
    qed
    show ?thesis using last r before Suc by simp
  qed
  show ?thesis
  proof (intro exI[of _ "lo_ev # evs"] conjI)
    show "trace w' = trace w @ lo_ev # evs" by (rule looped(1))
    show "\<forall>ev \<in> set (lo_ev # evs). is_add ev" using lo(1) adds by simp
    show "\<forall>j e. j < length (lo_ev # evs) \<and> ev_error ((lo_ev # evs) ! j) = Some e \<longrightarrow>
        Suc j = length (lo_ev # evs) \<and> r = Inl (Err (ErrExternal e)) \<and>
        (\<forall>k < j. ev_error ((lo_ev # evs) ! k) = None \<and> ev_result ((lo_ev # evs) ! k) \<noteq> None)"
      using fail by blast
  qed
qed

theorem SetUpPod_first_failure_witness:
  "\<exists>r plugin' w' evs.
     SetUpPod (example_engine [''net-b'']) plugin_ab pod_ab world0 = (r, plugin', w') \<and>
     trace w' = trace world0 @ evs \<and> length evs = 3 \<and>
     is_add (evs ! 0) \<and> is_add (evs ! 1) \<and> is_add (evs ! 2) \<and>
     ev_error (evs ! 0) = None \<and> ev_result (evs ! 0) \<noteq> None \<and>
     ev_error (evs ! 1) = None \<and> ev_result (evs ! 1) \<noteq> None \<and>
     ev_error (evs ! 2) = Some ''plugin failed'' \<and>
     r = Inl (Err (ErrExternal ''plugin failed''))"
proof -
  obtain r p' w' where
    t: "SetUpPod (example_engine [''net-b'']) plugin_ab pod_ab world0 = (r, p', w')"
    by (cases "SetUpPod (example_engine [''net-b'']) plugin_ab pod_ab world0") auto
  from SetUpPod_first_failure[OF t] obtain evs where
    tr: "trace w' = trace world0 @ evs" and
    adds: "\<forall>ev \<in> set evs. is_add ev" and
    fail: "\<forall>j e. j < length evs \<and> ev_error (evs ! j) = Some e \<longrightarrow>
        Suc j = length evs \<and> r = Inl (Err (ErrExternal e)) \<and>
        (\<forall>k < j. ev_error (evs ! k) = None \<and> ev_result (evs ! k) \<noteq> None)"
    by blast
  have "map ev_error (trace w') = [None, None, Some ''plugin failed'']"
    using ex_setup_fail t by simp
  then have "map ev_error evs = [None, None, Some ''plugin failed'']"
    using tr by (simp add: ex_requested)
  then obtain a b c where abc: "evs = [a, b, c]" "ev_error c = Some ''plugin failed''"
    by (auto simp: map_eq_Cons_conv)
  have len: "length evs = 3" and n: "evs ! 0 = a" "evs ! 1 = b" "evs ! 2 = c"
    using abc(1) by simp_all
  have "(2::nat) < length evs \<and> ev_error (evs ! 2) = Some ''plugin failed''"
    using abc n len by simp
  with fail have f: "r = Inl (Err (ErrExternal ''plugin failed''))"
    "\<forall>k < (2::nat). ev_error (evs ! k) = None \<and> ev_result (evs ! k) \<noteq> None"
    by blast+
  have "(0::nat) < 2" "(1::nat) < 2" by simp_all
  with f(2) have before: "ev_error (evs ! 0) = None \<and> ev_result (evs ! 0) \<noteq> None"
    "ev_error (evs ! 1) = None \<and> ev_result (evs ! 1) \<noteq> None" by blast+
  have is_adds: "is_add (evs ! 0) \<and> is_add (evs ! 1) \<and> is_add (evs ! 2)"
    using adds abc(1) by simp
  have e2: "ev_error (evs ! 2) = Some ''plugin failed''" using abc n by simp
  show ?thesis using t tr len is_adds before e2 f(1) by blast
qed

subsection \<open>The resolved names and the interface names\<close>

text \<open>
  A loop that stops at a name missing from the registry returns
  \<^verbatim>\<open>ErrNetworkNotFound\<close> of that name, and a loop whose steps all succeed stops at the
  first name that is missing.
\<close>

lemma loop_outcome_not_found:
  assumes "loop_outcome plugin names evs (Some (Err (ErrNetworkNotFound netName)))"
  shows "length evs < length names \<and> netName = names ! length evs \<and>
    Mapping.lookup (networks plugin) netName = None"
  using assms by (auto simp: loop_outcome_def split: option.splits)

lemma loop_outcome_reaches_missing:
  assumes "loop_outcome plugin names evs r" "\<forall>ev \<in> set evs. ev_error ev = None"
    "length evs < length names" "Mapping.lookup (networks plugin) (names ! length evs) = None"
  shows "r = Some (Err (ErrNetworkNotFound (names ! length evs)))"
proof (cases r)
  case None
  then show ?thesis using assms(1,3) by (simp add: loop_outcome_def)
next
  case (Some f)
  have "\<not> (evs \<noteq> [] \<and> (\<exists>e. ev_error (last evs) = Some e \<and> f = Err (ErrExternal e)))"
    using assms(2) by (cases "evs = []") auto
  then show ?thesis using assms(1,4) Some by (auto simp: loop_outcome_def)
qed

text \<open>
  The calls of the three entry points, position by position.
\<close>

lemma SetUpPod_positions:
  assumes "SetUpPod engine plugin podNetwork w = (r, plugin', w')"
  shows "\<exists>evs. trace w' = trace w @ evs \<and>
     length evs \<le> Suc (length (requested plugin podNetwork)) \<and>
     (\<forall>j. Suc j < length evs \<longrightarrow>
        is_add (evs ! Suc j) \<and>
        ev_network (evs ! Suc j) =
          Mapping.lookup (networks plugin) (requested plugin podNetwork ! j) \<and>
        ev_network (evs ! Suc j) \<noteq> None \<and>
        ev_IfName (evs ! Suc j) = ''eth'' @ Sprintf_d j) \<and>
     (\<forall>results. r = Inr results \<longrightarrow> length evs = Suc (length (requested plugin podNetwork))) \<and>
     (\<forall>netName. r = Inl (Err (ErrNetworkNotFound netName)) \<longrightarrow>
        evs \<noteq> [] \<and> length evs \<le> length (requested plugin podNetwork) \<and>
        netName = requested plugin podNetwork ! (length evs - 1) \<and>
        Mapping.lookup (networks plugin) netName = None) \<and>
     (evs \<noteq> [] \<and> (\<forall>ev \<in> set evs. ev_error ev = None) \<and>
      length evs \<le> length (requested plugin podNetwork) \<and>
      Mapping.lookup (networks plugin) (requested plugin podNetwork ! (length evs - 1)) = None \<longrightarrow>
        r = Inl (Err (ErrNetworkNotFound (requested plugin podNetwork ! (length evs - 1)))))"
  using assms
proof (cases rule: SetUpPod_trace)
  case none
  then have "trace w' = trace w @ []" "\<forall>results. r \<noteq> Inr results"
    "\<forall>netName. r \<noteq> Inl (Err (ErrNetworkNotFound netName))" by auto
  then show ?thesis by (intro exI[of _ "[]"]) simp
next
  case (lo_failed lo_ev e)
  then have "\<forall>results. r \<noteq> Inr results"
    "\<forall>netName. r \<noteq> Inl (Err (ErrNetworkNotFound netName))" by auto
  then show ?thesis using lo_failed(1,3) by (intro exI[of _ "[lo_ev]"]) simp
next
  case (looped lo_ev evs r')
  let ?names = "requested plugin podNetwork"
  have len: "length evs \<le> length ?names" using looped(4) by (rule follows_length)
  have 2: "is_add (evs ! j)"
      "ev_network (evs ! j) = Mapping.lookup (networks plugin) (?names ! j)"
      "ev_network (evs ! j) \<noteq> None" "ev_IfName (evs ! j) = ''eth'' @ Sprintf_d j"
    if "j < length evs" for j
  proof -
    have "at_network plugin (add_call podNetwork) (?names ! j) j (evs ! j)"
      using follows_nth[OF looped(4) that] by simp
    from at_network_add[OF this]
    show "is_add (evs ! j)"
      "ev_network (evs ! j) = Mapping.lookup (networks plugin) (?names ! j)"
      "ev_network (evs ! j) \<noteq> None" "ev_IfName (evs ! j) = ''eth'' @ Sprintf_d j"
      by blast+
  qed
  have 3: "length evs = length ?names" if "r = Inr results" for results
  proof -
    have "r' = None" using that looped(6) by (cases r') simp_all
    then show ?thesis using loop_outcome_None looped(5) by blast
  qed
  have 4: "length evs < length ?names \<and> netName = ?names ! length evs \<and>
      Mapping.lookup (networks plugin) netName = None"
    if "r = Inl (Err (ErrNetworkNotFound netName))" for netName
  proof -
    have "r' = Some (Err (ErrNetworkNotFound netName))"
      using that looped(6) by (cases r') simp_all
    then show ?thesis using loop_outcome_not_found looped(5) by blast
  qed
  have 5: "r = Inl (Err (ErrNetworkNotFound (?names ! length evs)))"
    if "\<forall>ev \<in> set evs. ev_error ev = None" "length evs < length ?names"
      "Mapping.lookup (networks plugin) (?names ! length evs) = None"
  proof -
    have "r' = Some (Err (ErrNetworkNotFound (?names ! length evs)))"
      using loop_outcome_reaches_missing[OF looped(5) that] .
    then show ?thesis using looped(6) by simp
  qed
  show ?thesis
  proof (intro exI[of _ "lo_ev # evs"] conjI allI impI)
    show "trace w' = trace w @ lo_ev # evs" by (rule looped(1))
    show "length (lo_ev # evs) \<le> Suc (length ?names)" using len by simp
  next
    fix j assume "Suc j < length (lo_ev # evs)"
    then have j: "j < length evs" by simp
    show "is_add ((lo_ev # evs) ! Suc j)" using 2(1)[OF j] by simp
    show "ev_network ((lo_ev # evs) ! Suc j) = Mapping.lookup (networks plugin) (?names ! j)"
      using 2(2)[OF j] by simp
    show "ev_network ((lo_ev # evs) ! Suc j) \<noteq> None" using 2(3)[OF j] by simp
    show "ev_IfName ((lo_ev # evs) ! Suc j) = ''eth'' @ Sprintf_d j" using 2(4)[OF j] by simp
  next
    fix results assume "r = Inr results"
    then show "length (lo_ev # evs) = Suc (length ?names)" using 3 by simp
  next
    fix netName assume a: "r = Inl (Err (ErrNetworkNotFound netName))"
    show "lo_ev # evs \<noteq> []" by simp
    show "length (lo_ev # evs) \<le> length ?names" using 4[OF a] by simp
    show "netName = ?names ! (length (lo_ev # evs) - 1)" using 4[OF a] by simp
    show "Mapping.lookup (networks plugin) netName = None" using 4[OF a] by blast
  next
    assume a: "lo_ev # evs \<noteq> [] \<and> (\<forall>ev \<in> set (lo_ev # evs). ev_error ev = None) \<and>
      length (lo_ev # evs) \<le> length ?names \<and>
      Mapping.lookup (networks plugin) (?names ! (length (lo_ev # evs) - 1)) = None"
    then have "\<forall>ev \<in> set evs. ev_error ev = None" "length evs < length ?names"
      "Mapping.lookup (networks plugin) (?names ! length evs) = None" by simp_all
    from 5[OF this]
    show "r = Inl (Err (ErrNetworkNotFound (?names ! (length (lo_ev # evs) - 1))))" by simp
  qed
qed

lemma TearDownPod_positions:
  assumes "TearDownPod engine plugin podNetwork w = (r, plugin', w')"
  shows "\<exists>evs. trace w' = trace w @ evs \<and>
     length evs \<le> length (requested plugin podNetwork) \<and>
     (\<forall>j < length evs.
        is_del (evs ! j) \<and>
        ev_network (evs ! j) = Mapping.lookup (networks plugin) (requested plugin podNetwork ! j) \<and>
        ev_network (evs ! j) \<noteq> None \<and>
        ev_IfName (evs ! j) = ''eth'' @ Sprintf_d j) \<and>
     (r = None \<longrightarrow> length evs = length (requested plugin podNetwork)) \<and>
     (\<forall>netName. r = Some (Err (ErrNetworkNotFound netName)) \<longrightarrow>
        length evs < length (requested plugin podNetwork) \<and>
        netName = requested plugin podNetwork ! length evs \<and>
        Mapping.lookup (networks plugin) netName = None) \<and>
     (checkInitialized plugin podNetwork = None \<and> r \<noteq> Some BlockedOnMutex \<and>
      (\<forall>ev \<in> set evs. ev_error ev = None) \<and>
      length evs < length (requested plugin podNetwork) \<and>
      Mapping.lookup (networks plugin) (requested plugin podNetwork ! length evs) = None \<longrightarrow>
        r = Some (Err (ErrNetworkNotFound (requested plugin podNetwork ! length evs))))"
  using assms
proof (cases rule: TearDownPod_trace)
  case none
  then have "trace w' = trace w @ []" "r \<noteq> None"
    "\<forall>netName. r \<noteq> Some (Err (ErrNetworkNotFound netName))"
    "\<not> (checkInitialized plugin podNetwork = None \<and> r \<noteq> Some BlockedOnMutex)" by auto
  then show ?thesis by (intro exI[of _ "[]"]) auto
next
  case (looped evs)
  let ?names = "requested plugin podNetwork"
  have 1: "length evs \<le> length ?names" using looped(2) by (rule follows_length)
  have 2: "is_del (evs ! j) \<and>
        ev_network (evs ! j) = Mapping.lookup (networks plugin) (?names ! j) \<and>
        ev_network (evs ! j) \<noteq> None \<and> ev_IfName (evs ! j) = ''eth'' @ Sprintf_d j"
    if "j < length evs" for j
  proof -
    have "at_network plugin (del_call podNetwork) (?names ! j) j (evs ! j)"
      using follows_nth[OF looped(2) that] by simp
    from at_network_del[OF this] show ?thesis by metis
  qed
  have 3: "length evs = length ?names" if "r = None"
    using loop_outcome_None[of plugin _ evs] looped(3) that by auto
  have 4: "length evs < length ?names \<and> netName = ?names ! length evs \<and>
      Mapping.lookup (networks plugin) netName = None"
    if "r = Some (Err (ErrNetworkNotFound netName))" for netName
    using loop_outcome_not_found looped(3) that by blast
  have 5: "r = Some (Err (ErrNetworkNotFound (?names ! length evs)))"
    if "checkInitialized plugin podNetwork = None \<and> r \<noteq> Some BlockedOnMutex \<and>
      (\<forall>ev \<in> set evs. ev_error ev = None) \<and> length evs < length ?names \<and>
      Mapping.lookup (networks plugin) (?names ! length evs) = None"
  proof -
    from that have "\<forall>ev \<in> set evs. ev_error ev = None" "length evs < length ?names"
      "Mapping.lookup (networks plugin) (?names ! length evs) = None" by simp_all
    then show ?thesis by (rule loop_outcome_reaches_missing[OF looped(3)])
  qed
  show ?thesis using looped(1) 1 2 3 4 5 by blast
qed

lemma GetPodNetworkStatus_positions:
  assumes "GetPodNetworkStatus engine plugin podNetwork w = (r, plugin', w')"
  shows "\<exists>evs. trace w' = trace w @ evs \<and>
     length evs \<le> length (requested plugin podNetwork) \<and>
     (\<forall>j < length evs.
        is_details (evs ! j) \<and>
        Mapping.lookup (networks plugin) (requested plugin podNetwork ! j) \<noteq> None \<and>
        ev_IfName (evs ! j) = ''eth'' @ Sprintf_d j) \<and>
     (\<forall>results. r = Inr results \<longrightarrow> length evs = length (requested plugin podNetwork)) \<and>
     (\<forall>netName. r = Inl (Err (ErrNetworkNotFound netName)) \<longrightarrow>
        length evs < length (requested plugin podNetwork) \<and>
        netName = requested plugin podNetwork ! length evs \<and>
        Mapping.lookup (networks plugin) netName = None) \<and>
     (r \<noteq> Inl BlockedOnMutex \<and> (\<forall>ev \<in> set evs. ev_error ev = None) \<and>
      length evs < length (requested plugin podNetwork) \<and>
      Mapping.lookup (networks plugin) (requested plugin podNetwork ! length evs) = None \<longrightarrow>
        r = Inl (Err (ErrNetworkNotFound (requested plugin podNetwork ! length evs))))"
  using assms
proof (cases rule: GetPodNetworkStatus_trace)
  case none
  then have "trace w' = trace w @ []" "\<forall>results. r \<noteq> Inr results"
    "\<forall>netName. r \<noteq> Inl (Err (ErrNetworkNotFound netName))" by auto
  then show ?thesis using none(2) by (intro exI[of _ "[]"]) simp
next
  case (looped evs r')
  let ?names = "requested plugin podNetwork"
  have 1: "length evs \<le> length ?names" using looped(2) by (rule follows_length)
  have 2: "is_details (evs ! j) \<and>
        Mapping.lookup (networks plugin) (?names ! j) \<noteq> None \<and>
        ev_IfName (evs ! j) = ''eth'' @ Sprintf_d j"
    if "j < length evs" for j
  proof -
    have "at_network plugin (details_call plugin podNetwork) (?names ! j) j (evs ! j)"
      using follows_nth[OF looped(2) that] by simp
    from at_network_details[OF this] show ?thesis by metis
  qed
  have 3: "length evs = length ?names" if "r = Inr results" for results
  proof -
    have "r' = None" using that looped(4) by (cases r') simp_all
    then show ?thesis using loop_outcome_None looped(3) by blast
  qed
  have 4: "length evs < length ?names \<and> netName = ?names ! length evs \<and>
      Mapping.lookup (networks plugin) netName = None"
    if "r = Inl (Err (ErrNetworkNotFound netName))" for netName
  proof -
    have "r' = Some (Err (ErrNetworkNotFound netName))"
      using that looped(4) by (cases r') simp_all
    then show ?thesis using loop_outcome_not_found looped(3) by blast
  qed
  have 5: "r = Inl (Err (ErrNetworkNotFound (?names ! length evs)))"
    if "r \<noteq> Inl BlockedOnMutex \<and> (\<forall>ev \<in> set evs. ev_error ev = None) \<and>
      length evs < length ?names \<and>
      Mapping.lookup (networks plugin) (?names ! length evs) = None"
  proof -
    from that have "\<forall>ev \<in> set evs. ev_error ev = None" "length evs < length ?names"
      "Mapping.lookup (networks plugin) (?names ! length evs) = None" by simp_all
    then have "r' = Some (Err (ErrNetworkNotFound (?names ! length evs)))"
      by (rule loop_outcome_reaches_missing[OF looped(3)])
    then show ?thesis using looped(4) by simp
  qed
  show ?thesis using looped(1) 1 2 3 4 5 by blast
qed

text \<open>
  The check of \<^verbatim>\<open>checkInitialized\<close> fails only for a pod without explicit networks
  when the default network does not resolve; \<^verbatim>\<open>SetUpPod\<close> and \<^verbatim>\<open>TearDownPod\<close> return
  its error before they take the pod lock.
\<close>

lemma checkInitialized_Some_iff:
  "checkInitialized plugin podNetwork \<noteq> None \<longleftrightarrow>
     Networks podNetwork = [] \<and> getDefaultNetwork plugin = None"
  by (simp add: checkInitialized_def)

lemma uninitialized_calls:
  assumes "Networks podNetwork = [] \<and> getDefaultNetwork plugin = None"
  shows "SetUpPod engine plugin podNetwork w = (Inl (Err ErrUninitialized), plugin, w)"
    "TearDownPod engine plugin podNetwork w = (Some (Err ErrUninitialized), plugin, w)"
  using assms by (simp_all add: SetUpPod_def TearDownPod_def checkInitialized_def)

text \<open>The examples: two networks attached, queried, and a request naming a missing network.\<close>

lemma ex_az:
  "requested plugin_a pod_az = [''net-a'', ''net-z'']"
  "Mapping.lookup (networks plugin_a) ''net-z'' = None"
  "checkInitialized plugin_a pod_az = None"
  "fst (TearDownPod (example_engine []) plugin_a pod_az world0) \<noteq> Some BlockedOnMutex"
  "map ev_error (trace (snd (snd (TearDownPod (example_engine []) plugin_a pod_az world0)))) = [None]"
  by (simp_all add: requested_def pod_az_def eval_defs)

lemma ex_ab_ok:
  "\<exists>results. fst (SetUpPod (example_engine []) plugin_ab pod_ab world0) = Inr results"
  "\<exists>results. fst (GetPodNetworkStatus (example_engine []) plugin_ab pod_ab world0) = Inr results"
  by (simp_all add: eval_defs)

lemma ex_x:
  "Networks pod_web = []" "getDefaultNetwork plugin_x = None"
  by (simp_all add: eval_defs)

text \<open>
  Claim C3 (amended).  The names a request resolves to (\<open>requested\<close>) are its explicit
  list, verbatim and in that order, when the list is not empty, and otherwise the one
  current default network name; \<^verbatim>\<open>forEachNetwork\<close> iterates over exactly this list,
  counting from 0.  The operation at position \<open>i\<close> (counted over the requested networks
  only, so after the loopback call of \<^verbatim>\<open>SetUpPod\<close>) is on the network stored under the
  \<open>i\<close>-th resolved name, with the interface name \<^verbatim>\<open>eth\<close>\<open>i\<close>, for \<^verbatim>\<open>SetUpPod\<close>,
  \<^verbatim>\<open>TearDownPod\<close> and \<^verbatim>\<open>GetPodNetworkStatus\<close> alike, and a call that succeeds has
  operated on all \<open>N\<close> resolved names, \<^verbatim>\<open>eth0\<close> to \<^verbatim>\<open>eth\<close>\<open>(N-1)\<close>.  A call that returns
  \<^verbatim>\<open>ErrNetworkNotFound\<close> names the first resolved name that is not in the registry,
  reached after every earlier operation; and when the iteration reaches a resolved name
  that is not in the registry (every earlier operation succeeded), the call fails
  with \<^verbatim>\<open>ErrNetworkNotFound\<close> of that name.  \<^verbatim>\<open>SetUpPod\<close> and \<^verbatim>\<open>TearDownPod\<close> do not get
  that far for a request without explicit networks when the default network is not
  in the registry: they return \<^verbatim>\<open>ErrUninitialized\<close> and call nothing.
\<close>

theorem forEachNetwork_resolution_and_positions:
  "requested plugin podNetwork =
     (if Networks podNetwork = [] then [defaultNetName plugin] else Networks podNetwork) \<and>
   forEachNetwork plugin podNetwork forEachFunc s =
     forEachNetwork_loop plugin podNetwork forEachFunc 0 (requested plugin podNetwork) s \<and>
   (''eth'' @ Sprintf_d 0 = ''eth0'' \<and> ''eth'' @ Sprintf_d 1 = ''eth1'' \<and>
    ''eth'' @ Sprintf_d 12 = ''eth12'') \<and>
   (SetUpPod engine plugin podNetwork w = (r1, plugin1, w1) \<longrightarrow>
    (\<exists>evs. trace w1 = trace w @ evs \<and>
     length evs \<le> Suc (length (requested plugin podNetwork)) \<and>
     (\<forall>j. Suc j < length evs \<longrightarrow>
        is_add (evs ! Suc j) \<and>
        ev_network (evs ! Suc j) =
          Mapping.lookup (networks plugin) (requested plugin podNetwork ! j) \<and>
        ev_network (evs ! Suc j) \<noteq> None \<and>
        ev_IfName (evs ! Suc j) = ''eth'' @ Sprintf_d j) \<and>
     (\<forall>results. r1 = Inr results \<longrightarrow> length evs = Suc (length (requested plugin podNetwork))) \<and>
     (\<forall>netName. r1 = Inl (Err (ErrNetworkNotFound netName)) \<longrightarrow>
        evs \<noteq> [] \<and> length evs \<le> length (requested plugin podNetwork) \<and>
        netName = requested plugin podNetwork ! (length evs - 1) \<and>
        Mapping.lookup (networks plugin) netName = None) \<and>
     (evs \<noteq> [] \<and> (\<forall>ev \<in> set evs. ev_error ev = None) \<and>
      length evs \<le> length (requested plugin podNetwork) \<and>
      Mapping.lookup (networks plugin) (requested plugin podNetwork ! (length evs - 1)) = None \<longrightarrow>
        r1 = Inl (Err (ErrNetworkNotFound (requested plugin podNetwork ! (length evs - 1))))))) \<and>
   (TearDownPod engine plugin podNetwork w = (r2, plugin2, w2) \<longrightarrow>
    (\<exists>evs. trace w2 = trace w @ evs \<and>
     length evs \<le> length (requested plugin podNetwork) \<and>
     (\<forall>j < length evs.
        is_del (evs ! j) \<and>
        ev_network (evs ! j) = Mapping.lookup (networks plugin) (requested plugin podNetwork ! j) \<and>
        ev_network (evs ! j) \<noteq> None \<and>
        ev_IfName (evs ! j) = ''eth'' @ Sprintf_d j) \<and>
     (r2 = None \<longrightarrow> length evs = length (requested plugin podNetwork)) \<and>
     (\<forall>netName. r2 = Some (Err (ErrNetworkNotFound netName)) \<longrightarrow>
        length evs < length (requested plugin podNetwork) \<and>
        netName = requested plugin podNetwork ! length evs \<and>
        Mapping.lookup (networks plugin) netName = None) \<and>
     (checkInitialized plugin podNetwork = None \<and> r2 \<noteq> Some BlockedOnMutex \<and>
      (\<forall>ev \<in> set evs. ev_error ev = None) \<and>
      length evs < length (requested plugin podNetwork) \<and>
      Mapping.lookup (networks plugin) (requested plugin podNetwork ! length evs) = None \<longrightarrow>
        r2 = Some (Err (ErrNetworkNotFound (requested plugin podNetwork ! length evs)))))) \<and>
   (GetPodNetworkStatus engine plugin podNetwork w = (r3, plugin3, w3) \<longrightarrow>
    (\<exists>evs. trace w3 = trace w @ evs \<and>
     length evs \<le> length (requested plugin podNetwork) \<and>
     (\<forall>j < length evs.
        is_details (evs ! j) \<and>
        Mapping.lookup (networks plugin) (requested plugin podNetwork ! j) \<noteq> None \<and>
        ev_IfName (evs ! j) = ''eth'' @ Sprintf_d j) \<and>
     (\<forall>results. r3 = Inr results \<longrightarrow> length evs = length (requested plugin podNetwork)) \<and>
     (\<forall>netName. r3 = Inl (Err (ErrNetworkNotFound netName)) \<longrightarrow>
        length evs < length (requested plugin podNetwork) \<and>
        netName = requested plugin podNetwork ! length evs \<and>
        Mapping.lookup (networks plugin) netName = None) \<and>
     (r3 \<noteq> Inl BlockedOnMutex \<and> (\<forall>ev \<in> set evs. ev_error ev = None) \<and>
      length evs < length (requested plugin podNetwork) \<and>
      Mapping.lookup (networks plugin) (requested plugin podNetwork ! length evs) = None \<longrightarrow>
        r3 = Inl (Err (ErrNetworkNotFound (requested plugin podNetwork ! length evs)))))) \<and>
   (Networks podNetwork = [] \<and> getDefaultNetwork plugin = None \<longrightarrow>
      SetUpPod engine plugin podNetwork w = (Inl (Err ErrUninitialized), plugin, w) \<and>
      TearDownPod engine plugin podNetwork w = (Some (Err ErrUninitialized), plugin, w))"
proof (intro conjI)
  show "requested plugin podNetwork =
     (if Networks podNetwork = [] then [defaultNetName plugin] else Networks podNetwork)"
    by (simp add: requested_def)
  show "forEachNetwork plugin podNetwork forEachFunc s =
     forEachNetwork_loop plugin podNetwork forEachFunc 0 (requested plugin podNetwork) s"
    by (rule forEachNetwork_requested)
  show "''eth'' @ Sprintf_d 0 = ''eth0''" "''eth'' @ Sprintf_d 1 = ''eth1''"
    "''eth'' @ Sprintf_d 12 = ''eth12''"
    by (simp_all add: Sprintf_d.simps)
  show "Networks podNetwork = [] \<and> getDefaultNetwork plugin = None \<longrightarrow>
      SetUpPod engine plugin podNetwork w = (Inl (Err ErrUninitialized), plugin, w) \<and>
      TearDownPod engine plugin podNetwork w = (Some (Err ErrUninitialized), plugin, w)"
    using uninitialized_calls[of podNetwork plugin engine w] by simp
qed ((rule impI, erule SetUpPod_positions) | (rule impI, erule TearDownPod_positions) |
     (rule impI, erule GetPodNetworkStatus_positions))+

theorem forEachNetwork_resolution_and_positions_witness:
  "(\<exists>results plugin' w' evs.
      SetUpPod (example_engine []) plugin_ab pod_ab world0 = (Inr results, plugin', w') \<and>
      trace w' = trace world0 @ evs \<and> requested plugin_ab pod_ab = [''net-a'', ''net-b''] \<and>
      length evs = 3 \<and>
      is_add (evs ! 1) \<and> ev_network (evs ! 1) = Mapping.lookup (networks plugin_ab) ''net-a'' \<and>
      ev_IfName (evs ! 1) = ''eth0'' \<and>
      is_add (evs ! 2) \<and> ev_network (evs ! 2) = Mapping.lookup (networks plugin_ab) ''net-b'' \<and>
      ev_IfName (evs ! 2) = ''eth1'') \<and>
   (\<exists>plugin' w' evs.
      TearDownPod (example_engine []) plugin_a pod_az world0 =
        (Some (Err (ErrNetworkNotFound ''net-z'')), plugin', w') \<and>
      trace w' = trace world0 @ evs \<and> requested plugin_a pod_az = [''net-a'', ''net-z''] \<and>
      checkInitialized plugin_a pod_az = None \<and>
      length evs = 1 \<and> is_del (evs ! 0) \<and> ev_IfName (evs ! 0) = ''eth0'' \<and>
      ev_error (evs ! 0) = None \<and>
      Mapping.lookup (networks plugin_a) ''net-z'' = None) \<and>
   (\<exists>results plugin' w' evs.
      GetPodNetworkStatus (example_engine []) plugin_ab pod_ab world0 = (Inr results, plugin', w') \<and>
      trace w' = trace world0 @ evs \<and> length evs = 2 \<and>
      is_details (evs ! 0) \<and> ev_IfName (evs ! 0) = ''eth0'' \<and>
      is_details (evs ! 1) \<and> ev_IfName (evs ! 1) = ''eth1'') \<and>
   (Networks pod_web = [] \<and> getDefaultNetwork plugin_x = None \<and>
    SetUpPod (example_engine []) plugin_x pod_web world0 =
      (Inl (Err ErrUninitialized), plugin_x, world0) \<and>
    TearDownPod (example_engine []) plugin_x pod_web world0 =
      (Some (Err ErrUninitialized), plugin_x, world0))"
proof (intro conjI)
  obtain r p' w' where t: "SetUpPod (example_engine []) plugin_ab pod_ab world0 = (r, p', w')"
    by (cases "SetUpPod (example_engine []) plugin_ab pod_ab world0") auto
  obtain results where r: "r = Inr results" using ex_ab_ok(1) t by auto
  note T = forEachNetwork_resolution_and_positions[where plugin = plugin_ab and podNetwork = pod_ab
      and engine = "example_engine []" and w = world0 and ?r1.0 = r and ?plugin1.0 = p' and ?w1.0 = w']
  note eth = T[THEN conjunct2, THEN conjunct2, THEN conjunct1]
  from T[THEN conjunct2, THEN conjunct2, THEN conjunct2, THEN conjunct1, THEN mp, OF t]
  obtain evs where tr: "trace w' = trace world0 @ evs" and
    pos: "\<forall>j. Suc j < length evs \<longrightarrow>
        is_add (evs ! Suc j) \<and>
        ev_network (evs ! Suc j) =
          Mapping.lookup (networks plugin_ab) (requested plugin_ab pod_ab ! j) \<and>
        ev_network (evs ! Suc j) \<noteq> None \<and>
        ev_IfName (evs ! Suc j) = ''eth'' @ Sprintf_d j" and
    ok: "\<forall>results. r = Inr results \<longrightarrow> length evs = Suc (length (requested plugin_ab pod_ab))"
    by blast
  have len: "length evs = 3" using ok r by (simp add: ex_requested)
  have "Suc 0 < length evs" "Suc 1 < length evs" using len by simp_all
  with pos have
    "is_add (evs ! Suc 0) \<and>
     ev_network (evs ! Suc 0) = Mapping.lookup (networks plugin_ab) (requested plugin_ab pod_ab ! 0) \<and>
     ev_IfName (evs ! Suc 0) = ''eth'' @ Sprintf_d 0"
    "is_add (evs ! Suc 1) \<and>
     ev_network (evs ! Suc 1) = Mapping.lookup (networks plugin_ab) (requested plugin_ab pod_ab ! 1) \<and>
     ev_IfName (evs ! Suc 1) = ''eth'' @ Sprintf_d 1"
    by blast+
  then have p1: "is_add (evs ! 1) \<and> ev_network (evs ! 1) = Mapping.lookup (networks plugin_ab) ''net-a'' \<and>
      ev_IfName (evs ! 1) = ''eth0''"
    and p2: "is_add (evs ! 2) \<and> ev_network (evs ! 2) = Mapping.lookup (networks plugin_ab) ''net-b'' \<and>
      ev_IfName (evs ! 2) = ''eth1''"
    using eth unfolding ex_requested by (simp_all add: numeral_2_eq_2)
  show "\<exists>results plugin' w' evs.
      SetUpPod (example_engine []) plugin_ab pod_ab world0 = (Inr results, plugin', w') \<and>
      trace w' = trace world0 @ evs \<and> requested plugin_ab pod_ab = [''net-a'', ''net-b''] \<and>
      length evs = 3 \<and>
      is_add (evs ! 1) \<and> ev_network (evs ! 1) = Mapping.lookup (networks plugin_ab) ''net-a'' \<and>
      ev_IfName (evs ! 1) = ''eth0'' \<and>
      is_add (evs ! 2) \<and> ev_network (evs ! 2) = Mapping.lookup (networks plugin_ab) ''net-b'' \<and>
      ev_IfName (evs ! 2) = ''eth1''"
    using t[unfolded r] tr ex_requested(1) len p1 p2 by blast
next
  obtain r p' w' where t: "TearDownPod (example_engine []) plugin_a pod_az world0 = (r, p', w')"
    by (cases "TearDownPod (example_engine []) plugin_a pod_az world0") auto
  note T = forEachNetwork_resolution_and_positions[where plugin = plugin_a and podNetwork = pod_az
      and engine = "example_engine []" and w = world0 and ?r2.0 = r and ?plugin2.0 = p' and ?w2.0 = w']
  note eth = T[THEN conjunct2, THEN conjunct2, THEN conjunct1]
  from T[THEN conjunct2, THEN conjunct2, THEN conjunct2, THEN conjunct2, THEN conjunct1, THEN mp, OF t]
  obtain evs where tr: "trace w' = trace world0 @ evs" and
    pos: "\<forall>j < length evs.
        is_del (evs ! j) \<and>
        ev_network (evs ! j) = Mapping.lookup (networks plugin_a) (requested plugin_a pod_az ! j) \<and>
        ev_network (evs ! j) \<noteq> None \<and>
        ev_IfName (evs ! j) = ''eth'' @ Sprintf_d j" and
    reach: "checkInitialized plugin_a pod_az = None \<and> r \<noteq> Some BlockedOnMutex \<and>
      (\<forall>ev \<in> set evs. ev_error ev = None) \<and>
      length evs < length (requested plugin_a pod_az) \<and>
      Mapping.lookup (networks plugin_a) (requested plugin_a pod_az ! length evs) = None \<longrightarrow>
        r = Some (Err (ErrNetworkNotFound (requested plugin_a pod_az ! length evs)))"
    by blast
  have "map ev_error (trace w') = [None]" using ex_az(5) t by simp
  then have "map ev_error evs = [None]" using tr by (simp add: ex_requested)
  then obtain a where a: "evs = [a]" "ev_error a = None" by (auto simp: map_eq_Cons_conv)
  have len: "length evs = 1" and e0: "ev_error (evs ! 0) = None" using a by simp_all
  have nb: "r \<noteq> Some BlockedOnMutex" using ex_az(4) t by simp
  have "checkInitialized plugin_a pod_az = None \<and> r \<noteq> Some BlockedOnMutex \<and>
      (\<forall>ev \<in> set evs. ev_error ev = None) \<and>
      length evs < length (requested plugin_a pod_az) \<and>
      Mapping.lookup (networks plugin_a) (requested plugin_a pod_az ! length evs) = None"
    using ex_az(2,3) nb a by (simp add: ex_az(1))
  with reach have "r = Some (Err (ErrNetworkNotFound (requested plugin_a pod_az ! length evs)))"
    by blast
  then have r: "r = Some (Err (ErrNetworkNotFound ''net-z''))" using len by (simp add: ex_az(1))
  have "(0::nat) < length evs" using len by simp
  with pos have "is_del (evs ! 0) \<and> ev_IfName (evs ! 0) = ''eth'' @ Sprintf_d 0" by blast
  then have p0: "is_del (evs ! 0) \<and> ev_IfName (evs ! 0) = ''eth0''" using eth by simp
  show "\<exists>plugin' w' evs.
      TearDownPod (example_engine []) plugin_a pod_az world0 =
        (Some (Err (ErrNetworkNotFound ''net-z'')), plugin', w') \<and>
      trace w' = trace world0 @ evs \<and> requested plugin_a pod_az = [''net-a'', ''net-z''] \<and>
      checkInitialized plugin_a pod_az = None \<and>
      length evs = 1 \<and> is_del (evs ! 0) \<and> ev_IfName (evs ! 0) = ''eth0'' \<and>
      ev_error (evs ! 0) = None \<and>
      Mapping.lookup (networks plugin_a) ''net-z'' = None"
    using t[unfolded r] tr ex_az(1,2,3) len p0 e0 by blast
next
  obtain r p' w' where
    t: "GetPodNetworkStatus (example_engine []) plugin_ab pod_ab world0 = (r, p', w')"
    by (cases "GetPodNetworkStatus (example_engine []) plugin_ab pod_ab world0") auto
  obtain results where r: "r = Inr results" using ex_ab_ok(2) t by auto
  note T = forEachNetwork_resolution_and_positions[where plugin = plugin_ab and podNetwork = pod_ab
      and engine = "example_engine []" and w = world0 and ?r3.0 = r and ?plugin3.0 = p' and ?w3.0 = w']
  note eth = T[THEN conjunct2, THEN conjunct2, THEN conjunct1]
  from T[THEN conjunct2, THEN conjunct2, THEN conjunct2, THEN conjunct2, THEN conjunct2,
      THEN conjunct1, THEN mp, OF t]
  obtain evs where tr: "trace w' = trace world0 @ evs" and
    pos: "\<forall>j < length evs.
        is_details (evs ! j) \<and>
        Mapping.lookup (networks plugin_ab) (requested plugin_ab pod_ab ! j) \<noteq> None \<and>
        ev_IfName (evs ! j) = ''eth'' @ Sprintf_d j" and
    ok: "\<forall>results. r = Inr results \<longrightarrow> length evs = length (requested plugin_ab pod_ab)"
    by blast
  have len: "length evs = 2" using ok r by (simp add: ex_requested)
  have "(0::nat) < length evs" "(1::nat) < length evs" using len by simp_all
  with pos have "is_details (evs ! 0) \<and> ev_IfName (evs ! 0) = ''eth'' @ Sprintf_d 0"
    "is_details (evs ! 1) \<and> ev_IfName (evs ! 1) = ''eth'' @ Sprintf_d 1" by blast+
  then have p: "is_details (evs ! 0) \<and> ev_IfName (evs ! 0) = ''eth0''"
    "is_details (evs ! 1) \<and> ev_IfName (evs ! 1) = ''eth1''" using eth by simp_all
  show "\<exists>results plugin' w' evs.
      GetPodNetworkStatus (example_engine []) plugin_ab pod_ab world0 = (Inr results, plugin', w') \<and>
      trace w' = trace world0 @ evs \<and> length evs = 2 \<and>
      is_details (evs ! 0) \<and> ev_IfName (evs ! 0) = ''eth0'' \<and>
      is_details (evs ! 1) \<and> ev_IfName (evs ! 1) = ''eth1''"
    using t[unfolded r] tr len p by blast
next
  note T = forEachNetwork_resolution_and_positions[where plugin = plugin_x and podNetwork = pod_web
      and engine = "example_engine []" and w = world0]
  note u = T[THEN conjunct2, THEN conjunct2, THEN conjunct2, THEN conjunct2, THEN conjunct2,
      THEN conjunct2, THEN mp, OF conjI[OF ex_x]]
  show "Networks pod_web = []" "getDefaultNetwork plugin_x = None" by (rule ex_x)+
  show "SetUpPod (example_engine []) plugin_x pod_web world0 =
      (Inl (Err ErrUninitialized), plugin_x, world0)" using u by (rule conjunct1)
  show "TearDownPod (example_engine []) plugin_x pod_web world0 =
      (Some (Err ErrUninitialized), plugin_x, world0)" using u by (rule conjunct2)
qed

text \<open>
  After \<^verbatim>\<open>InitCNI\<close> with a default name that no file declares, a request without explicit
  networks resolves to that name, which is not in the registry; \<^verbatim>\<open>SetUpPod\<close> and
  \<^verbatim>\<open>TearDownPod\<close> return \<^verbatim>\<open>ErrUninitialized\<close>, not \<^verbatim>\<open>ErrNetworkNotFound\<close>.
\<close>

theorem forEachNetwork_not_found_counterexample:
  "\<exists>plugin.
     InitCNI example_host ''net-x'' ''/etc/cni/net.d'' [] = Inr plugin \<and>
     requested plugin pod_web = [''net-x''] \<and>
     Mapping.lookup (networks plugin) ''net-x'' = None \<and>
     fst (SetUpPod (example_engine []) plugin pod_web world0) = Inl (Err ErrUninitialized) \<and>
     fst (SetUpPod (example_engine []) plugin pod_web world0) \<noteq>
       Inl (Err (ErrNetworkNotFound ''net-x'')) \<and>
     fst (TearDownPod (example_engine []) plugin pod_web world0) = Some (Err ErrUninitialized) \<and>
     fst (TearDownPod (example_engine []) plugin pod_web world0) \<noteq>
       Some (Err (ErrNetworkNotFound ''net-x''))"
proof -
  obtain nets plugin where k: "Mapping.keys nets = {''net-a'', ''b.conf''}"
    and i: "InitCNI example_host ''net-x'' ''/etc/cni/net.d'' [] = Inr plugin"
    and d: "defaultNetName plugin = ''net-x''" and n: "networks plugin = nets"
    using example_InitCNI[of "''net-x''"] by fastforce
  have "''net-x'' \<notin> Mapping.keys nets" using k by simp
  then have l: "Mapping.lookup (networks plugin) ''net-x'' = None"
    using n by (auto simp: Mapping.keys_dom_lookup)
  have q: "requested plugin pod_web = [''net-x'']" by (simp add: requested_def pod_web_def d)
  have c: "checkInitialized plugin pod_web = Some ErrUninitialized"
    using l d by (simp add: checkInitialized_def getDefaultNetwork_def getDefaultNetworkName_def
        getNetwork_def pod_web_def)
  have s: "fst (SetUpPod (example_engine []) plugin pod_web world0) = Inl (Err ErrUninitialized)"
    using c by (simp add: SetUpPod_def)
  have t: "fst (TearDownPod (example_engine []) plugin pod_web world0) = Some (Err ErrUninitialized)"
    using c by (simp add: TearDownPod_def)
  show ?thesis using i q l s t by auto
qed

end
